theory Spec2Isabelle
  imports Main
begin

section \<open>JavaScript strings and the character-class validators (validator/is.js)\<close>

text \<open>
  Strings are lists of characters.  All character classes of \<open>is.js\<close> that are used below
  consist of ASCII characters only, so a character outside ASCII is outside each class
  whether it is counted as one UTF-16 code unit or as several UTF-8 bytes.
\<close>

definition char_code :: "char \<Rightarrow> nat" where
  "char_code c = of_char c"

text \<open>The class \<open>\w\<close> of a JavaScript regular expression without the \<open>u\<close> and \<open>i\<close> flags:
  \<open>[A-Za-z0-9_]\<close>.\<close>

definition word_char :: "char \<Rightarrow> bool" where
  "word_char c =
     ((48 \<le> char_code c \<and> char_code c \<le> 57) \<or> (65 \<le> char_code c \<and> char_code c \<le> 90)
      \<or> char_code c = 95 \<or> (97 \<le> char_code c \<and> char_code c \<le> 122))"

text \<open>
  \<open>NCHAR: /^[-|.|_|\w]+$/\<close>.  Inside a character class the bar is an
  ordinary character, so the class holds \<open>-\<close>, \<open>|\<close>, \<open>.\<close>, \<open>_\<close> and the word characters.
\<close>

definition NCHAR_class :: "char \<Rightarrow> bool" where
  "NCHAR_class c =
     (char_code c = 0x2D \<or> c = CHR ''|'' \<or> char_code c = 0x2E \<or> char_code c = 0x5F \<or> word_char c)"

text \<open>\<open>NQSCHAR: /^[ -!|#-[|]-~]+$/\<close>; the bar (\<open>0x7C\<close>) lies
  in the last range anyway.\<close>

definition NQSCHAR_class :: "char \<Rightarrow> bool" where
  "NQSCHAR_class c =
     ((0x20 \<le> char_code c \<and> char_code c \<le> 0x21) \<or> c = CHR ''|'' \<or> (0x23 \<le> char_code c \<and> char_code c \<le> 0x5B)
      \<or> (0x5D \<le> char_code c \<and> char_code c \<le> 0x7E))"

text \<open>\<open>VSCHAR: /^[ -~]+$/\<close>.\<close>

definition VSCHAR_class :: "char \<Rightarrow> bool" where
  "VSCHAR_class c = (0x20 \<le> char_code c \<and> char_code c \<le> 0x7E)"

text \<open>An anchored \<open>^[class]+$\<close> (no \<open>m\<close> flag): the whole input, at least one character.\<close>

definition matches_plus :: "(char \<Rightarrow> bool) \<Rightarrow> string \<Rightarrow> bool" where
  "matches_plus cls s = (s \<noteq> [] \<and> list_all cls s)"

definition alpha_char :: "char \<Rightarrow> bool" where
  "alpha_char c = ((65 \<le> char_code c \<and> char_code c \<le> 90) \<or> (97 \<le> char_code c \<and> char_code c \<le> 122))"

definition scheme_char :: "char \<Rightarrow> bool" where
  "scheme_char c =
     (alpha_char c \<or> (48 \<le> char_code c \<and> char_code c \<le> 57) \<or> c = CHR ''+'' \<or> c = CHR ''.'' \<or> c = CHR ''-'')"

text \<open>\<open>URI: /^[a-zA-Z][a-zA-Z0-9+.-]+:/\<close>: a letter, then one or more scheme characters,
  then a colon.  The colon is no scheme character, so the greedy run ends exactly in front
  of it.\<close>

definition URI_match :: "string \<Rightarrow> bool" where
  "URI_match s =
     (case s of
        [] \<Rightarrow> False
      | c # cs \<Rightarrow>
          alpha_char c \<and> takeWhile scheme_char cs \<noteq> []
          \<and> (case dropWhile scheme_char cs of [] \<Rightarrow> False | d # _ \<Rightarrow> d = CHR '':''))"

definition nchar :: "string \<Rightarrow> bool" where
  "nchar v = matches_plus NCHAR_class v"

text \<open>
  \<open>RegExp.prototype.test\<close> converts its argument to a string first; a parameter that
  is absent (\<open>undefined\<close>) is tested as the string \<open>undefined\<close>, which lies in every class
  and is no URI.  The validators on optional request parameters:
\<close>

definition to_test_string :: "string option \<Rightarrow> string" where
  "to_test_string v = (case v of None \<Rightarrow> ''undefined'' | Some s \<Rightarrow> s)"

definition nqschar :: "string option \<Rightarrow> bool" where
  "nqschar v = matches_plus NQSCHAR_class (to_test_string v)"

definition vschar :: "string option \<Rightarrow> bool" where
  "vschar v = matches_plus VSCHAR_class (to_test_string v)"

definition uri :: "string option \<Rightarrow> bool" where
  "uri v = URI_match (to_test_string v)"

section \<open>JavaScript values\<close>

text \<open>
  The records the Model hands to the engine (clients, users, authorization codes, tokens)
  are plain JavaScript objects, and the engine reads them property by property, tests them
  for truthiness and passes them on.  They are modelled as values of one type, so that a
  missing property, a property of the wrong kind and an object passed in the place of
  another are all expressible.  A \<open>Date\<close> carries its \<open>getTime()\<close>, the milliseconds since the
  epoch; numbers are integers; an object is the list of its own properties in insertion
  order.
\<close>

datatype jsval =
    JUndefined
  | JNull
  | JBool bool
  | JNum int
  | JStr string
  | JDate int
  | JObj "(string \<times> jsval) list"
  | JArr "jsval list"

fun truthy :: "jsval \<Rightarrow> bool" where
  "truthy JUndefined = False"
| "truthy JNull = False"
| "truthy (JBool b) = b"
| "truthy (JNum n) = (n \<noteq> 0)"
| "truthy (JStr s) = (s \<noteq> [])"
| "truthy (JDate t) = True"
| "truthy (JObj kvs) = True"
| "truthy (JArr xs) = True"

text \<open>A request parameter is a string or absent.\<close>

definition of_opt :: "string option \<Rightarrow> jsval" where
  "of_opt v = (case v of None \<Rightarrow> JUndefined | Some s \<Rightarrow> JStr s)"

definition truthy_opt :: "string option \<Rightarrow> bool" where
  "truthy_opt v = truthy (of_opt v)"

text \<open>\<open>a || b\<close> on request parameters.\<close>

definition or_else :: "string option \<Rightarrow> string option \<Rightarrow> string option" where
  "or_else a b = (if truthy_opt a then a else b)"

text \<open>\<open>v instanceof Date\<close>.\<close>

fun is_Date :: "jsval \<Rightarrow> bool" where
  "is_Date (JDate t) = True"
| "is_Date _ = False"

text \<open>\<open>a === b\<close>.  Strict equality compares primitive values by value.  Objects, arrays and
  dates are compared by reference, which this model does not track: two of them are taken as
  different references.  The identifiers compared in the engine are strings in the data
  model.\<close>

fun strict_eq :: "jsval \<Rightarrow> jsval \<Rightarrow> bool" where
  "strict_eq JUndefined JUndefined = True"
| "strict_eq JNull JNull = True"
| "strict_eq (JBool a) (JBool b) = (a = b)"
| "strict_eq (JNum a) (JNum b) = (a = b)"
| "strict_eq (JStr a) (JStr b) = (a = b)"
| "strict_eq _ _ = False"

text \<open>Assignment \<open>o[k] = v\<close> to an object: an existing property keeps its place, a new one is
  added at the end.\<close>

fun obj_set :: "string \<Rightarrow> 'v \<Rightarrow> (string \<times> 'v) list \<Rightarrow> (string \<times> 'v) list" where
  "obj_set k v [] = [(k, v)]"
| "obj_set k v (p # ps) = (if fst p = k then (k, v) # ps else p # obj_set k v ps)"

subsection \<open>Errors (errors/*.js)\<close>

text \<open>
  An exception is either an \<open>OAuthError\<close> with its \<open>name\<close>, its \<open>code\<close> (also stored as
  \<open>status\<close>) and its \<open>message\<close>, or an error that is no instance of \<open>OAuthError\<close> (a
  \<open>TypeError\<close> of the runtime, an error thrown by the Model), with its \<open>name\<close> and \<open>message\<close>.
\<close>

datatype js_error =
    OAuthError string nat string
  | NativeError string string

fun err_name :: "js_error \<Rightarrow> string" where
  "err_name (OAuthError n c m) = n"
| "err_name (NativeError n m) = n"

fun err_message :: "js_error \<Rightarrow> string" where
  "err_message (OAuthError n c m) = m"
| "err_message (NativeError n m) = m"

text \<open>\<open>error.status\<close>; an error of the runtime has none.\<close>

fun err_status :: "js_error \<Rightarrow> jsval" where
  "err_status (OAuthError n c m) = JNum (int c)"
| "err_status (NativeError n m) = JUndefined"

fun instanceof_OAuthError :: "js_error \<Rightarrow> bool" where
  "instanceof_OAuthError (OAuthError n c m) = True"
| "instanceof_OAuthError (NativeError n m) = False"

text \<open>The table of the package \<open>statuses\<close>, for the codes the engine uses.\<close>

definition statuses :: "nat \<Rightarrow> string" where
  "statuses c =
     (if c = 400 then ''Bad Request'' else if c = 401 then ''Unauthorized''
      else if c = 403 then ''Forbidden'' else if c = 500 then ''Internal Server Error''
      else [])"

text \<open>The constructor of \<open>OAuthError\<close>: an empty message is replaced by the standard message
  of the code.\<close>

definition new_OAuthError :: "string \<Rightarrow> nat \<Rightarrow> string \<Rightarrow> js_error" where
  "new_OAuthError message c name = OAuthError name c (if message = [] then statuses c else message)"

definition InvalidArgumentError :: "string \<Rightarrow> js_error" where
  "InvalidArgumentError message = new_OAuthError message 500 ''invalid_argument''"

definition InvalidClientError :: "string \<Rightarrow> js_error" where
  "InvalidClientError message = new_OAuthError message 400 ''invalid_client''"

definition InvalidGrantError :: "string \<Rightarrow> js_error" where
  "InvalidGrantError message = new_OAuthError message 400 ''invalid_grant''"

definition InvalidRequestError :: "string \<Rightarrow> js_error" where
  "InvalidRequestError message = new_OAuthError message 400 ''invalid_request''"

definition InvalidScopeError :: "string \<Rightarrow> js_error" where
  "InvalidScopeError message = new_OAuthError message 400 ''invalid_scope''"

definition InvalidTokenError :: "string \<Rightarrow> js_error" where
  "InvalidTokenError message = new_OAuthError message 401 ''invalid_token''"

definition InsufficientScopeError :: "string \<Rightarrow> js_error" where
  "InsufficientScopeError message = new_OAuthError message 403 ''insufficient_scope''"

definition UnauthorizedClientError :: "string \<Rightarrow> js_error" where
  "UnauthorizedClientError message = new_OAuthError message 400 ''unauthorized_client''"

definition UnauthorizedRequestError :: "string \<Rightarrow> js_error" where
  "UnauthorizedRequestError message = new_OAuthError message 401 ''unauthorized_request''"

definition UnsupportedResponseTypeError :: "string \<Rightarrow> js_error" where
  "UnsupportedResponseTypeError message = new_OAuthError message 400 ''unsupported_response_type''"

definition AccessDeniedError :: "string \<Rightarrow> js_error" where
  "AccessDeniedError message = new_OAuthError message 400 ''access_denied''"

definition ServerError :: "string \<Rightarrow> js_error" where
  "ServerError message = new_OAuthError message 500 ''server_error''"

text \<open>\<open>new ServerError(error)\<close> with an error in the place of the message takes over the
  message of that error.\<close>

definition ServerError_of :: "js_error \<Rightarrow> js_error" where
  "ServerError_of e = ServerError (err_message e)"

text \<open>Reading a property.  On \<open>undefined\<close> and \<open>null\<close> the runtime throws a \<open>TypeError\<close> (the
  wording of its message depends on the runtime); on an object the property is looked up, an
  absent one reads as \<open>undefined\<close>; properties of the prototypes of strings, numbers, dates and
  arrays are not modelled, none of the names read here is one.\<close>

definition TypeError :: "string \<Rightarrow> js_error" where
  "TypeError message = NativeError ''TypeError'' message"

fun get :: "jsval \<Rightarrow> string \<Rightarrow> js_error + jsval" where
  "get JUndefined k = Inl (TypeError (''Cannot read property '' @ k @ '' of undefined''))"
| "get JNull k = Inl (TypeError (''Cannot read property '' @ k @ '' of null''))"
| "get (JObj kvs) k = Inr (case map_of kvs k of None \<Rightarrow> JUndefined | Some v \<Rightarrow> v)"
| "get v k = Inr JUndefined"

text \<open>\<open>d.getTime()\<close>: defined on dates; on anything else the call throws a \<open>TypeError\<close>
  (\<open>undefined\<close> and \<open>null\<close> have no properties, other values have no method \<open>getTime\<close>).\<close>

fun getTime :: "jsval \<Rightarrow> js_error + int" where
  "getTime (JDate t) = Inr t"
| "getTime JUndefined = Inl (TypeError ''Cannot read property getTime of undefined'')"
| "getTime JNull = Inl (TypeError ''Cannot read property getTime of null'')"
| "getTime v = Inl (TypeError ''getTime is not a function'')"

text \<open>The conversion of a value to a string, as \<open>RegExp.prototype.test\<close> applies it.  The
  rendering of a date depends on the locale; it starts with the name of a weekday and a
  space, and is abbreviated to that here.\<close>

text \<open>The decimal digit of \<open>n < 10\<close>.\<close>

definition digit_char :: "nat \<Rightarrow> char" where
  "digit_char n = ''0123456789'' ! n"

fun show_nat :: "nat \<Rightarrow> string" where
  "show_nat n =
     (if n < 10 then [digit_char n] else show_nat (n div 10) @ [digit_char (n mod 10)])"

definition show_int :: "int \<Rightarrow> string" where
  "show_int i = (if i < 0 then CHR ''-'' # show_nat (nat (- i)) else show_nat (nat i))"

fun join :: "string \<Rightarrow> string list \<Rightarrow> string" where
  "join sep [] = []"
| "join sep [x] = x"
| "join sep (x # y # ys) = x @ sep @ join sep (y # ys)"

fun to_String :: "jsval \<Rightarrow> string" where
  "to_String JUndefined = ''undefined''"
| "to_String JNull = ''null''"
| "to_String (JBool b) = (if b then ''true'' else ''false'')"
| "to_String (JNum n) = show_int n"
| "to_String (JStr s) = s"
| "to_String (JDate t) = ''Thu ''"
| "to_String (JObj kvs) = ''[object Object]''"
| "to_String (JArr xs) =
     join '','' (map (\<lambda>x. case x of JUndefined \<Rightarrow> [] | JNull \<Rightarrow> [] | _ \<Rightarrow> to_String x) xs)"

text \<open>\<open>is.uri\<close> on a value of a record of the Model.\<close>

definition uri_val :: "jsval \<Rightarrow> bool" where
  "uri_val v = URI_match (to_String v)"

section \<open>Requests, responses and the environment of a call\<close>

subsection \<open>Request and Response (request.js, response.js)\<close>

text \<open>
  A \<open>Request\<close> after its construction: the HTTP method (\<open>request.method\<close>) in upper case, the header names in lower
  case, the query and the decoded body as mappings from parameter names to strings.
\<close>

record request =
  req_method :: string
  headers :: "string \<rightharpoonup> string"
  query :: "string \<rightharpoonup> string"
  body :: "string \<rightharpoonup> string"

record response =
  res_status :: jsval
  res_headers :: "string \<rightharpoonup> jsval"
  res_body :: jsval

text \<open>\<open>toLowerCase\<close> on header names (ASCII).\<close>

definition lower_char :: "char \<Rightarrow> char" where
  "lower_char c =
     (case map_of (zip ''ABCDEFGHIJKLMNOPQRSTUVWXYZ'' ''abcdefghijklmnopqrstuvwxyz'') c of
        Some d \<Rightarrow> d
      | None \<Rightarrow> c)"

definition toLowerCase :: "string \<Rightarrow> string" where
  "toLowerCase s = map lower_char s"

text \<open>\<open>Request.get(field)\<close>.\<close>

definition request_get :: "request \<Rightarrow> string \<Rightarrow> string option" where
  "request_get r field = headers r (toLowerCase field)"

text \<open>\<open>Response.set(field, value)\<close>.\<close>

definition response_set :: "string \<Rightarrow> jsval \<Rightarrow> response \<Rightarrow> response" where
  "response_set field v r = r\<lparr>res_headers := (res_headers r)(toLowerCase field \<mapsto> v)\<rparr>"

subsection \<open>The Model, the clock and the random-token generator\<close>

text \<open>
  The Model is the data-access backend of the host.  Each capability is an asynchronous
  function of the host: awaited, it changes the state of the host and either resolves to a
  value or rejects with an error.  The state of the host is a type parameter.  The optional
  capabilities may be absent.  Besides the Model the engine reads the clock (\<open>new Date()\<close>),
  draws random tokens (\<open>utils/token.js\<close>, SHA-1 of 256 random bytes), asks the package
  \<open>type-is\<close> whether the content type of a request is the given type, and has the package
  \<open>basic-auth\<close> decode the name and the password of a Basic \<open>Authorization\<close> header.
\<close>

type_synonym 's capability = "jsval list \<Rightarrow> 's \<Rightarrow> (js_error + jsval) \<times> 's"

text \<open>
  The engine parses redirect URIs with \<open>url.parse\<close> of Node.js, changes the \<open>search\<close>, the
  \<open>query\<close> and the \<open>hash\<close> of the parsed object, and renders it with \<open>url.format\<close>.  A
  parsed URL is kept as far as these steps use it: the front is what \<open>url.format\<close> writes for
  the protocol, the authority and the path of the object, which the engine never assigns;
  the \<open>search\<close> is the query string with its question mark, or \<open>null\<close>; the \<open>query\<close> is the
  object of the parsed parameters; the \<open>hash\<close> is the fragment with its number sign, or
  \<open>null\<close>.  The parser itself belongs to the platform, as the clock does: it is a parameter
  of the engine, called with the URI and the flag \<open>parseQueryString\<close>.
\<close>

record url =
  u_front :: string
  u_search :: "string option"
  u_query :: "(string \<times> jsval) list"
  u_hash :: "string option"

record 's env =
  getClient :: "'s capability"
  getAccessToken :: "'s capability"
  getRefreshToken :: "'s capability"
  getAuthorizationCode :: "'s capability"
  revokeAccessToken :: "'s capability"
  revokeRefreshToken :: "'s capability"
  revokeAuthorizationCode :: "'s capability"
  saveToken :: "'s capability"
  saveAuthorizationCode :: "'s capability"
  validateScope :: "'s capability option"
  verifyScope :: "'s capability option"
  generateAccessToken :: "'s capability option"
  generateRefreshToken :: "'s capability option"
  generateAuthorizationCode :: "'s capability option"
  clock :: "'s \<Rightarrow> int \<times> 's"
  generateRandomToken :: "'s \<Rightarrow> string \<times> 's"
  typeis :: "request \<Rightarrow> string \<Rightarrow> bool"
  auth :: "request \<Rightarrow> (string \<times> string) option"
  url_parse :: "string \<Rightarrow> bool \<Rightarrow> url"

text \<open>
  The engine runs in a world: the state of the host, the response object of the call, and
  the log of the calls to the Model made so far, each with its arguments and its outcome.
  A computation of the engine takes a world and ends by throwing an error or returning a
  value, in a new world.
\<close>

datatype event = Call string "jsval list" "js_error + jsval"

record 's world =
  store :: 's
  trace :: "event list"
  resp :: response

type_synonym ('s, 'a) io = "'s world \<Rightarrow> (js_error + 'a) \<times> 's world"

definition ret :: "'a \<Rightarrow> ('s, 'a) io" where
  "ret a = (\<lambda>w. (Inr a, w))"

definition throw :: "js_error \<Rightarrow> ('s, 'a) io" where
  "throw e = (\<lambda>w. (Inl e, w))"

definition bnd :: "('s, 'a) io \<Rightarrow> ('a \<Rightarrow> ('s, 'b) io) \<Rightarrow> ('s, 'b) io" where
  "bnd m f = (\<lambda>w. case m w of (Inl e, w') \<Rightarrow> (Inl e, w') | (Inr a, w') \<Rightarrow> f a w')"

text \<open>A synchronous step that may throw.\<close>

definition lift :: "js_error + 'a \<Rightarrow> ('s, 'a) io" where
  "lift r = (\<lambda>w. (r, w))"

text \<open>\<open>if (c) throw e\<close>.\<close>

definition throw_if :: "bool \<Rightarrow> js_error \<Rightarrow> ('s, unit) io" where
  "throw_if c e = (if c then throw e else ret ())"

text \<open>\<open>await this.model.name(args)\<close>: the call is logged with its outcome.\<close>

definition invoke :: "string \<Rightarrow> 's capability \<Rightarrow> jsval list \<Rightarrow> ('s, jsval) io" where
  "invoke name f args =
     (\<lambda>w. case f args (store w) of
             (r, s') \<Rightarrow> (r, w\<lparr>store := s', trace := trace w @ [Call name args r]\<rparr>))"

text \<open>\<open>new Date().getTime()\<close>.\<close>

definition now :: "'s env \<Rightarrow> ('s, int) io" where
  "now env = (\<lambda>w. case clock env (store w) of (t, s') \<Rightarrow> (Inr t, w\<lparr>store := s'\<rparr>))"

text \<open>\<open>tokenUtil.generateRandomToken()\<close>.\<close>

definition randomToken :: "'s env \<Rightarrow> ('s, jsval) io" where
  "randomToken env =
     (\<lambda>w. case generateRandomToken env (store w) of (t, s') \<Rightarrow> (Inr (JStr t), w\<lparr>store := s'\<rparr>))"

text \<open>Writing to the response object.\<close>

definition setHeader :: "string \<Rightarrow> jsval \<Rightarrow> ('s, unit) io" where
  "setHeader field v = (\<lambda>w. (Inr (), w\<lparr>resp := response_set field v (resp w)\<rparr>))"

definition setBody :: "jsval \<Rightarrow> ('s, unit) io" where
  "setBody b = (\<lambda>w. (Inr (), w\<lparr>resp := (resp w)\<lparr>res_body := b\<rparr>\<rparr>))"

definition setStatus :: "jsval \<Rightarrow> ('s, unit) io" where
  "setStatus n = (\<lambda>w. (Inr (), w\<lparr>resp := (resp w)\<lparr>res_status := n\<rparr>\<rparr>))"

text \<open>\<open>try { m } catch (e) { h(e); throw e }\<close>: the handler runs in the world the body left
  behind, and the error is thrown again.\<close>

definition try_catch_rethrow :: "('s, 'a) io \<Rightarrow> (js_error \<Rightarrow> ('s, unit) io) \<Rightarrow> ('s, 'a) io" where
  "try_catch_rethrow m h =
     (\<lambda>w. case m w of
             (Inr a, w') \<Rightarrow> (Inr a, w')
           | (Inl e, w') \<Rightarrow> (case h e w' of (Inl e', w'') \<Rightarrow> (Inl e', w'') | (Inr u, w'') \<Rightarrow> (Inl e, w'')))"

section \<open>Token records (models/token.js, models/bearer-token.js)\<close>

record token_model =
  tm_accessToken :: jsval
  tm_accessTokenExpiresAt :: jsval
  tm_refreshToken :: jsval
  tm_refreshTokenExpiresAt :: jsval
  tm_scope :: jsval
  tm_client :: jsval
  tm_user :: jsval
  tm_customAttributes :: "(string \<times> jsval) list option"
  tm_accessTokenLifetime :: jsval

definition modelAttributes :: "string list" where
  "modelAttributes =
     [''accessToken'', ''accessTokenExpiresAt'', ''refreshToken'', ''refreshTokenExpiresAt'',
      ''scope'', ''client'', ''user'']"

text \<open>The own properties of a value, for \<open>for (key in data)\<close>.\<close>

fun own_properties :: "jsval \<Rightarrow> (string \<times> jsval) list" where
  "own_properties (JObj kvs) = kvs"
| "own_properties v = []"

text \<open>
  \<open>new TokenModel(data, {allowExtendedTokenAttributes})\<close>.  The default \<open>data = {}\<close> applies
  to \<open>undefined\<close> only.  The lifetime is \<open>Math.floor((accessTokenExpiresAt - now) / 1000)\<close>.
\<close>

definition TokenModel :: "'s env \<Rightarrow> jsval \<Rightarrow> bool \<Rightarrow> ('s, token_model) io" where
  "TokenModel env data0 allowExtended =
     (let data = (if data0 = JUndefined then JObj [] else data0) in
      bnd (lift (get data ''accessToken'')) (\<lambda>accessToken.
      bnd (throw_if (\<not> truthy accessToken) (InvalidArgumentError ''Missing parameter: `accessToken`'')) (\<lambda>_.
      bnd (lift (get data ''client'')) (\<lambda>client.
      bnd (throw_if (\<not> truthy client) (InvalidArgumentError ''Missing parameter: `client`'')) (\<lambda>_.
      bnd (lift (get data ''user'')) (\<lambda>user.
      bnd (throw_if (\<not> truthy user) (InvalidArgumentError ''Missing parameter: `user`'')) (\<lambda>_.
      bnd (lift (get data ''accessTokenExpiresAt'')) (\<lambda>accessTokenExpiresAt.
      bnd (throw_if (truthy accessTokenExpiresAt \<and> \<not> is_Date accessTokenExpiresAt)
             (InvalidArgumentError ''Invalid parameter: `accessTokenExpiresAt`'')) (\<lambda>_.
      bnd (lift (get data ''refreshTokenExpiresAt'')) (\<lambda>refreshTokenExpiresAt.
      bnd (throw_if (truthy refreshTokenExpiresAt \<and> \<not> is_Date refreshTokenExpiresAt)
             (InvalidArgumentError ''Invalid parameter: `refreshTokenExpiresAt`'')) (\<lambda>_.
      bnd (lift (get data ''refreshToken'')) (\<lambda>refreshToken.
      bnd (lift (get data ''scope'')) (\<lambda>scope.
      bnd (case accessTokenExpiresAt of
             JDate t \<Rightarrow> bnd (now env) (\<lambda>n. ret (JNum ((t - n) div 1000)))
           | _ \<Rightarrow> ret JUndefined) (\<lambda>lifetime.
      ret \<lparr> tm_accessToken = accessToken,
            tm_accessTokenExpiresAt = accessTokenExpiresAt,
            tm_refreshToken = refreshToken,
            tm_refreshTokenExpiresAt = refreshTokenExpiresAt,
            tm_scope = scope,
            tm_client = client,
            tm_user = user,
            tm_customAttributes =
              (if allowExtended
               then Some (filter (\<lambda>kv. fst kv \<notin> set modelAttributes) (own_properties data))
               else None),
            tm_accessTokenLifetime = lifetime \<rparr>))))))))))))))"

text \<open>\<open>new BearerToken(accessToken, accessTokenLifetime, refreshToken, scope,
  customAttributes).valueOf()\<close>.\<close>

definition BearerToken_valueOf ::
  "jsval \<Rightarrow> jsval \<Rightarrow> jsval \<Rightarrow> jsval \<Rightarrow> (string \<times> jsval) list option \<Rightarrow> js_error + jsval" where
  "BearerToken_valueOf accessToken accessTokenLifetime refreshToken scope customAttributes =
     (if \<not> truthy accessToken then Inl (InvalidArgumentError ''Missing parameter: `accessToken`'')
      else
        let object = [(''access_token'', accessToken), (''token_type'', JStr ''Bearer'')];
            object = (if truthy accessTokenLifetime
                      then obj_set ''expires_in'' accessTokenLifetime object else object);
            object = (if truthy refreshToken
                      then obj_set ''refresh_token'' refreshToken object else object);
            object = (if truthy scope then obj_set ''scope'' scope object else object);
            object = fold (\<lambda>kv ob. obj_set (fst kv) (snd kv) ob)
                       (case customAttributes of None \<Rightarrow> [] | Some kvs \<Rightarrow> kvs) object
        in Inr (JObj object))"

definition bearer_of :: "token_model \<Rightarrow> js_error + jsval" where
  "bearer_of m =
     BearerToken_valueOf (tm_accessToken m) (tm_accessTokenLifetime m) (tm_refreshToken m)
       (tm_scope m) (tm_customAttributes m)"

section \<open>The grants of the token endpoint\<close>

subsection \<open>The shared base (grants/abstract-grant.js)\<close>

record grant_options =
  accessTokenLifetime :: int
  refreshTokenLifetime :: int
  alwaysIssueNewRefreshToken :: jsval
  allowExtendedTokenAttributes :: bool

definition AbstractGrant_generateAccessToken ::
  "'s env \<Rightarrow> jsval \<Rightarrow> jsval \<Rightarrow> jsval \<Rightarrow> ('s, jsval) io" where
  "AbstractGrant_generateAccessToken env client user scope =
     (case generateAccessToken env of
        Some f \<Rightarrow>
          bnd (invoke ''generateAccessToken'' f [client, user, scope]) (\<lambda>token.
          if truthy token then ret token else randomToken env)
      | None \<Rightarrow> randomToken env)"

definition AbstractGrant_generateRefreshToken ::
  "'s env \<Rightarrow> jsval \<Rightarrow> jsval \<Rightarrow> jsval \<Rightarrow> ('s, jsval) io" where
  "AbstractGrant_generateRefreshToken env client user scope =
     (case generateRefreshToken env of
        Some f \<Rightarrow>
          bnd (invoke ''generateRefreshToken'' f [client, user, scope]) (\<lambda>token.
          if truthy token then ret token else randomToken env)
      | None \<Rightarrow> randomToken env)"

definition setAccessTokenExpiresAt :: "'s env \<Rightarrow> grant_options \<Rightarrow> ('s, jsval) io" where
  "setAccessTokenExpiresAt env opts =
     bnd (now env) (\<lambda>n. ret (JDate (n + accessTokenLifetime opts * 1000)))"

definition setRefreshTokenExpiresAt :: "'s env \<Rightarrow> grant_options \<Rightarrow> ('s, jsval) io" where
  "setRefreshTokenExpiresAt env opts =
     bnd (now env) (\<lambda>n. ret (JDate (n + refreshTokenLifetime opts * 1000)))"

definition AbstractGrant_validateScope ::
  "'s env \<Rightarrow> jsval \<Rightarrow> jsval \<Rightarrow> jsval \<Rightarrow> ('s, jsval) io" where
  "AbstractGrant_validateScope env client user scope =
     (case validateScope env of
        Some f \<Rightarrow>
          bnd (invoke ''validateScope'' f [client, user, scope]) (\<lambda>validatedScope.
          bnd (throw_if (\<not> truthy validatedScope)
                 (InvalidScopeError ''Invalid scope: Requested scope is invalid'')) (\<lambda>_.
          ret validatedScope))
      | None \<Rightarrow> ret scope)"

subsection \<open>authorization_code (grants/authorization-code)\<close>

record code_request =
  cr_code :: string
  cr_redirectUri :: "string option"

text \<open>The constructor of the \<open>AccessTokenRequest\<close> of the authorization-code flow.\<close>

definition AccessTokenRequest_code :: "request \<Rightarrow> jsval \<Rightarrow> js_error + code_request" where
  "AccessTokenRequest_code request client =
     (if \<not> truthy client then Inl (InvalidArgumentError ''Missing parameter: `client`'')
      else case body request ''code'' of
        None \<Rightarrow> Inl (InvalidRequestError ''Missing parameter: `code`'')
      | Some c \<Rightarrow>
          if c = [] then Inl (InvalidRequestError ''Missing parameter: `code`'')
          else if \<not> vschar (Some c) then Inl (InvalidRequestError ''Invalid parameter: `code`'')
          else
            let redirectUri = or_else (body request ''redirect_uri'') (query request ''redirect_uri'')
            in if \<not> uri redirectUri
               then Inl (InvalidRequestError ''Invalid request: `redirect_uri` is not a valid URI'')
               else Inr \<lparr> cr_code = c, cr_redirectUri = redirectUri \<rparr>)"

definition validateAuthorizationCode :: "'s env \<Rightarrow> code_request \<Rightarrow> jsval \<Rightarrow> ('s, jsval) io" where
  "validateAuthorizationCode env accessTokenRequest client =
     bnd (now env) (\<lambda>now.
     bnd (invoke ''getAuthorizationCode'' (getAuthorizationCode env) [JStr (cr_code accessTokenRequest)]) (\<lambda>code.
     bnd (throw_if (\<not> truthy code)
            (InvalidGrantError ''Invalid grant: authorization code is invalid'')) (\<lambda>_.
     bnd (lift (get code ''client'')) (\<lambda>code_client.
     bnd (throw_if (\<not> truthy code_client)
            (ServerError ''Server error: `getAuthorizationCode()` did not return a `client` object'')) (\<lambda>_.
     bnd (lift (get code ''user'')) (\<lambda>code_user.
     bnd (throw_if (\<not> truthy code_user)
            (ServerError ''Server error: `getAuthorizationCode()` did not return a `user` object'')) (\<lambda>_.
     bnd (lift (get code_client ''id'')) (\<lambda>code_client_id.
     bnd (lift (get client ''id'')) (\<lambda>client_id.
     bnd (throw_if (\<not> strict_eq code_client_id client_id)
            (InvalidGrantError ''Invalid grant: authorization code is invalid'')) (\<lambda>_.
     bnd (lift (get code ''expiresAt'')) (\<lambda>expiresAt.
     bnd (throw_if (\<not> is_Date expiresAt)
            (ServerError ''Server error: `expiresAt` must be a Date instance'')) (\<lambda>_.
     bnd (lift (getTime expiresAt)) (\<lambda>expires.
     bnd (throw_if (expires < now)
            (InvalidGrantError ''Invalid grant: authorization code has expired'')) (\<lambda>_.
     bnd (lift (get code ''redirectUri'')) (\<lambda>redirectUri.
     bnd (throw_if (truthy redirectUri \<and> \<not> uri_val redirectUri)
            (InvalidGrantError ''Invalid grant: `redirect_uri` is not a valid URI'')) (\<lambda>_.
     ret code))))))))))))))))"

definition validateRedirectUri :: "jsval \<Rightarrow> code_request \<Rightarrow> ('s, unit) io" where
  "validateRedirectUri code accessTokenRequest =
     bnd (lift (get code ''redirectUri'')) (\<lambda>redirectUri.
     if \<not> truthy redirectUri then ret ()
     else throw_if (\<not> strict_eq (of_opt (cr_redirectUri accessTokenRequest)) redirectUri)
            (InvalidRequestError ''Invalid request: `redirect_uri` is invalid''))"

definition deleteAuthorizationCode :: "'s env \<Rightarrow> jsval \<Rightarrow> ('s, unit) io" where
  "deleteAuthorizationCode env code =
     bnd (invoke ''revokeAuthorizationCode'' (revokeAuthorizationCode env) [code]) (\<lambda>status.
     throw_if (\<not> truthy status) (InvalidGrantError ''Invalid grant: authorization code is invalid''))"

text \<open>\<open>createToken(client, code)\<close>: the user and the scope are read from the second
  argument, the token is saved for the first argument and that user.\<close>

definition AuthorizationCodeGrant_createToken ::
  "'s env \<Rightarrow> grant_options \<Rightarrow> jsval \<Rightarrow> jsval \<Rightarrow> ('s, jsval) io" where
  "AuthorizationCodeGrant_createToken env opts client code =
     bnd (lift (get code ''user'')) (\<lambda>user.
     bnd (lift (get code ''scope'')) (\<lambda>scope.
     bnd (AbstractGrant_validateScope env client user scope) (\<lambda>accessScope.
     bnd (AbstractGrant_generateAccessToken env client user scope) (\<lambda>accessToken.
     bnd (AbstractGrant_generateRefreshToken env client user scope) (\<lambda>refreshToken.
     bnd (setAccessTokenExpiresAt env opts) (\<lambda>accessTokenExpiresAt.
     bnd (setRefreshTokenExpiresAt env opts) (\<lambda>refreshTokenExpiresAt.
     invoke ''saveToken'' (saveToken env)
       [client, user,
        JObj [(''accessToken'', accessToken),
              (''accessTokenExpiresAt'', accessTokenExpiresAt),
              (''refreshToken'', refreshToken),
              (''refreshTokenExpiresAt'', refreshTokenExpiresAt),
              (''scope'', accessScope)]])))))))"

text \<open>\<open>execute(request, response, client)\<close>.  The call of the source is
  \<open>this.createToken(code, client)\<close>: the code record goes to the parameter \<open>client\<close> and the
  authenticated client to the parameter \<open>code\<close>.\<close>

definition AuthorizationCodeGrant_execute ::
  "'s env \<Rightarrow> grant_options \<Rightarrow> request \<Rightarrow> jsval \<Rightarrow> ('s, jsval) io" where
  "AuthorizationCodeGrant_execute env opts request client =
     bnd (lift (AccessTokenRequest_code request client)) (\<lambda>accessTokenRequest.
     bnd (validateAuthorizationCode env accessTokenRequest client) (\<lambda>code.
     bnd (validateRedirectUri code accessTokenRequest) (\<lambda>_.
     bnd (deleteAuthorizationCode env code) (\<lambda>_.
     bnd (AuthorizationCodeGrant_createToken env opts code client) (\<lambda>data.
     bnd (TokenModel env data (allowExtendedTokenAttributes opts)) (\<lambda>model.
     lift (bearer_of model)))))))"

subsection \<open>refresh_token (grants/refresh-token)\<close>

record refresh_request =
  rr_refreshToken :: string
  rr_scope :: "string option"

text \<open>The constructor of the \<open>AccessTokenRequest\<close> of the refresh-token flow.\<close>

definition AccessTokenRequest_refresh :: "request \<Rightarrow> jsval \<Rightarrow> js_error + refresh_request" where
  "AccessTokenRequest_refresh request client =
     (if \<not> truthy client then Inl (InvalidArgumentError ''Missing parameter: `client`'')
      else case body request ''refresh_token'' of
        None \<Rightarrow> Inl (InvalidRequestError ''Missing parameter: `refresh_token`'')
      | Some t \<Rightarrow>
          if t = [] then Inl (InvalidRequestError ''Missing parameter: `refresh_token`'')
          else if \<not> vschar (Some t) then Inl (InvalidRequestError ''Invalid parameter: `refresh_token`'')
          else if \<not> nqschar (body request ''scope'')
          then Inl (InvalidRequestError ''Invalid parameter: `scope`'')
          else Inr \<lparr> rr_refreshToken = t, rr_scope = body request ''scope'' \<rparr>)"

definition validateRefreshToken :: "'s env \<Rightarrow> refresh_request \<Rightarrow> jsval \<Rightarrow> ('s, jsval) io" where
  "validateRefreshToken env accessTokenRequest client =
     bnd (invoke ''getRefreshToken'' (getRefreshToken env) [JStr (rr_refreshToken accessTokenRequest)]) (\<lambda>token.
     bnd (now env) (\<lambda>now.
     bnd (throw_if (\<not> truthy token)
            (InvalidGrantError ''Invalid grant: refresh token is invalid'')) (\<lambda>_.
     bnd (lift (get token ''client'')) (\<lambda>token_client.
     bnd (throw_if (\<not> truthy token_client)
            (ServerError ''Server error: `getRefreshToken()` did not return a `client` object'')) (\<lambda>_.
     bnd (lift (get token ''user'')) (\<lambda>token_user.
     bnd (throw_if (\<not> truthy token_user)
            (ServerError ''Server error: `getRefreshToken()` did not return a `user` object'')) (\<lambda>_.
     bnd (lift (get token_client ''id'')) (\<lambda>token_client_id.
     bnd (lift (get client ''id'')) (\<lambda>client_id.
     bnd (throw_if (\<not> strict_eq token_client_id client_id)
            (InvalidGrantError ''Invalid grant: refresh token is invalid'')) (\<lambda>_.
     bnd (lift (get token ''refreshTokenExpiresAt'')) (\<lambda>refreshTokenExpiresAt.
     bnd (throw_if (truthy refreshTokenExpiresAt \<and> \<not> is_Date refreshTokenExpiresAt)
            (ServerError ''Server error: `refreshTokenExpiresAt` must be a Date instance'')) (\<lambda>_.
     bnd (if truthy refreshTokenExpiresAt
          then bnd (lift (getTime refreshTokenExpiresAt)) (\<lambda>expires.
               throw_if (expires < now) (InvalidGrantError ''Invalid grant: refresh token has expired''))
          else ret ()) (\<lambda>_.
     ret token)))))))))))))"

definition deleteRefreshToken :: "'s env \<Rightarrow> grant_options \<Rightarrow> jsval \<Rightarrow> ('s, unit) io" where
  "deleteRefreshToken env opts token =
     (if \<not> truthy (alwaysIssueNewRefreshToken opts) then ret ()
      else
        bnd (invoke ''revokeRefreshToken'' (revokeRefreshToken env) [token]) (\<lambda>status.
        throw_if (\<not> truthy status) (InvalidGrantError ''Invalid grant: refresh token is invalid'')))"

definition RefreshTokenGrant_createToken ::
  "'s env \<Rightarrow> grant_options \<Rightarrow> jsval \<Rightarrow> jsval \<Rightarrow> jsval \<Rightarrow> ('s, jsval) io" where
  "RefreshTokenGrant_createToken env opts client user scope =
     bnd (AbstractGrant_generateAccessToken env client user scope) (\<lambda>accessToken.
     bnd (AbstractGrant_generateRefreshToken env client user scope) (\<lambda>refreshToken.
     bnd (setAccessTokenExpiresAt env opts) (\<lambda>accessTokenExpiresAt.
     bnd (setRefreshTokenExpiresAt env opts) (\<lambda>refreshTokenExpiresAt.
     let token = [(''accessToken'', accessToken),
                  (''accessTokenExpiresAt'', accessTokenExpiresAt),
                  (''scope'', scope)];
         token = (if \<not> strict_eq (alwaysIssueNewRefreshToken opts) (JBool False)
                  then obj_set ''refreshTokenExpiresAt'' refreshTokenExpiresAt
                         (obj_set ''refreshToken'' refreshToken token)
                  else token)
     in invoke ''saveToken'' (saveToken env) [client, user, JObj token]))))"

text \<open>\<open>execute(request, response, client)\<close>.  The option handed to \<open>TokenModel\<close> is
  \<open>super.allowExtendedTokenAttributes\<close>, a property of the prototype of the base class, which
  has none of that name (the constructor stores the option on the instance): it is
  \<open>undefined\<close>, so the extended attributes are off.\<close>

definition RefreshTokenGrant_execute ::
  "'s env \<Rightarrow> grant_options \<Rightarrow> request \<Rightarrow> jsval \<Rightarrow> ('s, jsval) io" where
  "RefreshTokenGrant_execute env opts request client =
     bnd (lift (AccessTokenRequest_refresh request client)) (\<lambda>accessTokenRequest.
     bnd (validateRefreshToken env accessTokenRequest client) (\<lambda>token.
     bnd (deleteRefreshToken env opts token) (\<lambda>_.
     bnd (lift (get token ''user'')) (\<lambda>token_user.
     bnd (lift (get token ''scope'')) (\<lambda>token_scope.
     bnd (RefreshTokenGrant_createToken env opts client token_user token_scope) (\<lambda>data.
     bnd (TokenModel env data False) (\<lambda>model.
     lift (bearer_of model))))))))"

section \<open>The bearer authenticate endpoint (handlers/authenticate)\<close>

text \<open>The class \<open>\s\<close> on the characters of a header value (code units below 256).\<close>

definition is_space :: "char \<Rightarrow> bool" where
  "is_space c = ((9 \<le> char_code c \<and> char_code c \<le> 13) \<or> char_code c = 32 \<or> char_code c = 160)"

text \<open>\<open>/Bearer\s(\S+)/\<close> matched at the start of \<open>s\<close>: the captured group, if any.\<close>

definition bearer_at :: "string \<Rightarrow> string option" where
  "bearer_at s =
     (if take 6 s = ''Bearer''
      then (case drop 6 s of
              [] \<Rightarrow> None
            | sp # rest \<Rightarrow>
                if is_space sp \<and> takeWhile (\<lambda>c. \<not> is_space c) rest \<noteq> []
                then Some (takeWhile (\<lambda>c. \<not> is_space c) rest) else None)
      else None)"

text \<open>\<open>s.match(/Bearer\s(\S+)/)\<close>: the leftmost match, anywhere in \<open>s\<close>.\<close>

fun bearer_match :: "string \<Rightarrow> string option" where
  "bearer_match [] = None"
| "bearer_match (c # cs) =
     (case bearer_at (c # cs) of Some t \<Rightarrow> Some t | None \<Rightarrow> bearer_match cs)"

definition form_urlencoded :: string where
  "form_urlencoded = ''application/x-www-form-urlencoded''"

text \<open>The constructor of \<open>AuthenticateRequest\<close>; its value is the token.\<close>

definition AuthenticateRequest :: "'s env \<Rightarrow> request \<Rightarrow> bool \<Rightarrow> js_error + string option" where
  "AuthenticateRequest env request allowBearerTokensInQueryString =
     (let headerToken = request_get request ''Authorization'';
          queryToken = query request ''access_token'';
          bodyToken = body request ''access_token''
      in
      if \<not> (truthy_opt headerToken \<or> truthy_opt queryToken \<or> truthy_opt bodyToken)
      then Inl (UnauthorizedRequestError ''Unauthorized request: no authentication given'')
      else if length (filter truthy_opt [headerToken, queryToken, bodyToken]) > 1
      then Inl (InvalidRequestError ''Invalid request: only one authentication method is allowed'')
      else
        case (if truthy_opt headerToken
              then (case bearer_match (to_test_string headerToken) of
                      None \<Rightarrow> Inl (InvalidRequestError ''Invalid request: malformed authorization header'')
                    | Some t \<Rightarrow> Inr (Some t))
              else Inr None) of
          Inl e \<Rightarrow> Inl e
        | Inr token1 \<Rightarrow>
        case (if truthy_opt queryToken
              then (if allowBearerTokensInQueryString then Inr queryToken
                    else Inl (InvalidRequestError ''Invalid request: do not send bearer tokens in query URLs''))
              else Inr token1) of
          Inl e \<Rightarrow> Inl e
        | Inr token2 \<Rightarrow>
        if truthy_opt bodyToken
        then (if req_method request = ''GET''
              then Inl (InvalidRequestError
                     ''Invalid request: token may not be passed in the body when using the GET verb'')
              else if typeis env request form_urlencoded then Inr bodyToken
              else Inl (InvalidRequestError
                     ''Invalid request: content must be application/x-www-form-urlencoded''))
        else Inr token2)"

record authenticate_options =
  ao_scope :: jsval
  addAcceptedScopesHeader :: bool
  addAuthorizedScopesHeader :: bool
  allowBearerTokensInQueryString :: bool

definition validateAccessToken :: "'s env \<Rightarrow> string option \<Rightarrow> ('s, jsval) io" where
  "validateAccessToken env token =
     bnd (now env) (\<lambda>now.
     bnd (invoke ''getAccessToken'' (getAccessToken env) [of_opt token]) (\<lambda>accessToken.
     bnd (throw_if (\<not> truthy accessToken)
            (InvalidTokenError ''Invalid token: access token is invalid'')) (\<lambda>_.
     bnd (lift (get accessToken ''user'')) (\<lambda>user.
     bnd (throw_if (\<not> truthy user)
            (ServerError ''Server error: `getAccessToken()` did not return a `user` object'')) (\<lambda>_.
     bnd (lift (get accessToken ''accessTokenExpiresAt'')) (\<lambda>accessTokenExpiresAt.
     bnd (throw_if (\<not> is_Date accessTokenExpiresAt)
            (ServerError ''Server error: `accessTokenExpiresAt` must be a Date instance'')) (\<lambda>_.
     bnd (lift (getTime accessTokenExpiresAt)) (\<lambda>expires.
     bnd (throw_if (expires < now)
            (InvalidTokenError ''Invalid token: access token has expired'')) (\<lambda>_.
     ret accessToken)))))))))"

text \<open>\<open>verifyAccessTokenScope\<close>.  The constructor of the handler refuses a scope option when
  the Model has no \<open>verifyScope\<close>; calling an absent capability is a \<open>TypeError\<close>.\<close>

definition verifyAccessTokenScope :: "'s env \<Rightarrow> authenticate_options \<Rightarrow> jsval \<Rightarrow> ('s, jsval) io" where
  "verifyAccessTokenScope env opts accessToken =
     (case verifyScope env of
        None \<Rightarrow> throw (TypeError ''this.model.verifyScope is not a function'')
      | Some f \<Rightarrow>
          bnd (invoke ''verifyScope'' f [accessToken, ao_scope opts]) (\<lambda>scope.
          bnd (throw_if (\<not> truthy scope)
                 (InsufficientScopeError ''Insufficient scope: authorized scope is insufficient'')) (\<lambda>_.
          ret scope)))"

definition AuthenticateResponse_setSuccessResponse ::
  "jsval \<Rightarrow> jsval \<Rightarrow> bool \<Rightarrow> bool \<Rightarrow> ('s, unit) io" where
  "AuthenticateResponse_setSuccessResponse token scope addAccepted addAuthorized =
     bnd (if truthy scope \<and> addAccepted then setHeader ''X-Accepted-OAuth-Scopes'' scope else ret ()) (\<lambda>_.
     if truthy scope \<and> addAuthorized
     then bnd (lift (get token ''scope'')) (\<lambda>token_scope. setHeader ''X-OAuth-Scopes'' token_scope)
     else ret ())"

definition error_body :: "js_error \<Rightarrow> jsval" where
  "error_body error =
     JObj [(''error'', JStr (err_name error)), (''error_description'', JStr (err_message error))]"

text \<open>The challenge \<open>Bearer realm="Service"\<close>.\<close>

definition bearer_challenge :: string where
  "bearer_challenge = ''Bearer realm='' @ [CHR 0x22] @ ''Service'' @ [CHR 0x22]"

definition basic_challenge :: string where
  "basic_challenge = ''Basic realm='' @ [CHR 0x22] @ ''Service'' @ [CHR 0x22]"

definition AuthenticateResponse_setErrorResponse :: "js_error \<Rightarrow> ('s, unit) io" where
  "AuthenticateResponse_setErrorResponse error0 =
     bnd (if err_name error0 = ''unauthorized_request''
          then setHeader ''WWW-Authenticate'' (JStr bearer_challenge) else ret ()) (\<lambda>_.
     let error = (if instanceof_OAuthError error0 then error0 else ServerError_of error0) in
     bnd (setBody (error_body error)) (\<lambda>_.
     setStatus (err_status error)))"

definition AuthenticateHandler_execute ::
  "'s env \<Rightarrow> authenticate_options \<Rightarrow> request \<Rightarrow> ('s, jsval) io" where
  "AuthenticateHandler_execute env opts request =
     try_catch_rethrow
       (bnd (lift (AuthenticateRequest env request (allowBearerTokensInQueryString opts))) (\<lambda>token.
        bnd (validateAccessToken env token) (\<lambda>accessToken.
        bnd (if truthy (ao_scope opts)
             then bnd (verifyAccessTokenScope env opts accessToken) (\<lambda>_. ret ())
             else ret ()) (\<lambda>_.
        bnd (AuthenticateResponse_setSuccessResponse accessToken (ao_scope opts)
               (addAcceptedScopesHeader opts) (addAuthorizedScopesHeader opts)) (\<lambda>_.
        lift (get accessToken ''user''))))))
       AuthenticateResponse_setErrorResponse"

section \<open>The introspection endpoint (handlers/introspect)\<close>

record introspect_request =
  ir_clientId :: string
  ir_clientSecret :: "string option"
  ir_tokenHint :: string
  ir_token :: string

text \<open>The constructor of \<open>IntrospectRequest\<close>.\<close>

definition IntrospectRequest :: "'s env \<Rightarrow> request \<Rightarrow> bool \<Rightarrow> js_error + introspect_request" where
  "IntrospectRequest env request isClientSecretRequired =
     (if req_method request \<noteq> ''POST'' then Inl (InvalidRequestError ''Invalid request: method must be POST'')
      else if \<not> typeis env request form_urlencoded
      then Inl (InvalidRequestError ''Invalid request: content must be application/x-www-form-urlencoded'')
      else
        let clientId = (case auth env request of
                          Some (name, pass) \<Rightarrow> Some name | None \<Rightarrow> body request ''client_id'');
            clientSecret = (case auth env request of
                              Some (name, pass) \<Rightarrow> Some pass | None \<Rightarrow> body request ''client_secret'');
            token = body request ''token'';
            tokenHint = body request ''token_hint''
        in
        if \<not> truthy_opt clientId then Inl (InvalidRequestError ''Missing parameter: `client_id`'')
        else if \<not> vschar clientId then Inl (InvalidRequestError ''Invalid parameter: `client_id`'')
        else if isClientSecretRequired \<and> \<not> truthy_opt clientSecret
        then Inl (InvalidRequestError ''Missing parameter: `client_secret`'')
        else if truthy_opt clientSecret \<and> \<not> vschar clientSecret
        then Inl (InvalidRequestError ''Invalid parameter: `client_secret`'')
        else if \<not> (truthy_opt tokenHint \<or> truthy_opt token)
        then Inl (InvalidRequestError ''Missing parameter: `token_hint` and `token`'')
        else if \<not> truthy_opt token then Inl (InvalidRequestError ''Missing parameter: `token`'')
        else if \<not> truthy_opt tokenHint then Inl (InvalidRequestError ''Missing parameter: `token_hint`'')
        else if \<not> (tokenHint = Some ''access_token'' \<or> tokenHint = Some ''refresh_token'')
        then Inl (InvalidRequestError ''Invalid parameter: `token_hint`'')
        else Inr \<lparr> ir_clientId = to_test_string clientId, ir_clientSecret = clientSecret,
                   ir_tokenHint = to_test_string tokenHint, ir_token = to_test_string token \<rparr>)"

definition authenticateClient :: "'s env \<Rightarrow> introspect_request \<Rightarrow> ('s, jsval) io" where
  "authenticateClient env req =
     bnd (invoke ''getClient'' (getClient env) [JStr (ir_clientId req), of_opt (ir_clientSecret req)]) (\<lambda>client.
     bnd (throw_if (\<not> truthy client) (InvalidClientError ''Invalid client: client is invalid'')) (\<lambda>_.
     ret client))"

text \<open>\<open>verifyToken\<close>: \<open>(token && token.client.id === client.id) ? token : false\<close>.\<close>

definition verifyToken :: "'s env \<Rightarrow> introspect_request \<Rightarrow> jsval \<Rightarrow> ('s, jsval) io" where
  "verifyToken env req client =
     bnd (if ir_tokenHint req = ''access_token''
          then invoke ''getAccessToken'' (getAccessToken env) [JStr (ir_token req)]
          else invoke ''getRefreshToken'' (getRefreshToken env) [JStr (ir_token req)]) (\<lambda>token.
     if truthy token
     then bnd (lift (get token ''client'')) (\<lambda>token_client.
          bnd (lift (get token_client ''id'')) (\<lambda>token_client_id.
          bnd (lift (get client ''id'')) (\<lambda>client_id.
          ret (if strict_eq token_client_id client_id then token else JBool False))))
     else ret (JBool False))"

definition composeIntrospectResult :: "'s env \<Rightarrow> introspect_request \<Rightarrow> jsval \<Rightarrow> ('s, jsval) io" where
  "composeIntrospectResult env req token =
     (if \<not> truthy token then ret (JObj [(''active'', JBool False)])
      else
        bnd (now env) (\<lambda>now.
        bnd (if ir_tokenHint req = ''access_token''
             then lift (get token ''accessTokenExpiresAt'')
             else lift (get token ''refreshTokenExpiresAt'')) (\<lambda>expiresAt.
        bnd (lift (getTime expiresAt)) (\<lambda>expires.
        if now > expires then ret (JObj [(''active'', JBool False)])
        else
          bnd (lift (get token ''client'')) (\<lambda>token_client.
          bnd (lift (get token_client ''id'')) (\<lambda>token_client_id.
          bnd (lift (get token ''user'')) (\<lambda>token_user.
          bnd (lift (get token_user ''username'')) (\<lambda>username.
          bnd (lift (get token ''scope'')) (\<lambda>scope.
          ret (JObj [(''active'', JBool True), (''client_id'', token_client_id),
                     (''username'', username), (''scope'', scope),
                     (''expires_at'', expiresAt)]))))))))))"

definition IntrospectResponse_setSuccessResponse :: "jsval \<Rightarrow> ('s, unit) io" where
  "IntrospectResponse_setSuccessResponse b =
     bnd (setHeader ''Cache-Control'' (JStr ''no-store'')) (\<lambda>_.
     bnd (setHeader ''Pragma'' (JStr ''no-cache'')) (\<lambda>_.
     setBody b))"

definition IntrospectResponse_setErrorResponse :: "string option \<Rightarrow> js_error \<Rightarrow> ('s, unit) io" where
  "IntrospectResponse_setErrorResponse isAuthorizationHeader error0 =
     (if err_name error0 = ''invalid_client'' \<and> truthy_opt isAuthorizationHeader
      then bnd (setHeader ''WWW-Authenticate'' (JStr basic_challenge)) (\<lambda>_.
           bnd (setBody (error_body error0)) (\<lambda>_.
           setStatus (JNum 401)))
      else
        let error = (if instanceof_OAuthError error0 then error0 else ServerError_of error0) in
        bnd (setBody (error_body error)) (\<lambda>_.
        setStatus (err_status error)))"

definition IntrospectHandler_execute :: "'s env \<Rightarrow> bool \<Rightarrow> request \<Rightarrow> ('s, unit) io" where
  "IntrospectHandler_execute env isClientSecretRequired request =
     try_catch_rethrow
       (bnd (lift (IntrospectRequest env request isClientSecretRequired)) (\<lambda>introspectRequest.
        bnd (authenticateClient env introspectRequest) (\<lambda>client.
        bnd (verifyToken env introspectRequest client) (\<lambda>token.
        bnd (composeIntrospectResult env introspectRequest token) (\<lambda>result.
        IntrospectResponse_setSuccessResponse result)))))
       (IntrospectResponse_setErrorResponse (request_get request ''authorization''))"

section \<open>The revocation endpoint (handlers/revoke)\<close>

text \<open>Modelled from the spec: the class \<open>RevokeRequest\<close> (\<open>handlers/revoke/revoke-request.js\<close>)
  is not among the sources.  The specification gives the revocation endpoint the same
  parsing and client-authentication rules as the introspection endpoint, with the same
  structure of the request.\<close>

definition RevokeRequest :: "'s env \<Rightarrow> request \<Rightarrow> bool \<Rightarrow> js_error + introspect_request" where
  "RevokeRequest env request isClientSecretRequired = IntrospectRequest env request isClientSecretRequired"

text \<open>Modelled from the spec: the class \<open>RevokeResponse\<close> (\<open>handlers/revoke/revoke-response.js\<close>)
  is not among the sources.  By the specification a revocation that passes parsing and
  authentication always returns a 200 success with an empty body.\<close>

definition RevokeResponse_setSuccessResponse :: "('s, unit) io" where
  "RevokeResponse_setSuccessResponse =
     bnd (setBody (JObj [])) (\<lambda>_. setStatus (JNum 200))"

text \<open>Modelled from the spec: errors of parsing and authentication are reported as the
  introspection endpoint reports them (a JSON body, status 400 or 401).\<close>

definition RevokeResponse_setErrorResponse :: "string option \<Rightarrow> js_error \<Rightarrow> ('s, unit) io" where
  "RevokeResponse_setErrorResponse isAuthorizationHeader error0 =
     IntrospectResponse_setErrorResponse isAuthorizationHeader error0"

text \<open>\<open>RevokeHandler.authenticateClient\<close> and \<open>RevokeHandler.verifyToken\<close> are word for word
  those of the introspection handler.\<close>

definition invalidateToken :: "'s env \<Rightarrow> introspect_request \<Rightarrow> jsval \<Rightarrow> ('s, jsval) io" where
  "invalidateToken env req token =
     (if ir_tokenHint req = ''access_token''
      then invoke ''revokeAccessToken'' (revokeAccessToken env) [token]
      else invoke ''revokeRefreshToken'' (revokeRefreshToken env) [token])"

definition RevokeHandler_execute :: "'s env \<Rightarrow> bool \<Rightarrow> request \<Rightarrow> ('s, unit) io" where
  "RevokeHandler_execute env isClientSecretRequired request =
     try_catch_rethrow
       (bnd (lift (RevokeRequest env request isClientSecretRequired)) (\<lambda>revokeRequest.
        bnd (authenticateClient env revokeRequest) (\<lambda>client.
        bnd (verifyToken env revokeRequest client) (\<lambda>token.
        bnd (if truthy token
             then bnd (invalidateToken env revokeRequest token) (\<lambda>_. ret ())
             else ret ()) (\<lambda>_.
        RevokeResponse_setSuccessResponse)))))
       (RevokeResponse_setErrorResponse (request_get request ''authorization''))"

section \<open>URLs (the modules \<open>url\<close> and \<open>querystring\<close> of Node.js)\<close>

text \<open>
  The authorize endpoint renders its redirects with \<open>url.format\<close>, which writes the query
  object with \<open>querystring.stringify\<close>.  A character outside ASCII stands for one byte of
  its UTF-8 encoding.
\<close>

definition hex_digit :: "nat \<Rightarrow> char" where
  "hex_digit n = ''0123456789ABCDEF'' ! n"

text \<open>The characters that \<open>querystring.escape\<close> and \<open>encodeURIComponent\<close> leave as they
  are: letters, digits and \<open>- _ . ! ~ * ' ( )\<close>.\<close>

definition unreserved :: "char \<Rightarrow> bool" where
  "unreserved c =
     (alpha_char c \<or> (48 \<le> char_code c \<and> char_code c \<le> 57)
      \<or> c \<in> set [CHR ''-'', CHR ''_'', CHR ''.'', CHR ''!'', CHR ''~'', CHR ''*'', CHR 0x27,
                  CHR ''('', CHR '')''])"

definition escape :: "string \<Rightarrow> string" where
  "escape s =
     concat (map (\<lambda>c. if unreserved c then [c]
                       else [CHR ''%'', hex_digit (char_code c div 16), hex_digit (char_code c mod 16)]) s)"

text \<open>\<open>stringifyPrimitive\<close>.\<close>

fun stringifyPrimitive :: "jsval \<Rightarrow> string" where
  "stringifyPrimitive (JStr s) = s"
| "stringifyPrimitive (JNum n) = show_int n"
| "stringifyPrimitive (JBool b) = (if b then ''true'' else ''false'')"
| "stringifyPrimitive v = []"

text \<open>
  \<open>Object.keys\<close>: the keys that are array indices (a decimal numeral without leading zero,
  below \<open>2\<^sup>3\<^sup>2 - 1\<close>) come first, in ascending order; the other keys follow in the order in
  which they were created.  An object is the list of its properties in the order of their
  creation, each key once.
\<close>

definition is_digit :: "char \<Rightarrow> bool" where
  "is_digit c = (48 \<le> char_code c \<and> char_code c \<le> 57)"

definition index_value :: "string \<Rightarrow> nat" where
  "index_value s = foldl (\<lambda>n c. 10 * n + (char_code c - 48)) 0 s"

definition array_index :: "string \<Rightarrow> bool" where
  "array_index s =
     (s \<noteq> [] \<and> list_all is_digit s \<and> (hd s \<noteq> CHR ''0'' \<or> length s = 1)
      \<and> index_value s < 4294967295)"

definition own_entries :: "(string \<times> jsval) list \<Rightarrow> (string \<times> jsval) list" where
  "own_entries obj =
     sort_key (\<lambda>kv. index_value (fst kv)) (filter (\<lambda>kv. array_index (fst kv)) obj)
     @ filter (\<lambda>kv. \<not> array_index (fst kv)) obj"

text \<open>\<open>querystring.stringify\<close>: a property with an array gives one pair for each element
  (none for the empty array), any other property one pair.\<close>

definition qs_stringify :: "(string \<times> jsval) list \<Rightarrow> string" where
  "qs_stringify obj =
     join ''&''
       (concat (map (\<lambda>kv. case snd kv of
                             JArr xs \<Rightarrow> map (\<lambda>x. escape (fst kv) @ ''='' @ escape (stringifyPrimitive x)) xs
                           | v \<Rightarrow> [escape (fst kv) @ ''='' @ escape (stringifyPrimitive v)])
                    (own_entries obj)))"

text \<open>\<open>url.format(urlObject)\<close>: a truthy \<open>search\<close> wins over the \<open>query\<close> object; a number
  sign inside the search is escaped; a search without question mark and a hash without
  number sign get theirs.\<close>

definition url_format :: "url \<Rightarrow> string" where
  "url_format u =
     (let q = qs_stringify (u_query u);
          search = (case u_search u of
                      Some s \<Rightarrow> if s \<noteq> [] then s else if q \<noteq> [] then ''?'' @ q else []
                    | None \<Rightarrow> if q \<noteq> [] then ''?'' @ q else []);
          search = (if search \<noteq> [] \<and> hd search \<noteq> CHR ''?'' then CHR ''?'' # search else search);
          search = concat (map (\<lambda>c. if c = CHR ''#'' then ''%23'' else [c]) search);
          hash = (case u_hash u of Some h \<Rightarrow> h | None \<Rightarrow> []);
          hash = (if hash \<noteq> [] \<and> hd hash \<noteq> CHR ''#'' then CHR ''#'' # hash else hash)
      in u_front u @ search @ hash)"

text \<open>The object \<open>{ query: {} }\<close>.\<close>

definition empty_url :: url where
  "empty_url = \<lparr> u_front = [], u_search = None, u_query = [], u_hash = None \<rparr>"

section \<open>The authorize endpoint (handlers/authorize)\<close>

record authorization_request =
  az_responseType :: string
  az_redirectUri :: string
  az_clientId :: string
  az_scope :: "string option"
  az_state :: "string option"

text \<open>The constructor of \<open>AuthorizationRequest\<close>.\<close>

definition AuthorizationRequest :: "request \<Rightarrow> bool \<Rightarrow> js_error + authorization_request" where
  "AuthorizationRequest request allowEmptyState =
     (let requestResponseType = or_else (body request ''response_type'') (query request ''response_type'');
          requestRedirectUri = or_else (body request ''redirect_uri'') (query request ''redirect_uri'');
          requestClientId = or_else (body request ''client_id'') (query request ''client_id'');
          requestScope = or_else (body request ''scope'') (query request ''scope'');
          requestState = or_else (body request ''state'') (query request ''state'')
      in
      if query request ''allowed'' = Some ''false''
      then Inl (AccessDeniedError ''Access denied: user denied access to application'')
      else if \<not> truthy_opt requestResponseType
      then Inl (InvalidRequestError ''Missing parameter: `response_type`'')
      else if \<not> (requestResponseType = Some ''code'' \<or> requestResponseType = Some ''token'')
      then Inl (UnsupportedResponseTypeError ''Invalid parameter: `response_type`'')
      else if \<not> truthy_opt requestRedirectUri
      then Inl (InvalidRequestError ''Missing parameter: `redirect_uri`'')
      else if \<not> uri requestRedirectUri
      then Inl (InvalidRequestError ''Invalid request: `redirect_uri` is not a valid URI'')
      else if \<not> truthy_opt requestClientId
      then Inl (InvalidRequestError ''Missing parameter: `client_id`'')
      else if \<not> vschar requestClientId
      then Inl (InvalidRequestError ''Invalid parameter: `client_id`'')
      else if \<not> nqschar requestScope
      then Inl (InvalidScopeError ''Invalid parameter: `scope`'')
      else if \<not> (allowEmptyState \<or> truthy_opt requestState)
      then Inl (InvalidRequestError ''Missing parameter: `state`'')
      else if \<not> vschar requestState
      then Inl (InvalidRequestError ''Invalid parameter: `state`'')
      else Inr \<lparr> az_responseType = to_test_string requestResponseType,
                 az_redirectUri = to_test_string requestRedirectUri,
                 az_clientId = to_test_string requestClientId,
                 az_scope = requestScope,
                 az_state = requestState \<rparr>)"

text \<open>
  The options of the handler.  The resource owner is authenticated by the handler given in
  the options (an object of the host with an \<open>execute(request, response)\<close>, which may write
  to the response) or, when none is given, by the bearer authenticate handler.
\<close>

record 's authorize_options =
  authenticateHandler :: "(request \<Rightarrow> response \<Rightarrow> 's \<Rightarrow> (js_error + jsval) \<times> response \<times> 's) option"
  az_accessTokenLifetime :: int
  authorizationCodeLifetime :: int
  allowEmptyState :: bool
  authenticateOptions :: authenticate_options

definition authenticateResourceOwner :: "'s env \<Rightarrow> 's authorize_options \<Rightarrow> request \<Rightarrow> ('s, jsval) io" where
  "authenticateResourceOwner env opts request =
     bnd (case authenticateHandler opts of
            None \<Rightarrow> AuthenticateHandler_execute env (authenticateOptions opts) request
          | Some h \<Rightarrow>
              (\<lambda>w. case h request (resp w) (store w) of
                      (r, rs, s') \<Rightarrow> (r, w\<lparr>store := s', resp := rs\<rparr>))) (\<lambda>user.
     bnd (throw_if (\<not> truthy user)
            (ServerError ''Server error: `authenticateHandler` did not return a `user` object'')) (\<lambda>_.
     ret user))"

text \<open>\<open>xs.includes(v)\<close> on an array (an element equal to \<open>v\<close>) and on a string (a substring);
  other values have no method \<open>includes\<close>.\<close>

fun contains :: "string \<Rightarrow> string \<Rightarrow> bool" where
  "contains [] p = (p = [])"
| "contains (c # cs) p = (take (length p) (c # cs) = p \<or> contains cs p)"

fun js_includes :: "jsval \<Rightarrow> jsval \<Rightarrow> js_error + bool" where
  "js_includes (JArr xs) v = Inr (list_ex (\<lambda>x. strict_eq x v) xs)"
| "js_includes (JStr s) v = Inr (contains s (to_String v))"
| "js_includes x v = Inl (TypeError ''includes is not a function'')"

text \<open>\<open>xs.length === 0\<close>.\<close>

fun length_is_0 :: "jsval \<Rightarrow> bool" where
  "length_is_0 (JArr xs) = (xs = [])"
| "length_is_0 (JStr s) = (s = [])"
| "length_is_0 v = False"

definition validateClient :: "'s env \<Rightarrow> authorization_request \<Rightarrow> ('s, jsval) io" where
  "validateClient env authorizationRequest =
     bnd (invoke ''getClient'' (getClient env) [JStr (az_clientId authorizationRequest)]) (\<lambda>client.
     bnd (throw_if (\<not> truthy client)
            (InvalidClientError ''Invalid client: client credentials are invalid'')) (\<lambda>_.
     bnd (lift (get client ''grants'')) (\<lambda>grants.
     bnd (throw_if (\<not> truthy grants) (InvalidClientError ''Invalid client: missing client `grants`'')) (\<lambda>_.
     bnd (if az_responseType authorizationRequest = ''code''
          then bnd (lift (js_includes grants (JStr ''authorization_code''))) (\<lambda>ok.
               throw_if (\<not> ok) (UnauthorizedClientError ''Unauthorized client: `grant_type` is invalid''))
          else ret ()) (\<lambda>_.
     bnd (if az_responseType authorizationRequest = ''token''
          then bnd (lift (js_includes grants (JStr ''implicit''))) (\<lambda>ok.
               throw_if (\<not> ok) (UnauthorizedClientError ''Unauthorized client: `grant_type` is invalid''))
          else ret ()) (\<lambda>_.
     bnd (lift (get client ''redirectUris'')) (\<lambda>redirectUris.
     bnd (throw_if (if truthy redirectUris then length_is_0 redirectUris else True)
            (InvalidClientError ''Invalid client: missing client `redirectUri`'')) (\<lambda>_.
     bnd (if az_redirectUri authorizationRequest \<noteq> []
          then bnd (lift (js_includes redirectUris (JStr (az_redirectUri authorizationRequest)))) (\<lambda>ok.
               throw_if (\<not> ok)
                 (InvalidClientError ''Invalid client: `redirect_uri` does not match client value''))
          else ret ()) (\<lambda>_.
     ret client)))))))))"

text \<open>\<open>AuthorizeHandler.validateScope\<close>: the Model is called with the user first.\<close>

definition AuthorizeHandler_validateScope ::
  "'s env \<Rightarrow> authorization_request \<Rightarrow> jsval \<Rightarrow> jsval \<Rightarrow> ('s, jsval) io" where
  "AuthorizeHandler_validateScope env authorizationRequest user client =
     (case validateScope env of
        Some f \<Rightarrow>
          bnd (invoke ''validateScope'' f [user, client, of_opt (az_scope authorizationRequest)]) (\<lambda>validScope.
          bnd (throw_if (\<not> truthy validScope)
                 (InvalidScopeError ''Invalid scope: Requested scope is invalid'')) (\<lambda>_.
          ret validScope))
      | None \<Rightarrow> ret (of_opt (az_scope authorizationRequest)))"

subsection \<open>The response type \<open>code\<close> (response-types/code-response.js)\<close>

text \<open>\<open>client.lifetime || option\<close>, in seconds.  The lifetimes of a client are numbers in the
  data model; a truthy value of another kind is not modelled and gives the option.\<close>

definition lifetime_or :: "jsval \<Rightarrow> int \<Rightarrow> int" where
  "lifetime_or v dflt = (case v of JNum n \<Rightarrow> if n \<noteq> 0 then n else dflt | _ \<Rightarrow> dflt)"

definition setAuthorizationCodeExpiresAt :: "'s env \<Rightarrow> int \<Rightarrow> jsval \<Rightarrow> ('s, jsval) io" where
  "setAuthorizationCodeExpiresAt env lifetime client =
     bnd (now env) (\<lambda>n.
     bnd (lift (get client ''authorizationCodeLifetime'')) (\<lambda>client_lifetime.
     ret (JDate (n + lifetime_or client_lifetime lifetime * 1000))))"

definition createAuthorizationCode ::
  "'s env \<Rightarrow> int \<Rightarrow> jsval \<Rightarrow> jsval \<Rightarrow> jsval \<Rightarrow> string \<Rightarrow> ('s, jsval) io" where
  "createAuthorizationCode env lifetime client user scope redirectUri =
     bnd (case generateAuthorizationCode env of
            Some f \<Rightarrow>
              bnd (invoke ''generateAuthorizationCode'' f [client, user, scope]) (\<lambda>authorizationCode.
              bnd (throw_if (\<not> truthy authorizationCode)
                     (ServerError
                        ''Server error: `generateAuthorizationCode` did not return an `authorizationCode` value'')) (\<lambda>_.
              ret authorizationCode))
          | None \<Rightarrow> randomToken env) (\<lambda>authorizationCode.
     bnd (setAuthorizationCodeExpiresAt env lifetime client) (\<lambda>expiresAt.
     bnd (invoke ''saveAuthorizationCode'' (saveAuthorizationCode env)
            [client, user,
             JObj [(''authorizationCode'', authorizationCode), (''scope'', scope),
                   (''redirectUri'', JStr redirectUri), (''expiresAt'', expiresAt)]]) (\<lambda>code.
     bnd (throw_if (\<not> truthy code)
            (ServerError ''Server error: `saveAuthorizationCode` did not return an `authorizationCode` value'')) (\<lambda>_.
     bnd (lift (get code ''authorizationCode'')) (\<lambda>saved.
     bnd (throw_if (\<not> truthy saved)
            (ServerError ''Server error: `saveAuthorizationCode` did not return an `authorizationCode` value'')) (\<lambda>_.
     ret saved))))))"

text \<open>\<open>CodeResponse.buildRedirectUri(code, scope, uri, state)\<close>.\<close>

definition CodeResponse_buildRedirectUri ::
  "'s env \<Rightarrow> jsval \<Rightarrow> jsval \<Rightarrow> string \<Rightarrow> string option \<Rightarrow> url" where
  "CodeResponse_buildRedirectUri env code scope uri' state =
     (let redirectUri = url_parse env uri' True;
          redirectUri = redirectUri\<lparr>u_search := None\<rparr>;
          redirectUri = redirectUri\<lparr>u_query := obj_set ''code'' code (u_query redirectUri)\<rparr>;
          redirectUri = (if truthy scope
                         then redirectUri\<lparr>u_query := obj_set ''scope'' scope (u_query redirectUri)\<rparr>
                         else redirectUri);
          redirectUri = (if truthy_opt state
                         then redirectUri\<lparr>u_query := obj_set ''state'' (of_opt state) (u_query redirectUri)\<rparr>
                         else redirectUri)
      in redirectUri)"

text \<open>\<open>new CodeResponse(model, options).execute(...)\<close>; the constructor refuses a falsy
  lifetime.\<close>

definition CodeResponse_execute ::
  "'s env \<Rightarrow> int \<Rightarrow> jsval \<Rightarrow> jsval \<Rightarrow> jsval \<Rightarrow> string \<Rightarrow> string option \<Rightarrow> ('s, url) io" where
  "CodeResponse_execute env lifetime client user scope redirectUri state =
     bnd (throw_if (lifetime = 0) (InvalidArgumentError ''Missing parameter: `authorizationCodeLifetime`'')) (\<lambda>_.
     bnd (createAuthorizationCode env lifetime client user scope redirectUri) (\<lambda>code.
     ret (CodeResponse_buildRedirectUri env code scope redirectUri state)))"

subsection \<open>The response type \<open>token\<close> (response-types/token-response.js, grants/implicit)\<close>

text \<open>\<open>ImplicitGrant.createAccessToken\<close>: the token, the client and the user go to \<open>saveToken\<close>
  in this order.\<close>

definition ImplicitGrant_createAccessToken ::
  "'s env \<Rightarrow> int \<Rightarrow> jsval \<Rightarrow> jsval \<Rightarrow> jsval \<Rightarrow> ('s, jsval) io" where
  "ImplicitGrant_createAccessToken env lifetime user scope client =
     bnd (AbstractGrant_generateAccessToken env client user scope) (\<lambda>accessToken.
     bnd (now env) (\<lambda>n.
     invoke ''saveToken'' (saveToken env)
       [JObj [(''accessToken'', accessToken), (''accessTokenExpiresAt'', JDate (n + lifetime * 1000)),
              (''scope'', scope)],
        client, user]))"

text \<open>\<open>new ImplicitGrant(model, user, scope, options).execute(client)\<close>.\<close>

definition ImplicitGrant_execute :: "'s env \<Rightarrow> int \<Rightarrow> jsval \<Rightarrow> jsval \<Rightarrow> jsval \<Rightarrow> ('s, jsval) io" where
  "ImplicitGrant_execute env lifetime user scope client =
     bnd (throw_if (\<not> truthy user) (InvalidArgumentError ''Missing parameter: `user`'')) (\<lambda>_.
     bnd (throw_if (\<not> truthy scope) (InvalidArgumentError ''Missing parameter: `scope`'')) (\<lambda>_.
     bnd (ImplicitGrant_createAccessToken env lifetime user scope client) (\<lambda>accessToken.
     bnd (TokenModel env accessToken False) (\<lambda>model.
     lift (bearer_of model)))))"

text \<open>\<open>TokenResponse.buildRedirectUri(token, uri, state)\<close>.  The query string is not parsed:
  the \<open>query\<close> of the parsed object is a string or \<open>null\<close>, which \<open>url.format\<close> does not
  render, as it does not render an object without properties.\<close>

definition TokenResponse_buildRedirectUri ::
  "'s env \<Rightarrow> int \<Rightarrow> jsval \<Rightarrow> string \<Rightarrow> string option \<Rightarrow> js_error + url" where
  "TokenResponse_buildRedirectUri env lifetime token uri' state =
     (case get token ''access_token'' of
        Inl e \<Rightarrow> Inl e
      | Inr access_token \<Rightarrow>
          let redirectUri = (url_parse env uri' False)\<lparr>u_query := []\<rparr>;
              hash = (case u_hash redirectUri of Some h \<Rightarrow> h | None \<Rightarrow> []);
              hash = hash @ (if hash \<noteq> [] then ''&'' else []) @ ''access_token=''
                       @ escape (to_String access_token);
              hash = hash @ (if hash \<noteq> [] then ''&'' else []) @ ''expires_in=''
                       @ escape (show_int lifetime);
              hash = (if truthy_opt state
                      then hash @ (if hash \<noteq> [] then ''&'' else []) @ ''state=''
                             @ escape (to_test_string state)
                      else hash)
          in Inr (redirectUri\<lparr>u_hash := Some hash\<rparr>))"

definition TokenResponse_execute ::
  "'s env \<Rightarrow> int \<Rightarrow> jsval \<Rightarrow> jsval \<Rightarrow> jsval \<Rightarrow> string \<Rightarrow> string option \<Rightarrow> ('s, url) io" where
  "TokenResponse_execute env lifetime client user scope redirectUri state =
     bnd (throw_if (lifetime = 0) (InvalidArgumentError ''Missing parameter: `accessTokenLifetime`'')) (\<lambda>_.
     bnd (lift (get client ''accessTokenLifetime'')) (\<lambda>client_lifetime.
     bnd (ImplicitGrant_execute env (lifetime_or client_lifetime lifetime) user scope client) (\<lambda>token.
     lift (TokenResponse_buildRedirectUri env lifetime token redirectUri state))))"

subsection \<open>The response and the handler\<close>

definition AuthorizationResponse_setSuccessResponse :: "url \<Rightarrow> ('s, unit) io" where
  "AuthorizationResponse_setSuccessResponse redirectUri =
     bnd (setHeader ''Location'' (JStr (url_format redirectUri))) (\<lambda>_.
     setStatus (JNum 302))"

text \<open>\<open>AuthorizationResponse.setErrorResponse(error, uri)\<close>.\<close>

definition AuthorizationResponse_setErrorResponse ::
  "'s env \<Rightarrow> string option \<Rightarrow> js_error \<Rightarrow> ('s, unit) io" where
  "AuthorizationResponse_setErrorResponse env uri' error =
     (if err_name error = ''invalid_client'' \<or> err_name error = ''unauthorized_request''
      then bnd (setBody (error_body error)) (\<lambda>_.
           setStatus (JNum 401))
      else
        let redirectUri = (if truthy_opt uri' then url_parse env (to_test_string uri') True else empty_url);
            redirectUri = redirectUri\<lparr>u_query := obj_set ''error'' (JStr (err_name error)) (u_query redirectUri)\<rparr>;
            redirectUri = (if err_message error \<noteq> []
                           then redirectUri\<lparr>u_query := obj_set ''error_description''
                                                         (JStr (err_message error)) (u_query redirectUri)\<rparr>
                           else redirectUri)
        in
        bnd (setHeader ''Location'' (JStr (url_format redirectUri))) (\<lambda>_.
        bnd (setStatus (JNum 302)) (\<lambda>_.
        setBody (error_body error))))"

definition AuthorizeHandler_execute :: "'s env \<Rightarrow> 's authorize_options \<Rightarrow> request \<Rightarrow> ('s, unit) io" where
  "AuthorizeHandler_execute env opts request =
     try_catch_rethrow
       (bnd (lift (AuthorizationRequest request (allowEmptyState opts))) (\<lambda>authorizationRequest.
        bnd (authenticateResourceOwner env opts request) (\<lambda>user.
        bnd (validateClient env authorizationRequest) (\<lambda>client.
        bnd (AuthorizeHandler_validateScope env authorizationRequest user client) (\<lambda>validScope.
        bnd (if az_responseType authorizationRequest = ''code''
             then CodeResponse_execute env (authorizationCodeLifetime opts) client user validScope
                    (az_redirectUri authorizationRequest) (az_state authorizationRequest)
             else TokenResponse_execute env (az_accessTokenLifetime opts) client user validScope
                    (az_redirectUri authorizationRequest) (az_state authorizationRequest)) (\<lambda>redirectUri.
        AuthorizationResponse_setSuccessResponse redirectUri))))))
       (AuthorizationResponse_setErrorResponse env
          (or_else (body request ''redirect_uri'') (query request ''redirect_uri'')))"

section \<open>Observing a call\<close>

text \<open>The events a computation has added to the log, between the world it started in and
  the world it ended in.\<close>

definition new_events :: "'s world \<Rightarrow> 's world \<Rightarrow> event list" where
  "new_events w w' = drop (length (trace w)) (trace w')"

fun ev_name :: "event \<Rightarrow> string" where
  "ev_name (Call n args r) = n"

text \<open>The arguments of the calls of one capability, in the order of the calls.\<close>

definition calls_of :: "string \<Rightarrow> event list \<Rightarrow> jsval list list" where
  "calls_of name tr =
     concat (map (\<lambda>ev. case ev of Call n args r \<Rightarrow> if n = name then [args] else []) tr)"

text \<open>A call succeeded when it resolved to a truthy value.\<close>

fun succeeded :: "js_error + jsval \<Rightarrow> bool" where
  "succeeded (Inr v) = truthy v"
| "succeeded (Inl e) = False"

text \<open>\<open>save_after rn tr\<close>: in the log \<open>tr\<close> no call of \<open>saveToken\<close> comes before the first
  successful call of the capability \<open>rn\<close>; in particular a log without such a call has no
  call of \<open>saveToken\<close> at all.\<close>

fun save_after :: "string \<Rightarrow> event list \<Rightarrow> bool" where
  "save_after rn [] = True"
| "save_after rn (Call n args r # es) =
     (if n = ''saveToken'' then False
      else if n = rn \<and> succeeded r then True
      else save_after rn es)"

text \<open>\<open>falsy_revoke rn tr\<close>: some call of the capability \<open>rn\<close> in the log resolved to a falsy
  value.\<close>

fun resolved_falsy :: "js_error + jsval \<Rightarrow> bool" where
  "resolved_falsy (Inr v) = (\<not> truthy v)"
| "resolved_falsy (Inl e) = False"

definition falsy_revoke :: "string \<Rightarrow> event list \<Rightarrow> bool" where
  "falsy_revoke rn tr = list_ex (\<lambda>ev. case ev of Call n args r \<Rightarrow> n = rn \<and> resolved_falsy r) tr"

text \<open>\<open>only_calls S m\<close>: whatever the world, \<open>m\<close> extends the log, and only by calls of
  capabilities named in \<open>S\<close>.\<close>

definition only_calls :: "string set \<Rightarrow> ('s, 'a) io \<Rightarrow> bool" where
  "only_calls S m = (\<forall>w. \<exists>evs. trace (snd (m w)) = trace w @ evs \<and> ev_name ` set evs \<subseteq> S)"


text \<open>An outcome is a failure of the given kind.\<close>

definition fails_with :: "string \<Rightarrow> js_error + 'a \<Rightarrow> bool" where
  "fails_with name r = (case r of Inl e \<Rightarrow> err_name e = name | Inr a \<Rightarrow> False)"

text \<open>The record has a truthy property \<open>k\<close>.\<close>

definition has_truthy :: "jsval \<Rightarrow> string \<Rightarrow> bool" where
  "has_truthy v k = (case get v k of Inr x \<Rightarrow> truthy x | Inl e \<Rightarrow> False)"

text \<open>The record is bound to the client: it has a client object whose \<open>id\<close> is strictly equal
  to the \<open>id\<close> of the client.\<close>

definition bound_to :: "jsval \<Rightarrow> jsval \<Rightarrow> bool" where
  "bound_to record client =
     (case get record ''client'' of
        Inl e \<Rightarrow> False
      | Inr c \<Rightarrow>
          (case (get c ''id'', get client ''id'') of
             (Inr a, Inr b) \<Rightarrow> strict_eq a b
           | _ \<Rightarrow> False))"

text \<open>The expiry instant that the token hint selects.\<close>

definition expiry_by_hint :: "introspect_request \<Rightarrow> jsval \<Rightarrow> js_error + jsval" where
  "expiry_by_hint req token =
     (if ir_tokenHint req = ''access_token'' then get token ''accessTokenExpiresAt''
      else get token ''refreshTokenExpiresAt'')"

text \<open>\<open>Response.get(field)\<close>.\<close>

definition response_get :: "response \<Rightarrow> string \<Rightarrow> jsval option" where
  "response_get r field = res_headers r (toLowerCase field)"

text \<open>The \<open>redirectUri\<close> of a code record is absent or has the shape of a URI.\<close>

definition redirect_ok :: "jsval \<Rightarrow> bool" where
  "redirect_ok code =
     (case get code ''redirectUri'' of
        Inl e \<Rightarrow> False
      | Inr r \<Rightarrow> if truthy r then uri_val r else True)"

text \<open>The capability that revokes a token of the hinted kind.\<close>

definition revoke_capability :: "introspect_request \<Rightarrow> string" where
  "revoke_capability req =
     (if ir_tokenHint req = ''access_token'' then ''revokeAccessToken'' else ''revokeRefreshToken'')"

text \<open>The record has a client object.\<close>

definition has_client :: "jsval \<Rightarrow> bool" where
  "has_client token =
     (case get token ''client'' of
        Inl e \<Rightarrow> False
      | Inr c \<Rightarrow> (case get c ''id'' of Inl e \<Rightarrow> False | Inr i \<Rightarrow> True))"

text \<open>The lookup and the revocation that the token hint selects.\<close>

definition lookup_by_hint :: "'s env \<Rightarrow> introspect_request \<Rightarrow> 's capability" where
  "lookup_by_hint env req =
     (if ir_tokenHint req = ''access_token'' then getAccessToken env else getRefreshToken env)"

definition revoke_by_hint :: "'s env \<Rightarrow> introspect_request \<Rightarrow> 's capability" where
  "revoke_by_hint env req =
     (if ir_tokenHint req = ''access_token'' then revokeAccessToken env else revokeRefreshToken env)"

text \<open>The sources a bearer request may present its token in, each counted when it is a
  non-empty string.\<close>

definition bearer_sources :: "request \<Rightarrow> string option list" where
  "bearer_sources request =
     [request_get request ''Authorization'', query request ''access_token'',
      body request ''access_token'']"

text \<open>The parameters that the code response adds to the redirect: the code, then the scope
  if it is truthy, then the state if it is truthy.\<close>

definition code_parameters :: "jsval \<Rightarrow> jsval \<Rightarrow> string option \<Rightarrow> (string \<times> jsval) list" where
  "code_parameters c scope state =
     [(''code'', c)] @ (if truthy scope then [(''scope'', scope)] else [])
       @ (if truthy_opt state then [(''state'', of_opt state)] else [])"

text \<open>The steps of \<open>RefreshTokenGrant.execute\<close> that follow the validation of the refresh
  token: the revocation of the old token, the creation and saving of the new one, and the
  bearer token of the answer.\<close>

definition refresh_after_validation :: "'s env \<Rightarrow> grant_options \<Rightarrow> jsval \<Rightarrow> jsval \<Rightarrow> ('s, jsval) io" where
  "refresh_after_validation env opts client token =
     bnd (deleteRefreshToken env opts token) (\<lambda>_.
     bnd (lift (get token ''user'')) (\<lambda>token_user.
     bnd (lift (get token ''scope'')) (\<lambda>token_scope.
     bnd (RefreshTokenGrant_createToken env opts client token_user token_scope) (\<lambda>data.
     bnd (TokenModel env data False) (\<lambda>model.
     lift (bearer_of model))))))"

text \<open>The world after a validation that found the record \<open>token\<close>: the Model has answered
  \<open>getRefreshToken\<close> and the clock has been read.\<close>

definition validated :: "'s world \<Rightarrow> refresh_request \<Rightarrow> jsval \<Rightarrow> 's \<Rightarrow> 's world" where
  "validated w a token s =
     w\<lparr>store := s,
       trace := trace w @ [Call ''getRefreshToken'' [JStr (rr_refreshToken a)] (Inr token)]\<rparr>"

text \<open>Assignments \<open>obj[k] = v\<close>, one after the other.\<close>

definition set_parameters :: "(string \<times> jsval) list \<Rightarrow> (string \<times> jsval) list \<Rightarrow> (string \<times> jsval) list" where
  "set_parameters ps obj = fold (\<lambda>p. obj_set (fst p) (snd p)) ps obj"

text \<open>The query object of the redirect of a code response: the query object that the parser
  finds in the requested redirect URI, with the parameters of the code response set.\<close>

definition redirect_query :: "'s env \<Rightarrow> authorization_request \<Rightarrow> jsval \<Rightarrow> jsval \<Rightarrow> (string \<times> jsval) list" where
  "redirect_query env a c scope =
     set_parameters (code_parameters c scope (az_state a))
       (u_query (url_parse env (az_redirectUri a) True))"

text \<open>What \<open>url.format\<close> writes for a query object when the \<open>search\<close> is \<open>null\<close>, and for a
  \<open>hash\<close>.\<close>

definition query_part :: "(string \<times> jsval) list \<Rightarrow> string" where
  "query_part q = (if qs_stringify q = [] then [] else ''?'' @ qs_stringify q)"

definition hash_part :: "string option \<Rightarrow> string" where
  "hash_part h =
     (case h of
        None \<Rightarrow> []
      | Some x \<Rightarrow> if x \<noteq> [] \<and> hd x \<noteq> CHR ''#'' then CHR ''#'' # x else x)"

section \<open>Concrete hosts and records, for evaluation\<close>

text \<open>A host whose state is a counter: the clock stands at 1000 ms, the random tokens are
  \<open>t0\<close>, \<open>t1\<close>, ...; every capability of the Model answers from its arguments alone.\<close>

definition answers :: "(jsval list \<Rightarrow> jsval) \<Rightarrow> nat capability" where
  "answers f = (\<lambda>args s. (Inr (f args), s))"

text \<open>A \<open>saveToken(client, user, token)\<close> that returns the token with the client and the user
  it was given.\<close>

definition save_with_owner :: "jsval list \<Rightarrow> jsval" where
  "save_with_owner args =
     (case args of
        [client, user, JObj kvs] \<Rightarrow> JObj (kvs @ [(''client'', client), (''user'', user)])
      | _ \<Rightarrow> JUndefined)"

subsection \<open>The parser of URLs of the examples\<close>

text \<open>
  The URIs of the examples are written \<open>scheme://host/path?query#fragment\<close> in lower case,
  with a path and without a character that \<open>url.parse\<close> escapes: for these the front of the
  parsed object is the text before the query string, the \<open>search\<close> is the text from the first
  question mark to the fragment, and the \<open>hash\<close> is the text from the first number sign on.
  The query object is the \<open>querystring.parse\<close> of the search without its question mark.
\<close>

definition hex_value :: "char \<Rightarrow> nat option" where
  "hex_value c =
     (if 48 \<le> char_code c \<and> char_code c \<le> 57 then Some (char_code c - 48)
      else if 65 \<le> char_code c \<and> char_code c \<le> 70 then Some (char_code c - 55)
      else if 97 \<le> char_code c \<and> char_code c \<le> 102 then Some (char_code c - 87)
      else None)"

text \<open>\<open>querystring.unescape\<close> after the replacement of \<open>+\<close> by a space: a percent sign
  followed by two hexadecimal digits is the byte they denote, anything else is kept.\<close>

fun unescape :: "string \<Rightarrow> string" where
  "unescape [] = []"
| "unescape (c # cs) =
     (if c = CHR ''+'' then CHR '' '' # unescape cs
      else if c = CHR ''%'' then
        (case cs of
           a # b # rest \<Rightarrow>
             (case (hex_value a, hex_value b) of
                (Some x, Some y) \<Rightarrow> char_of (16 * x + y) # unescape rest
              | _ \<Rightarrow> c # unescape cs)
         | _ \<Rightarrow> c # unescape cs)
      else c # unescape cs)"

text \<open>Splitting at each occurrence, and at the first occurrence, of a character.\<close>

fun split_on :: "char \<Rightarrow> string \<Rightarrow> string list" where
  "split_on d [] = [[]]"
| "split_on d (c # cs) =
     (if c = d then [] # split_on d cs
      else (case split_on d cs of [] \<Rightarrow> [[c]] | x # xs \<Rightarrow> (c # x) # xs))"

definition before :: "char \<Rightarrow> string \<Rightarrow> string" where
  "before d s = takeWhile (\<lambda>c. c \<noteq> d) s"

text \<open>From the first occurrence on, with the character itself.\<close>

definition from_first :: "char \<Rightarrow> string \<Rightarrow> string option" where
  "from_first d s = (case dropWhile (\<lambda>c. c \<noteq> d) s of [] \<Rightarrow> None | r \<Rightarrow> Some r)"

text \<open>Adding a parsed pair to the query object: a repeated key collects its values in an
  array, at the place of its first occurrence.\<close>

definition qs_add :: "string \<Rightarrow> string \<Rightarrow> (string \<times> jsval) list \<Rightarrow> (string \<times> jsval) list" where
  "qs_add k v obj =
     (case map_of obj k of
        None \<Rightarrow> obj @ [(k, JStr v)]
      | Some (JArr xs) \<Rightarrow> obj_set k (JArr (xs @ [JStr v])) obj
      | Some old \<Rightarrow> obj_set k (JArr [old, JStr v]) obj)"

text \<open>\<open>querystring.parse\<close>: empty pieces are skipped, a piece without \<open>=\<close> has the empty
  value.\<close>

definition qs_parse :: "string \<Rightarrow> (string \<times> jsval) list" where
  "qs_parse s =
     fold (\<lambda>piece obj.
             if piece = [] then obj
             else qs_add (unescape (before (CHR ''='') piece))
                    (unescape (case from_first (CHR ''='') piece of None \<Rightarrow> [] | Some r \<Rightarrow> tl r)) obj)
          (split_on (CHR ''&'') s) []"

definition plain_url_parse :: "string \<Rightarrow> bool \<Rightarrow> url" where
  "plain_url_parse uri' parseQueryString =
     (let rest = before (CHR ''#'') uri' in
      \<lparr> u_front = before (CHR ''?'') rest,
        u_search = from_first (CHR ''?'') rest,
        u_query = (if parseQueryString
                   then (case from_first (CHR ''?'') rest of None \<Rightarrow> [] | Some s \<Rightarrow> qs_parse (tl s))
                   else []),
        u_hash = from_first (CHR ''#'') uri' \<rparr>)"

subsection \<open>Hosts, clients and requests\<close>

definition host :: "nat env" where
  "host =
     \<lparr> getClient = answers (\<lambda>_. JUndefined),
       getAccessToken = answers (\<lambda>_. JUndefined),
       getRefreshToken = answers (\<lambda>_. JUndefined),
       getAuthorizationCode = answers (\<lambda>_. JUndefined),
       revokeAccessToken = answers (\<lambda>_. JBool True),
       revokeRefreshToken = answers (\<lambda>_. JBool True),
       revokeAuthorizationCode = answers (\<lambda>_. JBool True),
       saveToken = answers save_with_owner,
       saveAuthorizationCode = answers (\<lambda>_. JUndefined),
       validateScope = None,
       verifyScope = None,
       generateAccessToken = None,
       generateRefreshToken = None,
       generateAuthorizationCode = None,
       clock = (\<lambda>s. (1000, s)),
       generateRandomToken = (\<lambda>s. (CHR ''t'' # show_nat s, Suc s)),
       typeis = (\<lambda>r t. headers r ''content-type'' = Some t),
       auth = (\<lambda>r. None),
       url_parse = plain_url_parse \<rparr>"

definition response0 :: response where
  "response0 = \<lparr> res_status = JNum 200, res_headers = Map.empty, res_body = JObj [] \<rparr>"

definition world0 :: "nat world" where
  "world0 = \<lparr> store = 0, trace = [], resp = response0 \<rparr>"

definition options0 :: grant_options where
  "options0 =
     \<lparr> accessTokenLifetime = 1800, refreshTokenLifetime = 86400,
       alwaysIssueNewRefreshToken = JBool True, allowExtendedTokenAttributes = False \<rparr>"

definition alice :: jsval where
  "alice = JObj [(''username'', JStr ''alice'')]"

definition owner :: jsval where
  "owner = JObj [(''username'', JStr ''owner'')]"

definition client1 :: jsval where
  "client1 = JObj [(''id'', JStr ''c1''), (''grants'', JArr [JStr ''authorization_code'', JStr ''refresh_token''])]"

text \<open>A client record that names the user who registered the client.\<close>

definition client2 :: jsval where
  "client2 =
     JObj [(''id'', JStr ''c2''), (''grants'', JArr [JStr ''authorization_code'']), (''user'', owner)]"

definition code_of :: "jsval \<Rightarrow> int \<Rightarrow> jsval" where
  "code_of client expires =
     JObj [(''authorizationCode'', JStr ''abc''), (''client'', client), (''user'', alice),
           (''scope'', JStr ''read''), (''redirectUri'', JStr ''https://app/cb''),
           (''expiresAt'', JDate expires)]"

definition form_post :: "(string \<times> string) list \<Rightarrow> request" where
  "form_post params =
     \<lparr> req_method = ''POST'',
       headers = [''content-type'' \<mapsto> ''application/x-www-form-urlencoded''],
       query = Map.empty,
       body = map_of params \<rparr>"

definition redeem_request :: request where
  "redeem_request =
     form_post [(''grant_type'', ''authorization_code''), (''code'', ''abc''),
                (''redirect_uri'', ''https://app/cb'')]"

text \<open>A token record of the Model; the expiry instants are added by the caller.\<close>

definition token_of :: "jsval \<Rightarrow> (string \<times> jsval) list \<Rightarrow> jsval" where
  "token_of client expiries =
     JObj ([(''accessToken'', JStr ''A1''), (''refreshToken'', JStr ''R1''), (''client'', client),
            (''user'', alice), (''scope'', JStr ''read'')] @ expiries)"

definition refresh_request0 :: request where
  "refresh_request0 = form_post [(''grant_type'', ''refresh_token''), (''refresh_token'', ''R1'')]"

text \<open>A request body that carries the parameters of both flows.\<close>

definition exchange_request :: request where
  "exchange_request =
     form_post [(''code'', ''abc''), (''redirect_uri'', ''https://app/cb''), (''refresh_token'', ''R1'')]"

text \<open>A host that knows the code \<open>abc\<close> and the refresh token \<open>R1\<close> of client \<open>c1\<close>, and whose
  revocations answer \<open>false\<close>.\<close>

definition host_no_revoke :: "nat env" where
  "host_no_revoke =
     host\<lparr> getAuthorizationCode := answers (\<lambda>_. code_of client1 2000),
           getRefreshToken := answers (\<lambda>_. token_of client1 [(''refreshTokenExpiresAt'', JDate 2000)]),
           revokeAuthorizationCode := answers (\<lambda>_. JBool False),
           revokeRefreshToken := answers (\<lambda>_. JBool False) \<rparr>"

text \<open>Hosts that know the code \<open>abc\<close>, the refresh token \<open>R1\<close> or the access token \<open>A1\<close>.\<close>

definition host_with_code :: "jsval \<Rightarrow> nat env" where
  "host_with_code code = host\<lparr> getAuthorizationCode := answers (\<lambda>_. code) \<rparr>"

definition host_with_refresh_token :: "jsval \<Rightarrow> nat env" where
  "host_with_refresh_token token = host\<lparr> getRefreshToken := answers (\<lambda>_. token) \<rparr>"

definition host_with_access_token :: "jsval \<Rightarrow> nat env" where
  "host_with_access_token token = host\<lparr> getAccessToken := answers (\<lambda>_. token) \<rparr>"

text \<open>Parsed requests for the code \<open>abc\<close>, the refresh token \<open>R1\<close> and the access token \<open>A1\<close>.\<close>

definition code_request0 :: code_request where
  "code_request0 = \<lparr> cr_code = ''abc'', cr_redirectUri = Some ''https://app/cb'' \<rparr>"

definition refresh_parsed0 :: refresh_request where
  "refresh_parsed0 = \<lparr> rr_refreshToken = ''R1'', rr_scope = None \<rparr>"

definition introspect_parsed0 :: introspect_request where
  "introspect_parsed0 =
     \<lparr> ir_clientId = ''c1'', ir_clientSecret = Some ''s1'', ir_tokenHint = ''access_token'',
       ir_token = ''A1'' \<rparr>"

definition authenticate_options0 :: authenticate_options where
  "authenticate_options0 =
     \<lparr> ao_scope = JUndefined, addAcceptedScopesHeader = True, addAuthorizedScopesHeader = True,
       allowBearerTokensInQueryString = False \<rparr>"

text \<open>\<open>GET /resource\<close> without credentials, and with a token both in the header and in the
  query.\<close>

definition bare_request :: request where
  "bare_request =
     \<lparr> req_method = ''GET'', headers = Map.empty, query = Map.empty, body = Map.empty \<rparr>"

definition doubled_request :: request where
  "doubled_request =
     \<lparr> req_method = ''GET'', headers = [''authorization'' \<mapsto> ''Bearer A1''],
       query = [''access_token'' \<mapsto> ''A1''], body = Map.empty \<rparr>"

text \<open>\<open>POST /introspect\<close> and \<open>POST /revoke\<close> of client \<open>c1\<close> for the token \<open>A1\<close>.\<close>

definition token_request :: "string \<Rightarrow> request" where
  "token_request hint =
     form_post [(''client_id'', ''c1''), (''client_secret'', ''s1''), (''token'', ''A1''),
                (''token_hint'', hint)]"

definition host_of_client1 :: "jsval \<Rightarrow> nat env" where
  "host_of_client1 token =
     host\<lparr> getClient := answers (\<lambda>_. client1), getAccessToken := answers (\<lambda>_. token),
           getRefreshToken := answers (\<lambda>_. token) \<rparr>"

text \<open>The same host with a Model that rejects every call of a revoking capability, and a
  token record that lacks its client.\<close>

definition host_rejecting_revocation :: "jsval \<Rightarrow> nat env" where
  "host_rejecting_revocation token =
     (host_of_client1 token)
       \<lparr> revokeAccessToken := (\<lambda>args s. (Inl (NativeError ''Error'' ''no such token''), s)),
         revokeRefreshToken := (\<lambda>args s. (Inl (NativeError ''Error'' ''no such token''), s)) \<rparr>"

definition clientless_token :: jsval where
  "clientless_token = JObj [(''refreshToken'', JStr ''A1''), (''user'', alice)]"

text \<open>The authorize endpoint: a client with the given registered redirect URIs, a Model that
  saves an authorization code by returning it, and a host handler that authenticates
  \<open>alice\<close>.\<close>

definition web_client :: "string list \<Rightarrow> jsval" where
  "web_client uris =
     JObj [(''id'', JStr ''c1''), (''grants'', JArr [JStr ''authorization_code'', JStr ''implicit'']),
           (''redirectUris'', JArr (map JStr uris))]"

definition save_code :: "jsval list \<Rightarrow> jsval" where
  "save_code args = (case args of [client, user, code] \<Rightarrow> code | _ \<Rightarrow> JUndefined)"

definition authorize_host :: "string list \<Rightarrow> nat env" where
  "authorize_host uris =
     host\<lparr> getClient := answers (\<lambda>_. web_client uris), saveAuthorizationCode := answers save_code \<rparr>"

definition authorize_options0 :: "nat authorize_options" where
  "authorize_options0 =
     \<lparr> authenticateHandler = Some (\<lambda>r rs s. (Inr alice, rs, s)),
       az_accessTokenLifetime = 1800, authorizationCodeLifetime = 300, allowEmptyState = False,
       authenticateOptions = authenticate_options0 \<rparr>"

definition authorize_request :: "(string \<times> string) list \<Rightarrow> request" where
  "authorize_request params =
     \<lparr> req_method = ''GET'', headers = Map.empty, query = map_of params, body = Map.empty \<rparr>"

section \<open>The validators\<close>

lemma nchar_iff:
  "nchar s \<longleftrightarrow> s \<noteq> [] \<and> (\<forall>c \<in> set s. word_char c \<or> c \<in> {CHR ''-'', CHR ''.'', CHR ''_'', CHR ''|''})"
proof -
  have cls: "NCHAR_class c \<longleftrightarrow> word_char c \<or> c \<in> {CHR ''-'', CHR ''.'', CHR ''_'', CHR ''|''}" for c
  proof -
    have "char_code c = 0x2D \<longleftrightarrow> c = CHR ''-''" "char_code c = 0x2E \<longleftrightarrow> c = CHR ''.''"
         "char_code c = 0x5F \<longleftrightarrow> c = CHR ''_''"
      unfolding char_code_def by (cases c; simp)+
    then show ?thesis unfolding NCHAR_class_def by auto
  qed
  show ?thesis
    unfolding nchar_def matches_plus_def by (simp add: list_all_iff cls)
qed

text \<open>
  C9.  The claim reads \<open>NCHAR\<close> as \<open>[-._\w]+\<close> and says that a string containing the bar
  \<open>|\<close> is rejected.  The regular expression of the source lists the bar inside the
  character class, so \<open>nchar\<close> accepts the one-character string \<open>|\<close>, although the bar is
  no word character (and none of \<open>-\<close>, \<open>.\<close>, \<open>_\<close>).
\<close>

theorem nchar_accepts_bar:
  "nchar ''|'' \<and> \<not> word_char (CHR ''|'')"
  by (simp add: nchar_def matches_plus_def NCHAR_class_def word_char_def char_code_def)

section \<open>Reasoning about computations\<close>

lemmas io_defs = bnd_def ret_def throw_def lift_def throw_if_def invoke_def now_def randomToken_def
  setHeader_def setBody_def setStatus_def try_catch_rethrow_def

lemmas err_defs = new_OAuthError_def InvalidArgumentError_def InvalidClientError_def
  InvalidGrantError_def InvalidRequestError_def InvalidScopeError_def InvalidTokenError_def
  InsufficientScopeError_def UnauthorizedClientError_def UnauthorizedRequestError_def
  UnsupportedResponseTypeError_def AccessDeniedError_def ServerError_def ServerError_of_def
  TypeError_def statuses_def

lemmas validator_defs = nqschar_def vschar_def uri_def uri_val_def URI_match_def matches_plus_def
  NQSCHAR_class_def VSCHAR_class_def alpha_char_def scheme_char_def char_code_def
  to_test_string_def or_else_def truthy_opt_def of_opt_def digit_char_def

lemmas fixture_defs = host_def answers_def save_with_owner_def world0_def response0_def
  options0_def alice_def owner_def client1_def client2_def code_of_def form_post_def
  redeem_request_def exchange_request_def token_of_def refresh_request0_def host_no_revoke_def
  host_with_code_def host_with_refresh_token_def host_with_access_token_def
  code_request0_def refresh_parsed0_def introspect_parsed0_def authenticate_options0_def
  bare_request_def doubled_request_def token_request_def host_of_client1_def
  host_rejecting_revocation_def clientless_token_def
  web_client_def save_code_def authorize_host_def authorize_options0_def authorize_request_def

lemmas token_defs = TokenModel_def bearer_of_def BearerToken_valueOf_def modelAttributes_def
  AbstractGrant_validateScope_def AbstractGrant_generateAccessToken_def
  AbstractGrant_generateRefreshToken_def setAccessTokenExpiresAt_def setRefreshTokenExpiresAt_def

lemmas code_grant_defs = AuthorizationCodeGrant_execute_def AccessTokenRequest_code_def
  validateAuthorizationCode_def validateRedirectUri_def deleteAuthorizationCode_def
  AuthorizationCodeGrant_createToken_def

lemmas refresh_grant_defs = RefreshTokenGrant_execute_def AccessTokenRequest_refresh_def
  validateRefreshToken_def deleteRefreshToken_def RefreshTokenGrant_createToken_def

lemmas observer_defs = new_events_def calls_of_def falsy_revoke_def

lemma bnd_assoc: "bnd (bnd m f) g = bnd m (\<lambda>a. bnd (f a) g)"
  by (auto simp: bnd_def fun_eq_iff split: prod.splits sum.splits)

lemma bnd_ret: "bnd (ret a) f = f a"
  by (simp add: bnd_def ret_def)

subsection \<open>Which capabilities a computation calls\<close>

named_theorems oc

lemma oc_ret [oc]: "only_calls S (ret a)"
  and oc_throw [oc]: "only_calls S (throw e)"
  and oc_lift [oc]: "only_calls S (lift r)"
  and oc_throw_if [oc]: "only_calls S (throw_if c e)"
  and oc_now [oc]: "only_calls S (now env)"
  and oc_randomToken [oc]: "only_calls S (randomToken env)"
  and oc_setHeader [oc]: "only_calls S (setHeader field v)"
  and oc_setBody [oc]: "only_calls S (setBody b)"
  and oc_setStatus [oc]: "only_calls S (setStatus n)"
  by (auto simp: only_calls_def io_defs split: prod.splits)

lemma oc_invoke [oc]: "name \<in> S \<Longrightarrow> only_calls S (invoke name f args)"
  by (auto simp: only_calls_def io_defs split: prod.splits)

lemma only_callsD:
  assumes "only_calls S m" and "m w = (r, w')"
  obtains evs where "trace w' = trace w @ evs" and "ev_name ` set evs \<subseteq> S"
  using assms unfolding only_calls_def by (metis snd_conv)

lemma oc_bnd [oc]:
  assumes "only_calls S m" and "\<And>a. only_calls S (f a)"
  shows "only_calls S (bnd m f)"
  unfolding only_calls_def
proof
  fix w
  obtain r w1 where m: "m w = (r, w1)" by (cases "m w")
  from only_callsD[OF assms(1) m] obtain evs
    where e1: "trace w1 = trace w @ evs" "ev_name ` set evs \<subseteq> S" by blast
  show "\<exists>evs. trace (snd (bnd m f w)) = trace w @ evs \<and> ev_name ` set evs \<subseteq> S"
  proof (cases r)
    case (Inl e)
    then show ?thesis using m e1 by (auto simp: bnd_def)
  next
    case (Inr a)
    obtain r2 w2 where f: "f a w1 = (r2, w2)" by (cases "f a w1")
    from only_callsD[OF assms(2) f] obtain evs2
      where e2: "trace w2 = trace w1 @ evs2" "ev_name ` set evs2 \<subseteq> S" by blast
    have "trace (snd (bnd m f w)) = trace w @ (evs @ evs2)"
      using m Inr f e1 e2 by (simp add: bnd_def)
    moreover have "ev_name ` set (evs @ evs2) \<subseteq> S" using e1 e2 by auto
    ultimately show ?thesis by blast
  qed
qed

lemma oc_if [oc]:
  "(c \<Longrightarrow> only_calls S a) \<Longrightarrow> (\<not> c \<Longrightarrow> only_calls S b) \<Longrightarrow> only_calls S (if c then a else b)"
  by simp

lemma oc_let [oc]: "only_calls S (f x) \<Longrightarrow> only_calls S (Let x f)"
  by simp

lemma oc_opt [oc]:
  "only_calls S a \<Longrightarrow> (\<And>f. only_calls S (b f)) \<Longrightarrow>
   only_calls S (case x of None \<Rightarrow> a | Some f \<Rightarrow> b f)"
  by (cases x) simp_all

subsection \<open>Logs\<close>

lemma calls_of_Nil: "calls_of name [] = []"
  and calls_of_Cons:
    "calls_of name (Call n args r # es) = (if n = name then [args] else []) @ calls_of name es"
  by (simp_all add: calls_of_def)

lemma calls_of_append: "calls_of name (xs @ ys) = calls_of name xs @ calls_of name ys"
  by (simp add: calls_of_def)

lemma calls_of_none: "name \<notin> ev_name ` set evs \<Longrightarrow> calls_of name evs = []"
proof (induction evs)
  case Nil
  show ?case by (simp add: calls_of_Nil)
next
  case (Cons e es)
  obtain n args r where e: "e = Call n args r" by (cases e)
  from Cons.prems e have "n \<noteq> name" "name \<notin> ev_name ` set es" by auto
  with Cons.IH e show ?case by (simp add: calls_of_Cons)
qed

lemma falsy_revoke_Cons:
  "falsy_revoke rn (Call n args r # es) \<longleftrightarrow> (n = rn \<and> resolved_falsy r) \<or> falsy_revoke rn es"
  by (simp add: falsy_revoke_def)

lemma falsy_revoke_single: "falsy_revoke rn [Call rn args r] \<longleftrightarrow> resolved_falsy r"
  by (simp add: falsy_revoke_def)

lemma falsy_revoke_append:
  "falsy_revoke rn (xs @ ys) \<longleftrightarrow> falsy_revoke rn xs \<or> falsy_revoke rn ys"
  by (auto simp: falsy_revoke_def list_ex_iff)

lemma falsy_revoke_none: "rn \<notin> ev_name ` set evs \<Longrightarrow> \<not> falsy_revoke rn evs"
proof (induction evs)
  case Nil
  show ?case by (simp add: falsy_revoke_def)
next
  case (Cons e es)
  obtain n args r where e: "e = Call n args r" by (cases e)
  from Cons.prems e have "n \<noteq> rn" "rn \<notin> ev_name ` set es" by auto
  with Cons.IH e show ?case by (simp add: falsy_revoke_Cons)
qed

lemma falsy_not_succeeded: "resolved_falsy r \<Longrightarrow> \<not> succeeded r"
  by (cases r) auto

lemma save_after_nosave: "''saveToken'' \<notin> ev_name ` set evs \<Longrightarrow> save_after rn evs"
proof (induction evs)
  case Nil
  show ?case by simp
next
  case (Cons e es)
  obtain n args r where e: "e = Call n args r" by (cases e)
  from Cons.prems e have "n \<noteq> ''saveToken''" "''saveToken'' \<notin> ev_name ` set es" by auto
  with Cons.IH e show ?case by simp
qed

lemma save_after_revoked:
  "''saveToken'' \<notin> ev_name ` set pre \<Longrightarrow> succeeded r \<Longrightarrow> rn \<noteq> ''saveToken'' \<Longrightarrow>
   save_after rn (pre @ Call rn args r # post)"
proof (induction pre)
  case Nil
  then show ?case by simp
next
  case (Cons e es)
  obtain n args' r' where e: "e = Call n args' r'" by (cases e)
  from Cons.prems e have "n \<noteq> ''saveToken''" "''saveToken'' \<notin> ev_name ` set es" by auto
  with Cons e show ?case by simp
qed

subsection \<open>Records\<close>

lemma get_truthy: "truthy v \<Longrightarrow> \<exists>x. get v k = Inr x"
  by (cases v) auto

lemma has_truthyD: "has_truthy v k \<Longrightarrow> \<exists>x. get v k = Inr x \<and> truthy x"
  by (auto simp: has_truthy_def split: sum.splits)

lemma bound_toD:
  "bound_to record client \<Longrightarrow>
   \<exists>c a b. get record ''client'' = Inr c \<and> get c ''id'' = Inr a \<and> get client ''id'' = Inr b \<and> strict_eq a b"
  by (auto simp: bound_to_def split: sum.splits)

lemma fst_bnd_Inl: "fst (m w) = Inl e \<Longrightarrow> fst (bnd m f w) = Inl e"
  by (cases "m w") (simp add: bnd_def)

lemmas handler_defs = AuthenticateHandler_execute_def AuthenticateRequest_def validateAccessToken_def
  verifyAccessTokenScope_def AuthenticateResponse_setSuccessResponse_def
  AuthenticateResponse_setErrorResponse_def error_body_def bearer_challenge_def basic_challenge_def
  IntrospectRequest_def authenticateClient_def verifyToken_def composeIntrospectResult_def
  IntrospectResponse_setSuccessResponse_def IntrospectResponse_setErrorResponse_def
  IntrospectHandler_execute_def RevokeRequest_def RevokeResponse_setSuccessResponse_def
  RevokeResponse_setErrorResponse_def invalidateToken_def RevokeHandler_execute_def
  form_urlencoded_def request_get_def response_get_def response_set_def toLowerCase_def lower_char_def

lemmas url_defs = plain_url_parse_def url_format_def qs_parse_def qs_add_def qs_stringify_def
  escape_def unreserved_def hex_digit_def hex_value_def before_def from_first_def empty_url_def
  own_entries_def array_index_def is_digit_def index_value_def

lemmas authorize_defs = AuthorizeHandler_execute_def AuthorizationRequest_def
  authenticateResourceOwner_def validateClient_def AuthorizeHandler_validateScope_def
  lifetime_or_def setAuthorizationCodeExpiresAt_def createAuthorizationCode_def
  CodeResponse_buildRedirectUri_def CodeResponse_execute_def ImplicitGrant_createAccessToken_def
  ImplicitGrant_execute_def TokenResponse_buildRedirectUri_def TokenResponse_execute_def
  AuthorizationResponse_setSuccessResponse_def AuthorizationResponse_setErrorResponse_def

section \<open>Revocation comes before the new token is saved\<close>

lemma oc_validate: "only_calls {''getAuthorizationCode''} (validateAuthorizationCode env a c)"
  unfolding validateAuthorizationCode_def by (intro oc allI) simp

lemma oc_vr: "only_calls S (validateRedirectUri c a)"
  unfolding validateRedirectUri_def by (intro oc allI)

lemma oc_TokenModel: "only_calls S (TokenModel env d b)"
  unfolding TokenModel_def by (intro oc allI) (auto split: jsval.splits intro!: oc)

lemma delete_trace:
  "deleteAuthorizationCode env c w = (r, w') \<Longrightarrow>
   trace w' = trace w @ [Call ''revokeAuthorizationCode'' [c] (fst (revokeAuthorizationCode env [c] (store w)))]
   \<and> (case r of Inr u \<Rightarrow> succeeded (fst (revokeAuthorizationCode env [c] (store w)))
       | Inl e \<Rightarrow> fst (revokeAuthorizationCode env [c] (store w)) = Inl e
          \<or> (\<not> succeeded (fst (revokeAuthorizationCode env [c] (store w)))
              \<and> e = InvalidGrantError ''Invalid grant: authorization code is invalid''))"
  unfolding deleteAuthorizationCode_def
  by (auto simp: io_defs split: prod.splits sum.splits if_splits)


text \<open>The shape both flows share: a prefix that neither revokes nor saves, the revocation,
  which throws unless the Model answers with a truthy value, and the rest, which does not
  revoke.\<close>

lemma revoke_then_rest:
  fixes pre :: "('s, 'a) io" and del :: "'a \<Rightarrow> ('s, unit) io" and rest :: "'a \<Rightarrow> ('s, 'b) io"
  assumes pre: "only_calls P pre" and P: "''saveToken'' \<notin> P" "rn \<notin> P"
    and rn: "rn \<noteq> ''saveToken''"
    and del: "\<And>a w r w'. del a w = (r, w') \<Longrightarrow>
        trace w' = trace w @ [Call rn (args a) (reply a w)]
        \<and> (case r of Inr u \<Rightarrow> succeeded (reply a w)
            | Inl e \<Rightarrow> reply a w = Inl e \<or> (\<not> succeeded (reply a w) \<and> e = E))"
    and rest: "\<And>a. only_calls R (rest a)" and R: "rn \<notin> R"
  defines "m \<equiv> bnd pre (\<lambda>a. bnd (del a) (\<lambda>_. rest a))"
  shows "save_after rn (new_events w (snd (m w)))
       \<and> (falsy_revoke rn (new_events w (snd (m w))) \<longrightarrow>
            fst (m w) = Inl E \<and> calls_of ''saveToken'' (new_events w (snd (m w))) = [])"
proof -
  obtain r1 w1 where m1: "pre w = (r1, w1)" by (cases "pre w")
  from only_callsD[OF pre m1] obtain evs1
    where e1: "trace w1 = trace w @ evs1" "ev_name ` set evs1 \<subseteq> P" by blast
  with P have ns1: "''saveToken'' \<notin> ev_name ` set evs1" and nr1: "rn \<notin> ev_name ` set evs1" by auto
  show ?thesis
  proof (cases r1)
    case (Inl e)
    with m1 have "m w = (Inl e, w1)" by (simp add: m_def bnd_def)
    then show ?thesis using e1 ns1 nr1
      by (simp add: new_events_def save_after_nosave falsy_revoke_none)
  next
    case r1: (Inr a)
    let ?ev = "Call rn (args a) (reply a w1)"
    obtain r2 w2 where m2: "del a w1 = (r2, w2)" by (cases "del a w1")
    from del[OF m2] e1 have e2: "trace w2 = trace w @ evs1 @ [?ev]" by simp
    show ?thesis
    proof (cases r2)
      case (Inl e)
      with m1 r1 m2 have res: "m w = (Inl e, w2)" by (simp add: m_def bnd_def)
      have ne: "new_events w w2 = evs1 @ [?ev]" using e2 by (simp add: new_events_def)
      have ns: "''saveToken'' \<notin> ev_name ` set (evs1 @ [?ev])" using ns1 rn by auto
      have "resolved_falsy (reply a w1) \<Longrightarrow> e = E"
        using del[OF m2] Inl by (cases "reply a w1") auto
      then show ?thesis using res ne ns nr1
        by (simp add: save_after_nosave calls_of_none falsy_revoke_append falsy_revoke_none
              falsy_revoke_single del: set_append)
    next
      case r2: (Inr u)
      with del[OF m2] have ok: "succeeded (reply a w1)" by simp
      obtain r3 w3 where m3: "rest a w2 = (r3, w3)" by (cases "rest a w2")
      from only_callsD[OF rest m3] obtain evs3
        where e3: "trace w3 = trace w2 @ evs3" "ev_name ` set evs3 \<subseteq> R" by blast
      with R have nr3: "rn \<notin> ev_name ` set evs3" by auto
      from m1 r1 m2 r2 m3 have res: "m w = (r3, w3)" by (simp add: m_def bnd_def)
      have ne: "new_events w w3 = evs1 @ ?ev # evs3" using e2 e3 by (simp add: new_events_def)
      have "save_after rn (evs1 @ ?ev # evs3)"
        using ns1 ok rn by (intro save_after_revoked) auto
      moreover have "\<not> falsy_revoke rn (evs1 @ [?ev] @ evs3)"
        using falsy_revoke_none[OF nr1] falsy_revoke_none[OF nr3] ok falsy_not_succeeded[of "reply a w1"]
        by (auto simp: falsy_revoke_append falsy_revoke_Cons)
      ultimately show ?thesis using res ne by simp
    qed
  qed
qed


lemma oc_code_createToken:
  "only_calls {''validateScope'', ''generateAccessToken'', ''generateRefreshToken'', ''saveToken''}
     (AuthorizationCodeGrant_createToken env opts a b)"
  unfolding AuthorizationCodeGrant_createToken_def AbstractGrant_validateScope_def
  AbstractGrant_generateAccessToken_def AbstractGrant_generateRefreshToken_def
  setAccessTokenExpiresAt_def setRefreshTokenExpiresAt_def
  by (intro oc allI) simp_all

lemma code_grant_order:
  "save_after ''revokeAuthorizationCode''
     (new_events w (snd (AuthorizationCodeGrant_execute env opts request client w)))
   \<and> (falsy_revoke ''revokeAuthorizationCode''
         (new_events w (snd (AuthorizationCodeGrant_execute env opts request client w))) \<longrightarrow>
       fst (AuthorizationCodeGrant_execute env opts request client w)
         = Inl (InvalidGrantError ''Invalid grant: authorization code is invalid'')
       \<and> calls_of ''saveToken''
           (new_events w (snd (AuthorizationCodeGrant_execute env opts request client w))) = [])"
proof -
  define pre where "pre =
     bnd (lift (AccessTokenRequest_code request client)) (\<lambda>a.
     bnd (validateAuthorizationCode env a client) (\<lambda>code.
     bnd (validateRedirectUri code a) (\<lambda>_. ret code)))"
  define rest where "rest = (\<lambda>code. bnd (AuthorizationCodeGrant_createToken env opts code client) (\<lambda>data.
     bnd (TokenModel env data (allowExtendedTokenAttributes opts)) (\<lambda>model.
     lift (bearer_of model))))"
  have ex: "AuthorizationCodeGrant_execute env opts request client =
     bnd pre (\<lambda>code. bnd (deleteAuthorizationCode env code) (\<lambda>_. rest code))"
    unfolding AuthorizationCodeGrant_execute_def rest_def pre_def
    by (simp add: bnd_assoc bnd_ret)
  have oc_pre: "only_calls {''getAuthorizationCode''} pre"
    unfolding pre_def by (intro oc allI oc_validate oc_vr)
  have oc_rest: "only_calls {''validateScope'', ''generateAccessToken'', ''generateRefreshToken'', ''saveToken''} (rest c)" for c
    unfolding rest_def by (intro oc allI oc_code_createToken oc_TokenModel)
  show ?thesis
    unfolding ex
    by (rule revoke_then_rest[OF oc_pre _ _ _ delete_trace oc_rest]) simp_all
qed


lemma oc_refresh_validate: "only_calls {''getRefreshToken''} (validateRefreshToken env a c)"
  unfolding validateRefreshToken_def by (intro oc allI) simp

lemma oc_refresh_createToken:
  "only_calls {''generateAccessToken'', ''generateRefreshToken'', ''saveToken''}
     (RefreshTokenGrant_createToken env opts c u s)"
  unfolding RefreshTokenGrant_createToken_def
  AbstractGrant_generateAccessToken_def AbstractGrant_generateRefreshToken_def
  setAccessTokenExpiresAt_def setRefreshTokenExpiresAt_def
  by (intro oc allI) simp_all

lemma deleteRefreshToken_trace:
  assumes "truthy (alwaysIssueNewRefreshToken opts)"
    and "deleteRefreshToken env opts t w = (r, w')"
  shows "trace w' = trace w @ [Call ''revokeRefreshToken'' [t] (fst (revokeRefreshToken env [t] (store w)))]
   \<and> (case r of Inr u \<Rightarrow> succeeded (fst (revokeRefreshToken env [t] (store w)))
       | Inl e \<Rightarrow> fst (revokeRefreshToken env [t] (store w)) = Inl e
          \<or> (\<not> succeeded (fst (revokeRefreshToken env [t] (store w)))
              \<and> e = InvalidGrantError ''Invalid grant: refresh token is invalid''))"
  using assms unfolding deleteRefreshToken_def
  by (auto simp: io_defs split: prod.splits sum.splits if_splits)

lemma refresh_grant_order:
  assumes always: "truthy (alwaysIssueNewRefreshToken opts)"
  shows "save_after ''revokeRefreshToken''
     (new_events w (snd (RefreshTokenGrant_execute env opts request client w)))
   \<and> (falsy_revoke ''revokeRefreshToken''
         (new_events w (snd (RefreshTokenGrant_execute env opts request client w))) \<longrightarrow>
       fst (RefreshTokenGrant_execute env opts request client w)
         = Inl (InvalidGrantError ''Invalid grant: refresh token is invalid'')
       \<and> calls_of ''saveToken''
           (new_events w (snd (RefreshTokenGrant_execute env opts request client w))) = [])"
proof -
  define pre where "pre =
     bnd (lift (AccessTokenRequest_refresh request client)) (\<lambda>a.
     validateRefreshToken env a client)"
  define rest where "rest = (\<lambda>token.
     bnd (lift (get token ''user'')) (\<lambda>token_user.
     bnd (lift (get token ''scope'')) (\<lambda>token_scope.
     bnd (RefreshTokenGrant_createToken env opts client token_user token_scope) (\<lambda>data.
     bnd (TokenModel env data False) (\<lambda>model.
     lift (bearer_of model))))))"
  have ex: "RefreshTokenGrant_execute env opts request client =
     bnd pre (\<lambda>token. bnd (deleteRefreshToken env opts token) (\<lambda>_. rest token))"
    unfolding RefreshTokenGrant_execute_def rest_def pre_def
    by (simp add: bnd_assoc)
  have oc_pre: "only_calls {''getRefreshToken''} pre"
    unfolding pre_def by (intro oc allI oc_refresh_validate)
  have oc_rest: "only_calls {''generateAccessToken'', ''generateRefreshToken'', ''saveToken''} (rest c)" for c
    unfolding rest_def by (intro oc allI oc_refresh_createToken oc_TokenModel)
  show ?thesis
    unfolding ex
    by (rule revoke_then_rest[OF oc_pre _ _ _ deleteRefreshToken_trace[OF always] oc_rest]) simp_all
qed


text \<open>
  C6.  In the authorization-code flow, and in the refresh-token flow when
  \<open>alwaysIssueNewRefreshToken\<close> is truthy, the log of the calls to the Model that one execution
  of the grant adds has no \<open>saveToken\<close> before a revocation of the consumed credential that
  resolved to a truthy value; and when the revocation resolves to a falsy value the grant
  throws \<open>invalid_grant\<close> and \<open>saveToken\<close> is not called at all.  This holds for every Model,
  every request, every client and every world the execution starts in.
\<close>

theorem revocation_precedes_saveToken:
  "save_after ''revokeAuthorizationCode''
     (new_events w (snd (AuthorizationCodeGrant_execute env opts request client w)))
   \<and> (falsy_revoke ''revokeAuthorizationCode''
         (new_events w (snd (AuthorizationCodeGrant_execute env opts request client w))) \<longrightarrow>
       fst (AuthorizationCodeGrant_execute env opts request client w)
         = Inl (InvalidGrantError ''Invalid grant: authorization code is invalid'')
       \<and> calls_of ''saveToken''
           (new_events w (snd (AuthorizationCodeGrant_execute env opts request client w))) = [])
   \<and> (truthy (alwaysIssueNewRefreshToken opts) \<longrightarrow>
       save_after ''revokeRefreshToken''
         (new_events w (snd (RefreshTokenGrant_execute env opts request client w)))
       \<and> (falsy_revoke ''revokeRefreshToken''
             (new_events w (snd (RefreshTokenGrant_execute env opts request client w))) \<longrightarrow>
           fst (RefreshTokenGrant_execute env opts request client w)
             = Inl (InvalidGrantError ''Invalid grant: refresh token is invalid'')
           \<and> calls_of ''saveToken''
               (new_events w (snd (RefreshTokenGrant_execute env opts request client w))) = []))"
  using code_grant_order[of w env opts request client]
    refresh_grant_order[of opts w env request client]
  by blast

lemma code_no_revoke_run:
  "AuthorizationCodeGrant_execute host_no_revoke options0 exchange_request client1 world0 =
     (Inl (InvalidGrantError ''Invalid grant: authorization code is invalid''),
      world0\<lparr>trace :=
        [Call ''getAuthorizationCode'' [JStr ''abc''] (Inr (code_of client1 2000)),
         Call ''revokeAuthorizationCode'' [code_of client1 2000] (Inr (JBool False))]\<rparr>)"
  by (simp add: code_grant_defs io_defs err_defs fixture_defs validator_defs)

lemma refresh_no_revoke_run:
  "RefreshTokenGrant_execute host_no_revoke options0 exchange_request client1 world0 =
     (Inl (InvalidGrantError ''Invalid grant: refresh token is invalid''),
      world0\<lparr>trace :=
        [Call ''getRefreshToken'' [JStr ''R1'']
           (Inr (token_of client1 [(''refreshTokenExpiresAt'', JDate 2000)])),
         Call ''revokeRefreshToken'' [token_of client1 [(''refreshTokenExpiresAt'', JDate 2000)]]
           (Inr (JBool False))]\<rparr>)"
  by (simp add: refresh_grant_defs io_defs err_defs fixture_defs validator_defs)

theorem revocation_precedes_saveToken_witness:
  "falsy_revoke ''revokeAuthorizationCode''
     (new_events world0 (snd (AuthorizationCodeGrant_execute host_no_revoke options0 exchange_request client1 world0)))
   \<and> truthy (alwaysIssueNewRefreshToken options0)
   \<and> falsy_revoke ''revokeRefreshToken''
       (new_events world0 (snd (RefreshTokenGrant_execute host_no_revoke options0 exchange_request client1 world0)))
   \<and> fst (AuthorizationCodeGrant_execute host_no_revoke options0 exchange_request client1 world0)
       = Inl (InvalidGrantError ''Invalid grant: authorization code is invalid'')
   \<and> calls_of ''saveToken''
       (new_events world0 (snd (AuthorizationCodeGrant_execute host_no_revoke options0 exchange_request client1 world0))) = []
   \<and> fst (RefreshTokenGrant_execute host_no_revoke options0 exchange_request client1 world0)
       = Inl (InvalidGrantError ''Invalid grant: refresh token is invalid'')
   \<and> calls_of ''saveToken''
       (new_events world0 (snd (RefreshTokenGrant_execute host_no_revoke options0 exchange_request client1 world0))) = []"
proof -
  have h1: "falsy_revoke ''revokeAuthorizationCode''
     (new_events world0 (snd (AuthorizationCodeGrant_execute host_no_revoke options0 exchange_request client1 world0)))"
    unfolding code_no_revoke_run by (simp add: new_events_def falsy_revoke_def world0_def)
  have h2: "truthy (alwaysIssueNewRefreshToken options0)"
    by (simp add: options0_def)
  have h3: "falsy_revoke ''revokeRefreshToken''
       (new_events world0 (snd (RefreshTokenGrant_execute host_no_revoke options0 exchange_request client1 world0)))"
    unfolding refresh_no_revoke_run by (simp add: new_events_def falsy_revoke_def world0_def)
  from revocation_precedes_saveToken[of world0 host_no_revoke options0 exchange_request client1] h1 h2 h3
  show ?thesis by blast
qed

section \<open>Redeeming an authorization code\<close>

text \<open>
  C1.  The claim: a successful redemption saves the token by \<open>saveToken(client, user,
  token)\<close> with the authenticated client, the user of the code and the scope of the code.
  \<open>execute\<close> calls \<open>createToken(code, client)\<close> while the method is declared
  \<open>createToken(client, code)\<close>, so the user and the scope are read from the client record
  and the code record is passed on as the client.  Client \<open>c2\<close>, whose record names the user
  \<open>owner\<close>, redeems the code \<open>abc\<close> that was issued to it for the user \<open>alice\<close> with the scope
  \<open>read\<close>: the redemption succeeds, and \<open>saveToken\<close> has been called with the code record in
  the place of the client, with \<open>owner\<close> as the user and with an undefined scope.
\<close>

theorem redeem_saves_for_the_code_record:
  "fst (AuthorizationCodeGrant_execute (host_with_code (code_of client2 2000)) options0
          redeem_request client2 world0)
     = Inr (JObj [(''access_token'', JStr ''t0''), (''token_type'', JStr ''Bearer''),
                  (''expires_in'', JNum 1800), (''refresh_token'', JStr ''t1'')])
   \<and> calls_of ''saveToken''
        (trace (snd (AuthorizationCodeGrant_execute (host_with_code (code_of client2 2000)) options0
                       redeem_request client2 world0)))
     = [[code_of client2 2000, owner,
         JObj [(''accessToken'', JStr ''t0''), (''accessTokenExpiresAt'', JDate 1801000),
               (''refreshToken'', JStr ''t1''), (''refreshTokenExpiresAt'', JDate 86401000),
               (''scope'', JUndefined)]]]"
  by (simp add: code_grant_defs token_defs io_defs err_defs fixture_defs validator_defs calls_of_def)

text \<open>With a client record that has no property \<open>user\<close> (client \<open>c1\<close>) the token is saved
  for an undefined user, and the redemption fails on the saved record after the code has
  been revoked.\<close>

lemma redeem_fails_without_client_user:
  "fst (AuthorizationCodeGrant_execute (host_with_code (code_of client1 2000)) options0
          redeem_request client1 world0)
     = Inl (InvalidArgumentError ''Missing parameter: `user`'')
   \<and> map ev_name
        (trace (snd (AuthorizationCodeGrant_execute (host_with_code (code_of client1 2000)) options0
                       redeem_request client1 world0)))
     = [''getAuthorizationCode'', ''revokeAuthorizationCode'', ''saveToken'']"
  by (simp add: code_grant_defs token_defs io_defs err_defs fixture_defs validator_defs)

section \<open>The expiry of a refresh token\<close>

lemma AccessTokenRequest_refresh_client:
  "AccessTokenRequest_refresh request client = Inr a \<Longrightarrow> truthy client"
  by (auto simp: AccessTokenRequest_refresh_def split: if_splits option.splits)

lemma validateRefreshToken_expired:
  assumes load: "getRefreshToken env [JStr (rr_refreshToken a)] (store w) = (Inr token, s1)"
    and clock: "clock env s1 = (t, s2)"
    and tok: "truthy token" "has_truthy token ''client''" "has_truthy token ''user''"
    and cl: "truthy client"
    and exp: "get token ''refreshTokenExpiresAt'' = Inr (JDate d)" "d < t"
  shows "fails_with ''invalid_grant'' (fst (validateRefreshToken env a client w))"
proof -
  from has_truthyD[OF tok(2)] obtain tc where tc: "get token ''client'' = Inr tc" "truthy tc" by blast
  from has_truthyD[OF tok(3)] obtain tu where tu: "get token ''user'' = Inr tu" "truthy tu" by blast
  from get_truthy[OF tc(2)] obtain i1 where i1: "get tc ''id'' = Inr i1" by blast
  from get_truthy[OF cl] obtain i2 where i2: "get client ''id'' = Inr i2" by blast
  show ?thesis
    unfolding validateRefreshToken_def
    using load clock tok tc tu i1 i2 exp
    by (simp add: io_defs fails_with_def InvalidGrantError_def new_OAuthError_def)
qed

lemma validateRefreshToken_no_expiry:
  assumes load: "getRefreshToken env [JStr (rr_refreshToken a)] (store w) = (Inr token, s1)"
    and clock: "clock env s1 = (t, s2)"
    and tok: "truthy token" "has_truthy token ''client''" "has_truthy token ''user''"
      "bound_to token client"
    and exp: "get token ''refreshTokenExpiresAt'' = Inr x" "\<not> truthy x \<or> x = JDate t"
  shows "validateRefreshToken env a client w = (Inr token, validated w a token s2)"
proof -
  from has_truthyD[OF tok(2)] obtain tc where tc: "get token ''client'' = Inr tc" "truthy tc" by blast
  from has_truthyD[OF tok(3)] obtain tu where tu: "get token ''user'' = Inr tu" "truthy tu" by blast
  from bound_toD[OF tok(4)] tc obtain i1 i2
    where i: "get tc ''id'' = Inr i1" "get client ''id'' = Inr i2" "strict_eq i1 i2" by auto
  show ?thesis
    unfolding validateRefreshToken_def validated_def
    using load clock tok tc tu i exp
    by (auto simp: io_defs)
qed

lemma validateRefreshToken_passes:
  assumes "getRefreshToken env [JStr (rr_refreshToken a)] (store w) = (Inr token, s1)"
    and "clock env s1 = (t, s2)"
    and "truthy token" "has_truthy token ''client''" "has_truthy token ''user''"
      "bound_to token client"
    and "get token ''refreshTokenExpiresAt'' = Inr x" "\<not> truthy x \<or> x = JDate t"
  shows "fst (validateRefreshToken env a client w) = Inr token"
  using validateRefreshToken_no_expiry[OF assms] by simp

lemma RefreshTokenGrant_execute_steps:
  "RefreshTokenGrant_execute env opts request client =
     bnd (lift (AccessTokenRequest_refresh request client)) (\<lambda>a.
     bnd (validateRefreshToken env a client) (\<lambda>token. refresh_after_validation env opts client token))"
  by (simp add: RefreshTokenGrant_execute_def refresh_after_validation_def)

lemma refresh_execute_continues:
  assumes "AccessTokenRequest_refresh request client = Inr a"
    and "validateRefreshToken env a client w = (Inr token, w')"
  shows "RefreshTokenGrant_execute env opts request client w
           = refresh_after_validation env opts client token w'"
  unfolding RefreshTokenGrant_execute_steps using assms
  by (simp add: bnd_def lift_def)

lemma refresh_execute_fails:
  assumes "AccessTokenRequest_refresh request client = Inr a"
    and "fails_with name (fst (validateRefreshToken env a client w))"
  shows "fails_with name (fst (RefreshTokenGrant_execute env opts request client w))"
proof -
  from assms(2) obtain e where e: "fst (validateRefreshToken env a client w) = Inl e" "err_name e = name"
    by (auto simp: fails_with_def split: sum.splits)
  have "fst (RefreshTokenGrant_execute env opts request client w) = Inl e"
    unfolding RefreshTokenGrant_execute_def
    using assms(1) fst_bnd_Inl[of "validateRefreshToken env a client" w e] e(1)
    by (simp add: bnd_def lift_def)
  with e show ?thesis by (simp add: fails_with_def)
qed

text \<open>
  C2, as amended.  Let the request parse and the Model resolve \<open>getRefreshToken\<close> to a record
  with a client and a user object.  If the \<open>refreshTokenExpiresAt\<close> of the record is a date
  earlier than the clock, the grant fails with \<open>invalid_grant\<close>.  If \<open>refreshTokenExpiresAt\<close> is
  absent (or any falsy value) and the record is bound to the authenticated client, no expiry
  check is made: the validation returns the record, and the grant does what its remaining
  steps (the revocation of the old token, the creation and saving of the new one) do after
  a passed validation.  It issues a token whenever these steps succeed, and where it fails
  it fails in one of them.
\<close>

theorem refresh_token_expiry:
  assumes parse: "AccessTokenRequest_refresh request client = Inr a"
    and load: "getRefreshToken env [JStr (rr_refreshToken a)] (store w) = (Inr token, s1)"
    and clock: "clock env s1 = (t, s2)"
    and tok: "truthy token" "has_truthy token ''client''" "has_truthy token ''user''"
  shows "(\<forall>d. get token ''refreshTokenExpiresAt'' = Inr (JDate d) \<and> d < t \<longrightarrow>
            fails_with ''invalid_grant'' (fst (RefreshTokenGrant_execute env opts request client w)))
       \<and> (\<forall>x. get token ''refreshTokenExpiresAt'' = Inr x \<and> \<not> truthy x \<and> bound_to token client \<longrightarrow>
            validateRefreshToken env a client w = (Inr token, validated w a token s2)
            \<and> RefreshTokenGrant_execute env opts request client w
                = refresh_after_validation env opts client token (validated w a token s2)
            \<and> (\<forall>b w'. refresh_after_validation env opts client token (validated w a token s2) = (Inr b, w')
                 \<longrightarrow> RefreshTokenGrant_execute env opts request client w = (Inr b, w')))"
proof (intro conjI allI impI)
  fix d assume "get token ''refreshTokenExpiresAt'' = Inr (JDate d) \<and> d < t"
  then have "fails_with ''invalid_grant'' (fst (validateRefreshToken env a client w))"
    using validateRefreshToken_expired[OF load clock tok AccessTokenRequest_refresh_client[OF parse]]
    by blast
  then show "fails_with ''invalid_grant'' (fst (RefreshTokenGrant_execute env opts request client w))"
    by (rule refresh_execute_fails[OF parse])
next
  fix x assume x: "get token ''refreshTokenExpiresAt'' = Inr x \<and> \<not> truthy x \<and> bound_to token client"
  then show v: "validateRefreshToken env a client w = (Inr token, validated w a token s2)"
    using validateRefreshToken_no_expiry[OF load clock tok] by blast
  from refresh_execute_continues[OF parse v]
  show e: "RefreshTokenGrant_execute env opts request client w
         = refresh_after_validation env opts client token (validated w a token s2)" .
  fix b w' assume "refresh_after_validation env opts client token (validated w a token s2) = (Inr b, w')"
  with e show "RefreshTokenGrant_execute env opts request client w = (Inr b, w')" by simp
qed

lemma refresh_parse0: "AccessTokenRequest_refresh refresh_request0 client1 = Inr refresh_parsed0"
  by (simp add: AccessTokenRequest_refresh_def fixture_defs validator_defs)

lemma token_of_shape:
  "truthy (token_of client1 xs)" "has_truthy (token_of client1 xs) ''client''"
  "has_truthy (token_of client1 xs) ''user''" "bound_to (token_of client1 xs) client1"
  by (simp_all add: fixture_defs has_truthy_def bound_to_def)

text \<open>The witness: at the clock 1000 a record that expired at 500 is refused, and a record
  without expiry is exchanged for a new bearer token.\<close>

theorem refresh_token_expiry_witness:
  "fails_with ''invalid_grant''
     (fst (RefreshTokenGrant_execute
             (host_with_refresh_token (token_of client1 [(''refreshTokenExpiresAt'', JDate 500)]))
             options0 refresh_request0 client1 world0))
   \<and> fst (validateRefreshToken (host_with_refresh_token (token_of client1 []))
            refresh_parsed0 client1 world0) = Inr (token_of client1 [])
   \<and> fst (RefreshTokenGrant_execute (host_with_refresh_token (token_of client1 [])) options0
            refresh_request0 client1 world0)
     = Inr (JObj [(''access_token'', JStr ''t0''), (''token_type'', JStr ''Bearer''),
                  (''expires_in'', JNum 1800), (''refresh_token'', JStr ''t1''),
                  (''scope'', JStr ''read'')])"
proof -
  let ?old = "token_of client1 [(''refreshTokenExpiresAt'', JDate 500)]"
  let ?none = "token_of client1 []"
  let ?b = "JObj [(''access_token'', JStr ''t0''), (''token_type'', JStr ''Bearer''),
                  (''expires_in'', JNum 1800), (''refresh_token'', JStr ''t1''),
                  (''scope'', JStr ''read'')]"
  have load: "getRefreshToken (host_with_refresh_token tok) [JStr (rr_refreshToken refresh_parsed0)]
                (store world0) = (Inr tok, 0)" for tok
    by (simp add: host_with_refresh_token_def host_def answers_def world0_def)
  have clock: "clock (host_with_refresh_token tok) 0 = (1000, 0)" for tok
    by (simp add: host_with_refresh_token_def host_def)
  have old: "get ?old ''refreshTokenExpiresAt'' = Inr (JDate 500) \<and> (500::int) < 1000"
    by (simp add: fixture_defs)
  have none: "get ?none ''refreshTokenExpiresAt'' = Inr JUndefined \<and> \<not> truthy JUndefined
                \<and> bound_to ?none client1"
    using token_of_shape(4)[of "[]"] by (simp add: fixture_defs)
  have rest: "fst (refresh_after_validation (host_with_refresh_token ?none) options0 client1 ?none
                     (validated world0 refresh_parsed0 ?none 0)) = Inr ?b"
    by (simp add: refresh_after_validation_def validated_def refresh_grant_defs token_defs io_defs
          err_defs fixture_defs validator_defs)
  from refresh_token_expiry[OF refresh_parse0 load clock token_of_shape(1-3), of _ options0] old
  have 1: "fails_with ''invalid_grant''
     (fst (RefreshTokenGrant_execute (host_with_refresh_token ?old) options0 refresh_request0 client1 world0))"
    by blast
  from refresh_token_expiry[OF refresh_parse0 load clock token_of_shape(1-3), of _ options0] none
  have 2: "validateRefreshToken (host_with_refresh_token ?none) refresh_parsed0 client1 world0
             = (Inr ?none, validated world0 refresh_parsed0 ?none 0)"
    and 3: "RefreshTokenGrant_execute (host_with_refresh_token ?none) options0 refresh_request0 client1 world0
             = refresh_after_validation (host_with_refresh_token ?none) options0 client1 ?none
                 (validated world0 refresh_parsed0 ?none 0)"
    by blast+
  from 1 2 3 rest show ?thesis by simp
qed

text \<open>C2 as stated fails where the record has no \<open>refreshTokenExpiresAt\<close>: the grant does not
  fail with \<open>invalid_grant\<close>, it issues a new token.\<close>

theorem refresh_without_expiry_counterexample:
  "get (token_of client1 []) ''refreshTokenExpiresAt'' = Inr JUndefined
   \<and> fst (RefreshTokenGrant_execute (host_with_refresh_token (token_of client1 [])) options0
            refresh_request0 client1 world0)
     = Inr (JObj [(''access_token'', JStr ''t0''), (''token_type'', JStr ''Bearer''),
                  (''expires_in'', JNum 1800), (''refresh_token'', JStr ''t1''),
                  (''scope'', JStr ''read'')])"
  by (simp add: refresh_grant_defs token_defs io_defs err_defs fixture_defs validator_defs)

section \<open>An expiry instant equal to the current time\<close>

lemma validateAuthorizationCode_at_expiry:
  assumes clock: "clock env (store w) = (t, s1)"
    and load: "getAuthorizationCode env [JStr (cr_code a)] s1 = (Inr code, s2)"
    and rec: "truthy code" "has_truthy code ''client''" "has_truthy code ''user''"
      "bound_to code client" "redirect_ok code"
    and exp: "get code ''expiresAt'' = Inr (JDate t)"
  shows "fst (validateAuthorizationCode env a client w) = Inr code"
proof -
  from has_truthyD[OF rec(2)] obtain cc where cc: "get code ''client'' = Inr cc" "truthy cc" by blast
  from has_truthyD[OF rec(3)] obtain cu where cu: "get code ''user'' = Inr cu" "truthy cu" by blast
  from bound_toD[OF rec(4)] cc obtain i1 i2
    where i: "get cc ''id'' = Inr i1" "get client ''id'' = Inr i2" "strict_eq i1 i2" by auto
  from rec(5) obtain r where r: "get code ''redirectUri'' = Inr r" "truthy r \<Longrightarrow> uri_val r"
    by (auto simp: redirect_ok_def split: sum.splits if_splits)
  show ?thesis
    unfolding validateAuthorizationCode_def
    using clock load rec(1) cc cu i exp r
    by (auto simp: io_defs)
qed

lemma validateAccessToken_at_expiry:
  assumes clock: "clock env (store w) = (t, s1)"
    and load: "getAccessToken env [of_opt token] s1 = (Inr accessToken, s2)"
    and rec: "truthy accessToken" "has_truthy accessToken ''user''"
    and exp: "get accessToken ''accessTokenExpiresAt'' = Inr (JDate t)"
  shows "fst (validateAccessToken env token w) = Inr accessToken"
proof -
  from has_truthyD[OF rec(2)] obtain u where u: "get accessToken ''user'' = Inr u" "truthy u" by blast
  show ?thesis
    unfolding validateAccessToken_def
    using clock load rec(1) u exp
    by (simp add: io_defs)
qed

lemma composeIntrospectResult_at_expiry:
  assumes tok: "truthy token"
    and clock: "clock env (store w) = (t, s1)"
    and exp: "expiry_by_hint req token = Inr (JDate t)"
    and rec: "get token ''client'' = Inr tc" "get tc ''id'' = Inr cid"
      "get token ''user'' = Inr tu" "get tu ''username'' = Inr un" "get token ''scope'' = Inr sc"
  shows "fst (composeIntrospectResult env req token w) =
           Inr (JObj [(''active'', JBool True), (''client_id'', cid), (''username'', un),
                      (''scope'', sc), (''expires_at'', JDate t)])"
  unfolding composeIntrospectResult_def
  using tok clock exp rec
  by (auto simp: io_defs expiry_by_hint_def split: if_splits)

text \<open>
  C5, as amended.  At each of the four comparisons a credential whose expiry instant is
  exactly the reading of the clock is treated as still valid: the authorization code, the
  bearer access token and the refresh token pass their validation (the other checks on the
  record being met), and introspection reports the token as active.
\<close>

theorem expiry_equal_to_now_is_valid:
  "(clock env (store w) = (t, s1)
      \<and> getAuthorizationCode env [JStr (cr_code a)] s1 = (Inr code, s2)
      \<and> truthy code \<and> has_truthy code ''client'' \<and> has_truthy code ''user''
      \<and> bound_to code client \<and> redirect_ok code
      \<and> get code ''expiresAt'' = Inr (JDate t)
    \<longrightarrow> fst (validateAuthorizationCode env a client w) = Inr code)
   \<and> (clock env (store w) = (t, s1)
      \<and> getAccessToken env [of_opt bearer] s1 = (Inr accessToken, s2)
      \<and> truthy accessToken \<and> has_truthy accessToken ''user''
      \<and> get accessToken ''accessTokenExpiresAt'' = Inr (JDate t)
    \<longrightarrow> fst (validateAccessToken env bearer w) = Inr accessToken)
   \<and> (getRefreshToken env [JStr (rr_refreshToken ra)] (store w) = (Inr refreshToken, s1)
      \<and> clock env s1 = (t, s2)
      \<and> truthy refreshToken \<and> has_truthy refreshToken ''client'' \<and> has_truthy refreshToken ''user''
      \<and> bound_to refreshToken client
      \<and> get refreshToken ''refreshTokenExpiresAt'' = Inr (JDate t)
    \<longrightarrow> fst (validateRefreshToken env ra client w) = Inr refreshToken)
   \<and> (truthy token \<and> clock env (store w) = (t, s1)
      \<and> expiry_by_hint req token = Inr (JDate t)
      \<and> get token ''client'' = Inr tc \<and> get tc ''id'' = Inr cid
      \<and> get token ''user'' = Inr tu \<and> get tu ''username'' = Inr un
      \<and> get token ''scope'' = Inr sc
    \<longrightarrow> fst (composeIntrospectResult env req token w) =
          Inr (JObj [(''active'', JBool True), (''client_id'', cid), (''username'', un),
                     (''scope'', sc), (''expires_at'', JDate t)]))"
proof (intro conjI impI)
  assume "clock env (store w) = (t, s1)
      \<and> getAuthorizationCode env [JStr (cr_code a)] s1 = (Inr code, s2)
      \<and> truthy code \<and> has_truthy code ''client'' \<and> has_truthy code ''user''
      \<and> bound_to code client \<and> redirect_ok code
      \<and> get code ''expiresAt'' = Inr (JDate t)"
  then show "fst (validateAuthorizationCode env a client w) = Inr code"
    by (elim conjE) (rule validateAuthorizationCode_at_expiry; assumption)
next
  assume "clock env (store w) = (t, s1)
      \<and> getAccessToken env [of_opt bearer] s1 = (Inr accessToken, s2)
      \<and> truthy accessToken \<and> has_truthy accessToken ''user''
      \<and> get accessToken ''accessTokenExpiresAt'' = Inr (JDate t)"
  then show "fst (validateAccessToken env bearer w) = Inr accessToken"
    by (elim conjE) (rule validateAccessToken_at_expiry; assumption)
next
  assume "getRefreshToken env [JStr (rr_refreshToken ra)] (store w) = (Inr refreshToken, s1)
      \<and> clock env s1 = (t, s2)
      \<and> truthy refreshToken \<and> has_truthy refreshToken ''client'' \<and> has_truthy refreshToken ''user''
      \<and> bound_to refreshToken client
      \<and> get refreshToken ''refreshTokenExpiresAt'' = Inr (JDate t)"
  then show "fst (validateRefreshToken env ra client w) = Inr refreshToken"
    by (elim conjE) (rule validateRefreshToken_passes[where x = "JDate t"]; (assumption | simp))
next
  assume "truthy token \<and> clock env (store w) = (t, s1)
      \<and> expiry_by_hint req token = Inr (JDate t)
      \<and> get token ''client'' = Inr tc \<and> get tc ''id'' = Inr cid
      \<and> get token ''user'' = Inr tu \<and> get tu ''username'' = Inr un
      \<and> get token ''scope'' = Inr sc"
  then show "fst (composeIntrospectResult env req token w) =
          Inr (JObj [(''active'', JBool True), (''client_id'', cid), (''username'', un),
                     (''scope'', sc), (''expires_at'', JDate t)])"
    by (elim conjE) (rule composeIntrospectResult_at_expiry; assumption)
qed

text \<open>The hosts of the witness stand at 1000 ms, and the credentials expire at 1000 ms.\<close>

theorem expiry_equal_to_now_is_valid_witness:
  "fst (validateAuthorizationCode (host_with_code (code_of client1 1000)) code_request0 client1 world0)
     = Inr (code_of client1 1000)
   \<and> fst (validateAccessToken
            (host_with_access_token (token_of client1 [(''accessTokenExpiresAt'', JDate 1000)]))
            (Some ''A1'') world0)
     = Inr (token_of client1 [(''accessTokenExpiresAt'', JDate 1000)])
   \<and> fst (validateRefreshToken
            (host_with_refresh_token (token_of client1 [(''refreshTokenExpiresAt'', JDate 1000)]))
            refresh_parsed0 client1 world0)
     = Inr (token_of client1 [(''refreshTokenExpiresAt'', JDate 1000)])
   \<and> fst (composeIntrospectResult host introspect_parsed0
            (token_of client1 [(''accessTokenExpiresAt'', JDate 1000)]) world0)
     = Inr (JObj [(''active'', JBool True), (''client_id'', JStr ''c1''), (''username'', JStr ''alice''),
                  (''scope'', JStr ''read''), (''expires_at'', JDate 1000)])"
proof -
  let ?at = "token_of client1 [(''accessTokenExpiresAt'', JDate 1000)]"
  let ?rt = "token_of client1 [(''refreshTokenExpiresAt'', JDate 1000)]"
  let ?code = "code_of client1 1000"
  have code: "clock (host_with_code ?code) (store world0) = (1000, 0)
      \<and> getAuthorizationCode (host_with_code ?code) [JStr (cr_code code_request0)] 0 = (Inr ?code, 0)
      \<and> truthy ?code \<and> has_truthy ?code ''client'' \<and> has_truthy ?code ''user''
      \<and> bound_to ?code client1 \<and> redirect_ok ?code
      \<and> get ?code ''expiresAt'' = Inr (JDate 1000)"
    by (simp add: fixture_defs has_truthy_def bound_to_def redirect_ok_def validator_defs)
  have at: "clock (host_with_access_token ?at) (store world0) = (1000, 0)
      \<and> getAccessToken (host_with_access_token ?at) [of_opt (Some ''A1'')] 0 = (Inr ?at, 0)
      \<and> truthy ?at \<and> has_truthy ?at ''user''
      \<and> get ?at ''accessTokenExpiresAt'' = Inr (JDate 1000)"
    by (simp add: fixture_defs has_truthy_def)
  have rt: "getRefreshToken (host_with_refresh_token ?rt) [JStr (rr_refreshToken refresh_parsed0)]
        (store world0) = (Inr ?rt, 0)
      \<and> clock (host_with_refresh_token ?rt) 0 = (1000, 0)
      \<and> truthy ?rt \<and> has_truthy ?rt ''client'' \<and> has_truthy ?rt ''user''
      \<and> bound_to ?rt client1
      \<and> get ?rt ''refreshTokenExpiresAt'' = Inr (JDate 1000)"
    by (simp add: fixture_defs has_truthy_def bound_to_def)
  have it: "truthy ?at \<and> clock host (store world0) = (1000, 0)
      \<and> expiry_by_hint introspect_parsed0 ?at = Inr (JDate 1000)
      \<and> get ?at ''client'' = Inr client1 \<and> get client1 ''id'' = Inr (JStr ''c1'')
      \<and> get ?at ''user'' = Inr alice \<and> get alice ''username'' = Inr (JStr ''alice'')
      \<and> get ?at ''scope'' = Inr (JStr ''read'')"
    by (simp add: fixture_defs expiry_by_hint_def)
  from expiry_equal_to_now_is_valid[of "host_with_code ?code" world0 1000 0 code_request0 ?code 0 client1]
    code
  have 1: "fst (validateAuthorizationCode (host_with_code ?code) code_request0 client1 world0) = Inr ?code"
    by blast
  from expiry_equal_to_now_is_valid[of "host_with_access_token ?at" world0 1000 0 _ _ _ _ "Some ''A1''" ?at]
    at
  have 2: "fst (validateAccessToken (host_with_access_token ?at) (Some ''A1'') world0) = Inr ?at"
    by blast
  from expiry_equal_to_now_is_valid[of "host_with_refresh_token ?rt" world0 1000 0 _ _ 0 client1 _ _
      refresh_parsed0 ?rt]
    rt
  have 3: "fst (validateRefreshToken (host_with_refresh_token ?rt) refresh_parsed0 client1 world0) = Inr ?rt"
    by blast
  from expiry_equal_to_now_is_valid[of host world0 1000 0 _ _ _ _ _ _ _ _ ?at introspect_parsed0
      client1 "JStr ''c1''" alice "JStr ''alice''" "JStr ''read''"]
    it
  have 4: "fst (composeIntrospectResult host introspect_parsed0 ?at world0)
     = Inr (JObj [(''active'', JBool True), (''client_id'', JStr ''c1''), (''username'', JStr ''alice''),
                  (''scope'', JStr ''read''), (''expires_at'', JDate 1000)])"
    by blast
  from 1 2 3 4 show ?thesis by blast
qed

text \<open>C5 as stated fails: the host stands at 1000 ms, the access token \<open>A1\<close> expires at
  1000 ms, and the bearer validation returns the token instead of throwing
  \<open>invalid_token\<close>.\<close>

theorem expiry_equal_to_now_counterexample:
  "clock (host_with_access_token (token_of client1 [(''accessTokenExpiresAt'', JDate 1000)])) 0 = (1000, 0)
   \<and> get (token_of client1 [(''accessTokenExpiresAt'', JDate 1000)]) ''accessTokenExpiresAt''
       = Inr (JDate 1000)
   \<and> fst (validateAccessToken
            (host_with_access_token (token_of client1 [(''accessTokenExpiresAt'', JDate 1000)]))
            (Some ''A1'') world0)
     = Inr (token_of client1 [(''accessTokenExpiresAt'', JDate 1000)])"
  by (simp add: validateAccessToken_def io_defs err_defs fixture_defs validator_defs)

section \<open>The sources of a bearer token\<close>

lemma toLowerCase_www: "toLowerCase ''WWW-Authenticate'' = ''www-authenticate''"
  by (simp add: toLowerCase_def lower_char_def)

lemma authenticate_no_source:
  assumes "\<not> truthy_opt (request_get request ''Authorization'')"
    "\<not> truthy_opt (query request ''access_token'')" "\<not> truthy_opt (body request ''access_token'')"
  shows "AuthenticateHandler_execute env opts request w =
     (Inl (UnauthorizedRequestError ''Unauthorized request: no authentication given''),
      w\<lparr>resp := (resp w)\<lparr>
           res_headers := (res_headers (resp w))(''www-authenticate'' \<mapsto> JStr bearer_challenge),
           res_body := JObj [(''error'', JStr ''unauthorized_request''),
                             (''error_description'', JStr ''Unauthorized request: no authentication given'')],
           res_status := JNum 401\<rparr>\<rparr>)"
  unfolding AuthenticateHandler_execute_def AuthenticateRequest_def
    AuthenticateResponse_setErrorResponse_def
  using assms
  by (simp add: io_defs Let_def UnauthorizedRequestError_def new_OAuthError_def error_body_def
        response_set_def toLowerCase_www)

lemma AuthenticateRequest_many_sources:
  assumes "1 < length (filter truthy_opt (bearer_sources request))"
  shows "AuthenticateRequest env request allow =
           Inl (InvalidRequestError ''Invalid request: only one authentication method is allowed'')"
  unfolding AuthenticateRequest_def Let_def
  using assms by (auto simp: bearer_sources_def split: if_splits)

lemma authenticate_many_sources:
  assumes "1 < length (filter truthy_opt (bearer_sources request))"
  shows "AuthenticateHandler_execute env opts request w =
     (Inl (InvalidRequestError ''Invalid request: only one authentication method is allowed''),
      w\<lparr>resp := (resp w)\<lparr>
           res_body := JObj [(''error'', JStr ''invalid_request''),
                             (''error_description'',
                              JStr ''Invalid request: only one authentication method is allowed'')],
           res_status := JNum 400\<rparr>\<rparr>)"
  unfolding AuthenticateHandler_execute_def AuthenticateRequest_many_sources[OF assms]
    AuthenticateResponse_setErrorResponse_def
  by (simp add: io_defs InvalidRequestError_def new_OAuthError_def error_body_def)

text \<open>
  C7.  A source is present when it holds a non-empty string (the test of the source is
  JavaScript truthiness).  If none of the \<open>Authorization\<close> header, the query parameter
  \<open>access_token\<close> and the body field \<open>access_token\<close> is present, the bearer authentication
  throws \<open>unauthorized_request\<close>, and the response has status 401, the header
  \<open>WWW-Authenticate: Bearer realm="Service"\<close> and the error body.  If more than one is
  present it throws \<open>invalid_request\<close> (status 400).
\<close>

theorem bearer_source_count:
  "(length (filter truthy_opt (bearer_sources request)) = 0 \<longrightarrow>
      fst (AuthenticateHandler_execute env opts request w)
        = Inl (UnauthorizedRequestError ''Unauthorized request: no authentication given'')
      \<and> fails_with ''unauthorized_request'' (fst (AuthenticateHandler_execute env opts request w))
      \<and> res_status (resp (snd (AuthenticateHandler_execute env opts request w))) = JNum 401
      \<and> response_get (resp (snd (AuthenticateHandler_execute env opts request w))) ''WWW-Authenticate''
          = Some (JStr bearer_challenge)
      \<and> res_body (resp (snd (AuthenticateHandler_execute env opts request w)))
          = JObj [(''error'', JStr ''unauthorized_request''),
                  (''error_description'', JStr ''Unauthorized request: no authentication given'')])
   \<and> (1 < length (filter truthy_opt (bearer_sources request)) \<longrightarrow>
      fails_with ''invalid_request'' (fst (AuthenticateHandler_execute env opts request w))
      \<and> res_status (resp (snd (AuthenticateHandler_execute env opts request w))) = JNum 400
      \<and> res_body (resp (snd (AuthenticateHandler_execute env opts request w)))
          = JObj [(''error'', JStr ''invalid_request''),
                  (''error_description'',
                   JStr ''Invalid request: only one authentication method is allowed'')])"
proof (intro conjI impI)
  assume none: "length (filter truthy_opt (bearer_sources request)) = 0"
  then have n: "\<not> truthy_opt (request_get request ''Authorization'')"
    "\<not> truthy_opt (query request ''access_token'')" "\<not> truthy_opt (body request ''access_token'')"
    by (auto simp: bearer_sources_def split: if_splits)
  note run = authenticate_no_source[OF n, of env opts w]
  show "fst (AuthenticateHandler_execute env opts request w)
        = Inl (UnauthorizedRequestError ''Unauthorized request: no authentication given'')"
    by (simp add: run)
  show "fails_with ''unauthorized_request'' (fst (AuthenticateHandler_execute env opts request w))"
    by (simp add: run fails_with_def UnauthorizedRequestError_def new_OAuthError_def)
  show "res_status (resp (snd (AuthenticateHandler_execute env opts request w))) = JNum 401"
    by (simp add: run)
  show "response_get (resp (snd (AuthenticateHandler_execute env opts request w))) ''WWW-Authenticate''
          = Some (JStr bearer_challenge)"
    by (simp add: run response_get_def toLowerCase_www)
  show "res_body (resp (snd (AuthenticateHandler_execute env opts request w)))
          = JObj [(''error'', JStr ''unauthorized_request''),
                  (''error_description'', JStr ''Unauthorized request: no authentication given'')]"
    by (simp add: run)
next
  assume many: "1 < length (filter truthy_opt (bearer_sources request))"
  note run = authenticate_many_sources[OF many, of env opts w]
  show "fails_with ''invalid_request'' (fst (AuthenticateHandler_execute env opts request w))"
    by (simp add: run fails_with_def InvalidRequestError_def new_OAuthError_def)
  show "res_status (resp (snd (AuthenticateHandler_execute env opts request w))) = JNum 400"
    by (simp add: run)
  show "res_body (resp (snd (AuthenticateHandler_execute env opts request w)))
          = JObj [(''error'', JStr ''invalid_request''),
                  (''error_description'',
                   JStr ''Invalid request: only one authentication method is allowed'')]"
    by (simp add: run)
qed

theorem bearer_source_count_witness:
  "length (filter truthy_opt (bearer_sources bare_request)) = 0
   \<and> 1 < length (filter truthy_opt (bearer_sources doubled_request))
   \<and> fails_with ''unauthorized_request''
       (fst (AuthenticateHandler_execute host authenticate_options0 bare_request world0))
   \<and> res_status (resp (snd (AuthenticateHandler_execute host authenticate_options0 bare_request world0)))
       = JNum 401
   \<and> response_get (resp (snd (AuthenticateHandler_execute host authenticate_options0 bare_request world0)))
        ''WWW-Authenticate'' = Some (JStr bearer_challenge)
   \<and> fails_with ''invalid_request''
       (fst (AuthenticateHandler_execute host authenticate_options0 doubled_request world0))"
proof -
  have 0: "length (filter truthy_opt (bearer_sources bare_request)) = 0"
    by (simp add: bearer_sources_def bare_request_def request_get_def truthy_opt_def of_opt_def)
  have 2: "1 < length (filter truthy_opt (bearer_sources doubled_request))"
    by (simp add: bearer_sources_def doubled_request_def request_get_def truthy_opt_def of_opt_def
          toLowerCase_def lower_char_def)
  from bearer_source_count[of bare_request host authenticate_options0 world0] 0
    bearer_source_count[of doubled_request host authenticate_options0 world0] 2
  show ?thesis by blast
qed

section \<open>Introspection of a record without its expiry instant\<close>

lemma getTime_non_Date: "\<not> is_Date x \<Longrightarrow> \<exists>m. getTime x = Inl (TypeError m)"
  by (cases x) auto

lemma verifyToken_bound:
  assumes load: "lookup_by_hint env req [JStr (ir_token req)] (store w) = (Inr token, s2)"
    and tok: "truthy token" "bound_to token client"
  shows "verifyToken env req client w =
     (Inr token,
      w\<lparr>store := s2,
        trace := trace w @
          [Call (if ir_tokenHint req = ''access_token'' then ''getAccessToken'' else ''getRefreshToken'')
             [JStr (ir_token req)] (Inr token)]\<rparr>)"
proof -
  from bound_toD[OF tok(2)] obtain c a b
    where c: "get token ''client'' = Inr c" "get c ''id'' = Inr a" "get client ''id'' = Inr b"
      "strict_eq a b" by blast
  show ?thesis
    unfolding verifyToken_def
    using load tok(1) c
    by (simp add: io_defs lookup_by_hint_def split: if_splits)
qed

text \<open>
  C10.  Let the introspection request parse, the client authenticate, and the Model find a
  record that is bound to the client, while the expiry instant that the token hint selects
  is absent from the record (more generally, is no date).  Then reading the time of the
  expiry throws a \<open>TypeError\<close>, which the handler throws on after it has written the response:
  status 500 and the body \<open>{error: "server_error", error_description}\<close>, not
  \<open>{active: false}\<close>.
\<close>

theorem introspect_without_expiry:
  assumes parse: "IntrospectRequest env request isClientSecretRequired = Inr req"
    and client: "getClient env [JStr (ir_clientId req), of_opt (ir_clientSecret req)] (store w)
                   = (Inr client, s1)" "truthy client"
    and load: "lookup_by_hint env req [JStr (ir_token req)] s1 = (Inr token, s2)"
      "truthy token" "bound_to token client"
    and clock: "clock env s2 = (t, s3)"
    and lacks: "expiry_by_hint req token = Inr x" "\<not> is_Date x"
  shows "\<exists>m d. fst (IntrospectHandler_execute env isClientSecretRequired request w) = Inl (TypeError m)
           \<and> res_body (resp (snd (IntrospectHandler_execute env isClientSecretRequired request w)))
               = JObj [(''error'', JStr ''server_error''), (''error_description'', JStr d)]
           \<and> res_status (resp (snd (IntrospectHandler_execute env isClientSecretRequired request w)))
               = JNum 500
           \<and> res_body (resp (snd (IntrospectHandler_execute env isClientSecretRequired request w)))
               \<noteq> JObj [(''active'', JBool False)]"
proof -
  from getTime_non_Date[OF lacks(2)] obtain m where m: "getTime x = Inl (TypeError m)" by blast
  let ?w1 = "w\<lparr>store := s1,
      trace := trace w @ [Call ''getClient'' [JStr (ir_clientId req), of_opt (ir_clientSecret req)]
                            (Inr client)]\<rparr>"
  have auth: "authenticateClient env req w = (Inr client, ?w1)"
    unfolding authenticateClient_def using client by (simp add: io_defs)
  have "lookup_by_hint env req [JStr (ir_token req)] (store ?w1) = (Inr token, s2)"
    using load(1) by simp
  note verify = verifyToken_bound[OF this load(2,3)]
  let ?w2 = "?w1\<lparr>store := s2,
      trace := trace ?w1 @
        [Call (if ir_tokenHint req = ''access_token'' then ''getAccessToken'' else ''getRefreshToken'')
           [JStr (ir_token req)] (Inr token)]\<rparr>"
  have exp: "(if ir_tokenHint req = ''access_token''
              then lift (get token ''accessTokenExpiresAt'')
              else lift (get token ''refreshTokenExpiresAt'')) = lift (Inr x)"
    using lacks(1) by (simp add: expiry_by_hint_def split: if_splits)
  have compose: "composeIntrospectResult env req token ?w2 = (Inl (TypeError m), ?w2\<lparr>store := s3\<rparr>)"
    unfolding composeIntrospectResult_def exp
    using load(2) clock m by (simp add: io_defs)
  have run: "IntrospectHandler_execute env isClientSecretRequired request w =
      (Inl (TypeError m),
       ?w2\<lparr>store := s3,
            resp := (resp w)\<lparr>res_body := error_body (ServerError_of (TypeError m)),
                             res_status := JNum 500\<rparr>\<rparr>)"
    unfolding IntrospectHandler_execute_def IntrospectResponse_setErrorResponse_def
    using parse auth verify compose
    by (simp add: io_defs TypeError_def ServerError_of_def ServerError_def new_OAuthError_def)
  show ?thesis
    unfolding run
    by (intro exI[of _ m] exI[of _ "err_message (ServerError_of (TypeError m))"])
       (simp add: error_body_def ServerError_of_def ServerError_def new_OAuthError_def)
qed

lemma token_request_parse:
  "IntrospectRequest host (token_request ''access_token'') True = Inr introspect_parsed0"
  by (simp add: IntrospectRequest_def fixture_defs validator_defs form_urlencoded_def Let_def)

theorem introspect_without_expiry_witness:
  "expiry_by_hint introspect_parsed0 (token_of client1 []) = Inr JUndefined
   \<and> \<not> is_Date JUndefined
   \<and> (\<exists>m d. fst (IntrospectHandler_execute (host_of_client1 (token_of client1 [])) True
                    (token_request ''access_token'') world0) = Inl (TypeError m)
        \<and> res_body (resp (snd (IntrospectHandler_execute (host_of_client1 (token_of client1 [])) True
                                 (token_request ''access_token'') world0)))
            = JObj [(''error'', JStr ''server_error''), (''error_description'', JStr d)]
        \<and> res_status (resp (snd (IntrospectHandler_execute (host_of_client1 (token_of client1 [])) True
                                   (token_request ''access_token'') world0)))
            = JNum 500)"
proof -
  let ?tok = "token_of client1 []"
  let ?host = "host_of_client1 ?tok"
  have parse: "IntrospectRequest ?host (token_request ''access_token'') True = Inr introspect_parsed0"
    by (simp add: IntrospectRequest_def fixture_defs validator_defs form_urlencoded_def Let_def)
  have client: "getClient ?host [JStr (ir_clientId introspect_parsed0),
                   of_opt (ir_clientSecret introspect_parsed0)] (store world0) = (Inr client1, 0)"
    "truthy client1"
    by (simp_all add: fixture_defs)
  have load: "lookup_by_hint ?host introspect_parsed0 [JStr (ir_token introspect_parsed0)] 0
                = (Inr ?tok, 0)"
    by (simp add: lookup_by_hint_def fixture_defs)
  have clock: "clock ?host 0 = (1000, 0)"
    by (simp add: fixture_defs)
  have lacks: "expiry_by_hint introspect_parsed0 ?tok = Inr JUndefined" "\<not> is_Date JUndefined"
    by (simp_all add: expiry_by_hint_def fixture_defs)
  from introspect_without_expiry[OF parse client load token_of_shape(1)[of "[]"]
      token_of_shape(4)[of "[]"] clock lacks] lacks
  show ?thesis by blast
qed

section \<open>Revocation\<close>

lemma bound_to_truthy: "bound_to token client \<Longrightarrow> truthy token"
  by (cases token) (auto simp: bound_to_def)

lemma verifyToken_result:
  assumes load: "lookup_by_hint env req [JStr (ir_token req)] (store w) = (Inr token, s2)"
    and wf: "\<not> truthy token \<or> has_client token"
    and cl: "truthy client"
  shows "verifyToken env req client w =
     (Inr (if bound_to token client then token else JBool False),
      w\<lparr>store := s2,
        trace := trace w @
          [Call (if ir_tokenHint req = ''access_token'' then ''getAccessToken'' else ''getRefreshToken'')
             [JStr (ir_token req)] (Inr token)]\<rparr>)"
proof (cases "truthy token")
  case False
  then have "\<not> bound_to token client" using bound_to_truthy by blast
  with False show ?thesis
    unfolding verifyToken_def using load
    by (simp add: io_defs lookup_by_hint_def split: if_splits)
next
  case True
  with wf obtain c i where c: "get token ''client'' = Inr c" "get c ''id'' = Inr i"
    by (auto simp: has_client_def split: sum.splits)
  from get_truthy[OF cl] obtain j where j: "get client ''id'' = Inr j" by blast
  have "bound_to token client = strict_eq i j"
    using c j by (simp add: bound_to_def)
  then show ?thesis
    unfolding verifyToken_def using load True c j
    by (simp add: io_defs lookup_by_hint_def split: if_splits)
qed

lemma get_fails: "get v k = Inl e \<Longrightarrow> \<exists>m. e = TypeError m"
  by (cases v) auto

lemma verifyToken_without_client:
  assumes load: "lookup_by_hint env req [JStr (ir_token req)] (store w) = (Inr token, s2)"
    and tok: "truthy token" "\<not> has_client token"
  shows "\<exists>m. verifyToken env req client w =
     (Inl (TypeError m),
      w\<lparr>store := s2,
        trace := trace w @
          [Call (if ir_tokenHint req = ''access_token'' then ''getAccessToken'' else ''getRefreshToken'')
             [JStr (ir_token req)] (Inr token)]\<rparr>)"
proof -
  from get_truthy[OF tok(1)] obtain c where c: "get token ''client'' = Inr c" by blast
  with tok(2) obtain e where "get c ''id'' = Inl e"
    by (auto simp: has_client_def split: sum.splits)
  with get_fails obtain m where m: "get c ''id'' = Inl (TypeError m)" by blast
  have "verifyToken env req client w =
     (Inl (TypeError m),
      w\<lparr>store := s2,
        trace := trace w @
          [Call (if ir_tokenHint req = ''access_token'' then ''getAccessToken'' else ''getRefreshToken'')
             [JStr (ir_token req)] (Inr token)]\<rparr>)"
    unfolding verifyToken_def using load tok(1) c m
    by (simp add: io_defs lookup_by_hint_def split: if_splits)
  then show ?thesis by blast
qed

text \<open>
  C8, as amended.  Let the revocation request parse and the client authenticate, let the
  lookup of the token resolve, and let the revocation resolve if the record found is bound
  to the authenticated client (nothing is asked of the revoking capabilities otherwise).
  If the lookup gave a falsy value (an unknown token) or a record with a client object,
  the handler returns, the response has status 200 and an empty body, and the Model has
  been asked to revoke (by the capability the hint selects, once, with the record found)
  exactly when the record is bound to the authenticated client; for an unknown token and
  for a token of another client neither revoking capability has been called.  If the
  lookup gave a record without a client object, \<open>verifyToken\<close> throws a \<open>TypeError\<close> at
  \<open>token.client.id\<close>: the handler throws it on, the response has status 500, and no revoking
  capability has been called.  The classes \<open>RevokeRequest\<close> and \<open>RevokeResponse\<close> are modelled
  from the specification; the handler (\<open>authenticateClient\<close>, \<open>verifyToken\<close>,
  \<open>invalidateToken\<close>, \<open>execute\<close>) is the source's.
\<close>

theorem revoke_succeeds_and_revokes_own_tokens:
  assumes parse: "RevokeRequest env request isClientSecretRequired = Inr req"
    and client: "getClient env [JStr (ir_clientId req), of_opt (ir_clientSecret req)] (store w)
                   = (Inr client, s1)" "truthy client"
    and load: "lookup_by_hint env req [JStr (ir_token req)] s1 = (Inr token, s2)"
    and revoke: "bound_to token client \<Longrightarrow> revoke_by_hint env req [token] s2 = (Inr v, s3)"
  shows "(\<not> truthy token \<or> has_client token \<longrightarrow>
            fst (RevokeHandler_execute env isClientSecretRequired request w) = Inr ()
          \<and> res_status (resp (snd (RevokeHandler_execute env isClientSecretRequired request w))) = JNum 200
          \<and> res_body (resp (snd (RevokeHandler_execute env isClientSecretRequired request w))) = JObj []
          \<and> calls_of (revoke_capability req)
               (new_events w (snd (RevokeHandler_execute env isClientSecretRequired request w)))
              = (if bound_to token client then [[token]] else [])
          \<and> calls_of ''revokeAccessToken''
               (new_events w (snd (RevokeHandler_execute env isClientSecretRequired request w)))
            @ calls_of ''revokeRefreshToken''
               (new_events w (snd (RevokeHandler_execute env isClientSecretRequired request w)))
              = (if bound_to token client then [[token]] else []))
       \<and> (truthy token \<and> \<not> has_client token \<longrightarrow>
            (\<exists>m. fst (RevokeHandler_execute env isClientSecretRequired request w) = Inl (TypeError m))
          \<and> res_status (resp (snd (RevokeHandler_execute env isClientSecretRequired request w))) = JNum 500
          \<and> calls_of ''revokeAccessToken''
               (new_events w (snd (RevokeHandler_execute env isClientSecretRequired request w)))
            @ calls_of ''revokeRefreshToken''
               (new_events w (snd (RevokeHandler_execute env isClientSecretRequired request w)))
              = [])"
proof (intro conjI impI)
  let ?get = "if ir_tokenHint req = ''access_token'' then ''getAccessToken'' else ''getRefreshToken''"
  let ?e1 = "Call ''getClient'' [JStr (ir_clientId req), of_opt (ir_clientSecret req)] (Inr client)"
  let ?e2 = "Call ?get [JStr (ir_token req)] (Inr token)"
  let ?e3 = "Call (revoke_capability req) [token] (Inr v)"
  let ?w1 = "w\<lparr>store := s1, trace := trace w @ [?e1]\<rparr>"
  let ?w2 = "w\<lparr>store := s2, trace := trace w @ [?e1, ?e2]\<rparr>"
  let ?run = "RevokeHandler_execute env isClientSecretRequired request w"
  have auth: "authenticateClient env req w = (Inr client, ?w1)"
    unfolding authenticateClient_def using client by (simp add: io_defs)
  have load1: "lookup_by_hint env req [JStr (ir_token req)] (store ?w1) = (Inr token, s2)"
    using load by simp
  have names: "revoke_capability req \<noteq> ''getClient''" "revoke_capability req \<noteq> ?get"
    by (simp_all add: revoke_capability_def)
  {
    assume wf: "\<not> truthy token \<or> has_client token"
    from verifyToken_result[OF load1 wf client(2)]
    have verify: "verifyToken env req client ?w1 =
        (Inr (if bound_to token client then token else JBool False), ?w2)"
      by simp
    have "fst ?run = Inr ()
          \<and> res_status (resp (snd ?run)) = JNum 200
          \<and> res_body (resp (snd ?run)) = JObj []
          \<and> calls_of (revoke_capability req) (new_events w (snd ?run))
              = (if bound_to token client then [[token]] else [])
          \<and> calls_of ''revokeAccessToken'' (new_events w (snd ?run))
            @ calls_of ''revokeRefreshToken'' (new_events w (snd ?run))
              = (if bound_to token client then [[token]] else [])"
    proof (cases "bound_to token client")
      case True
      then have t: "truthy token" by (rule bound_to_truthy)
      have inval: "invalidateToken env req token ?w2 =
          (Inr v, w\<lparr>store := s3, trace := trace w @ [?e1, ?e2, ?e3]\<rparr>)"
        unfolding invalidateToken_def using revoke[OF True]
        by (simp add: io_defs revoke_by_hint_def revoke_capability_def split: if_splits)
      have run: "?run =
          (Inr (), w\<lparr>store := s3, trace := trace w @ [?e1, ?e2, ?e3],
                     resp := (resp w)\<lparr>res_body := JObj [], res_status := JNum 200\<rparr>\<rparr>)"
        unfolding RevokeHandler_execute_def RevokeResponse_setSuccessResponse_def
        using parse auth verify inval True t
        by (simp add: io_defs)
      show ?thesis
        unfolding run using True names
        by (simp add: new_events_def calls_of_Cons calls_of_Nil revoke_capability_def)
    next
      case False
      have run: "?run =
          (Inr (), w\<lparr>store := s2, trace := trace w @ [?e1, ?e2],
                     resp := (resp w)\<lparr>res_body := JObj [], res_status := JNum 200\<rparr>\<rparr>)"
        unfolding RevokeHandler_execute_def RevokeResponse_setSuccessResponse_def
        using parse auth verify False
        by (simp add: io_defs)
      show ?thesis
        unfolding run using False names
        by (simp add: new_events_def calls_of_Cons calls_of_Nil revoke_capability_def)
    qed
  }
  note good = this
  {
    assume bad: "truthy token \<and> \<not> has_client token"
    from verifyToken_without_client[OF load1, of client] bad
    obtain m where verify: "verifyToken env req client ?w1 = (Inl (TypeError m), ?w2)"
      by auto
    have run: "?run =
        (Inl (TypeError m),
         w\<lparr>store := s2, trace := trace w @ [?e1, ?e2],
           resp := (resp w)\<lparr>res_body := error_body (ServerError_of (TypeError m)),
                             res_status := JNum 500\<rparr>\<rparr>)"
      unfolding RevokeHandler_execute_def RevokeResponse_setErrorResponse_def
        IntrospectResponse_setErrorResponse_def
      using parse auth verify
      by (simp add: io_defs err_defs Let_def)
    have "(\<exists>m. fst ?run = Inl (TypeError m))
          \<and> res_status (resp (snd ?run)) = JNum 500
          \<and> calls_of ''revokeAccessToken'' (new_events w (snd ?run))
            @ calls_of ''revokeRefreshToken'' (new_events w (snd ?run)) = []"
      unfolding run
      by (auto simp: new_events_def calls_of_Cons calls_of_Nil)
  }
  note bad = this
  show "fst ?run = Inr ()" if "\<not> truthy token \<or> has_client token" using good[OF that] by blast
  show "res_status (resp (snd ?run)) = JNum 200" if "\<not> truthy token \<or> has_client token"
    using good[OF that] by blast
  show "res_body (resp (snd ?run)) = JObj []" if "\<not> truthy token \<or> has_client token"
    using good[OF that] by blast
  show "calls_of (revoke_capability req) (new_events w (snd ?run))
          = (if bound_to token client then [[token]] else [])" if "\<not> truthy token \<or> has_client token"
    using good[OF that] by blast
  show "calls_of ''revokeAccessToken'' (new_events w (snd ?run))
          @ calls_of ''revokeRefreshToken'' (new_events w (snd ?run))
          = (if bound_to token client then [[token]] else [])" if "\<not> truthy token \<or> has_client token"
    using good[OF that] by blast
  show "\<exists>m. fst ?run = Inl (TypeError m)" if "truthy token \<and> \<not> has_client token"
    using bad[OF that] by blast
  show "res_status (resp (snd ?run)) = JNum 500" if "truthy token \<and> \<not> has_client token"
    using bad[OF that] by blast
  show "calls_of ''revokeAccessToken'' (new_events w (snd ?run))
          @ calls_of ''revokeRefreshToken'' (new_events w (snd ?run)) = []"
    if "truthy token \<and> \<not> has_client token"
    using bad[OF that] by blast
qed

text \<open>The witness: client \<open>c1\<close> revokes a token bound to it; and, with a Model that rejects
  every call of a revoking capability, an unknown token and a token of another client.\<close>

theorem revoke_succeeds_and_revokes_own_tokens_witness:
  "bound_to (token_of client1 []) client1 \<and> \<not> bound_to JUndefined client1
   \<and> \<not> bound_to (token_of client2 []) client1
   \<and> fst (RevokeHandler_execute (host_of_client1 (token_of client1 [])) True
            (token_request ''refresh_token'') world0) = Inr ()
   \<and> calls_of ''revokeRefreshToken''
        (new_events world0 (snd (RevokeHandler_execute (host_of_client1 (token_of client1 [])) True
                                   (token_request ''refresh_token'') world0)))
       = [[token_of client1 []]]
   \<and> fst (RevokeHandler_execute (host_rejecting_revocation JUndefined) True
            (token_request ''refresh_token'') world0) = Inr ()
   \<and> res_status (resp (snd (RevokeHandler_execute (host_rejecting_revocation JUndefined) True
                               (token_request ''refresh_token'') world0))) = JNum 200
   \<and> res_body (resp (snd (RevokeHandler_execute (host_rejecting_revocation JUndefined) True
                             (token_request ''refresh_token'') world0))) = JObj []
   \<and> calls_of ''revokeAccessToken''
        (new_events world0 (snd (RevokeHandler_execute (host_rejecting_revocation JUndefined) True
                                   (token_request ''refresh_token'') world0)))
     @ calls_of ''revokeRefreshToken''
        (new_events world0 (snd (RevokeHandler_execute (host_rejecting_revocation JUndefined) True
                                   (token_request ''refresh_token'') world0))) = []
   \<and> fst (RevokeHandler_execute (host_rejecting_revocation (token_of client2 [])) True
            (token_request ''refresh_token'') world0) = Inr ()
   \<and> calls_of ''revokeAccessToken''
        (new_events world0 (snd (RevokeHandler_execute (host_rejecting_revocation (token_of client2 [])) True
                                   (token_request ''refresh_token'') world0)))
     @ calls_of ''revokeRefreshToken''
        (new_events world0 (snd (RevokeHandler_execute (host_rejecting_revocation (token_of client2 [])) True
                                   (token_request ''refresh_token'') world0))) = []"
proof -
  let ?req = "introspect_parsed0\<lparr>ir_tokenHint := ''refresh_token''\<rparr>"
  have parse: "RevokeRequest (host_of_client1 tok) (token_request ''refresh_token'') True = Inr ?req"
    and parse': "RevokeRequest (host_rejecting_revocation tok) (token_request ''refresh_token'') True
                   = Inr ?req" for tok
    by (simp_all add: RevokeRequest_def IntrospectRequest_def fixture_defs validator_defs
          form_urlencoded_def Let_def)
  have client: "getClient (host_of_client1 tok) [JStr (ir_clientId ?req), of_opt (ir_clientSecret ?req)]
                  (store world0) = (Inr client1, 0)"
    "getClient (host_rejecting_revocation tok) [JStr (ir_clientId ?req), of_opt (ir_clientSecret ?req)]
                  (store world0) = (Inr client1, 0)"
    "truthy client1" for tok
    by (simp_all add: fixture_defs)
  have load: "lookup_by_hint (host_of_client1 tok) ?req [JStr (ir_token ?req)] 0 = (Inr tok, 0)"
    "lookup_by_hint (host_rejecting_revocation tok) ?req [JStr (ir_token ?req)] 0 = (Inr tok, 0)" for tok
    by (simp_all add: lookup_by_hint_def fixture_defs)
  have revoke: "revoke_by_hint (host_of_client1 tok) ?req [tok] 0 = (Inr (JBool True), 0)" for tok
    by (simp add: revoke_by_hint_def fixture_defs)
  have cap: "revoke_capability ?req = ''revokeRefreshToken''"
    by (simp add: revoke_capability_def)
  have own: "bound_to (token_of client1 []) client1" "\<not> truthy (token_of client1 []) \<or> has_client (token_of client1 [])"
    by (simp_all add: fixture_defs bound_to_def has_client_def)
  have unknown: "\<not> bound_to JUndefined client1" "\<not> truthy JUndefined \<or> has_client JUndefined"
    by (simp_all add: bound_to_def)
  have other: "\<not> bound_to (token_of client2 []) client1"
    "\<not> truthy (token_of client2 []) \<or> has_client (token_of client2 [])"
    by (simp_all add: fixture_defs bound_to_def has_client_def)
  have 1: "fst (RevokeHandler_execute (host_of_client1 (token_of client1 [])) True
            (token_request ''refresh_token'') world0) = Inr ()
   \<and> calls_of ''revokeRefreshToken''
        (new_events world0 (snd (RevokeHandler_execute (host_of_client1 (token_of client1 [])) True
                                   (token_request ''refresh_token'') world0)))
       = [[token_of client1 []]]"
    using revoke_succeeds_and_revokes_own_tokens[OF parse client(1) client(3) load(1) revoke] own
    unfolding cap by simp
  have 2: "fst (RevokeHandler_execute (host_rejecting_revocation JUndefined) True
            (token_request ''refresh_token'') world0) = Inr ()
   \<and> res_status (resp (snd (RevokeHandler_execute (host_rejecting_revocation JUndefined) True
                               (token_request ''refresh_token'') world0))) = JNum 200
   \<and> res_body (resp (snd (RevokeHandler_execute (host_rejecting_revocation JUndefined) True
                             (token_request ''refresh_token'') world0))) = JObj []
   \<and> calls_of ''revokeAccessToken''
        (new_events world0 (snd (RevokeHandler_execute (host_rejecting_revocation JUndefined) True
                                   (token_request ''refresh_token'') world0)))
     @ calls_of ''revokeRefreshToken''
        (new_events world0 (snd (RevokeHandler_execute (host_rejecting_revocation JUndefined) True
                                   (token_request ''refresh_token'') world0))) = []"
    using revoke_succeeds_and_revokes_own_tokens[OF parse' client(2) client(3) load(2),
            of JUndefined JUndefined 0] unknown
    by simp
  have 3: "fst (RevokeHandler_execute (host_rejecting_revocation (token_of client2 [])) True
            (token_request ''refresh_token'') world0) = Inr ()
   \<and> calls_of ''revokeAccessToken''
        (new_events world0 (snd (RevokeHandler_execute (host_rejecting_revocation (token_of client2 [])) True
                                   (token_request ''refresh_token'') world0)))
     @ calls_of ''revokeRefreshToken''
        (new_events world0 (snd (RevokeHandler_execute (host_rejecting_revocation (token_of client2 [])) True
                                   (token_request ''refresh_token'') world0))) = []"
    using revoke_succeeds_and_revokes_own_tokens[OF parse' client(2) client(3) load(2),
            of "token_of client2 []" JUndefined 0] other
    by simp
  from own(1) unknown(1) other(1) 1 2 3 show ?thesis by blast
qed

text \<open>C8 as stated fails for a Model that answers the lookup with a record that has no
  client: \<open>verifyToken\<close> reads \<open>token.client.id\<close>, the \<open>TypeError\<close> is caught and thrown again,
  and the response is the error response (\<open>server_error\<close>, 500), not the 200.  No revoking
  capability is called.\<close>

theorem revoke_record_without_client_counterexample:
  "RevokeRequest (host_of_client1 clientless_token) (token_request ''refresh_token'') True
     = Inr (introspect_parsed0\<lparr>ir_tokenHint := ''refresh_token''\<rparr>)
   \<and> truthy clientless_token
   \<and> (\<exists>m. fst (RevokeHandler_execute (host_of_client1 clientless_token) True
                 (token_request ''refresh_token'') world0) = Inl (TypeError m))
   \<and> res_status (resp (snd (RevokeHandler_execute (host_of_client1 clientless_token) True
                               (token_request ''refresh_token'') world0))) = JNum 500
   \<and> calls_of ''revokeRefreshToken''
        (new_events world0 (snd (RevokeHandler_execute (host_of_client1 clientless_token) True
                                   (token_request ''refresh_token'') world0))) = []"
  by (simp add: RevokeHandler_execute_def RevokeRequest_def IntrospectRequest_def
        RevokeResponse_setErrorResponse_def IntrospectResponse_setErrorResponse_def
        authenticateClient_def verifyToken_def error_body_def request_get_def
        form_urlencoded_def io_defs err_defs fixture_defs validator_defs observer_defs Let_def)

section \<open>The redirects of the authorize endpoint\<close>

text \<open>
  C4.  The claim: when an authorize request fails with another error than \<open>invalid_client\<close> or
  \<open>unauthorized_request\<close> and no redirect URI is known, only the body and the status are set,
  without \<open>Location\<close> header and without 302.  The request below has no \<open>redirect_uri\<close>; the
  parsing fails with \<open>invalid_request\<close>, and the handler answers 302 with the \<open>Location\<close>
  \<open>?error=invalid_request&error_description=...\<close>, a redirect to a bare query string.
\<close>

theorem authorize_error_without_redirect_uri:
  "fst (AuthorizeHandler_execute (authorize_host [''https://app/cb'']) authorize_options0
          (authorize_request [(''response_type'', ''code''), (''client_id'', ''c1''), (''state'', ''xyz'')])
          world0)
     = Inl (InvalidRequestError ''Missing parameter: `redirect_uri`'')
   \<and> res_status (resp (snd (AuthorizeHandler_execute (authorize_host [''https://app/cb''])
          authorize_options0
          (authorize_request [(''response_type'', ''code''), (''client_id'', ''c1''), (''state'', ''xyz'')])
          world0)))
     = JNum 302
   \<and> response_get (resp (snd (AuthorizeHandler_execute (authorize_host [''https://app/cb''])
          authorize_options0
          (authorize_request [(''response_type'', ''code''), (''client_id'', ''c1''), (''state'', ''xyz'')])
          world0))) ''Location''
     = Some (JStr ''?error=invalid_request&error_description=Missing%20parameter%3A%20%60redirect_uri%60'')"
  by (simp add: authorize_defs url_defs handler_defs io_defs err_defs fixture_defs validator_defs)

text \<open>When the \<open>redirect_uri\<close> of the request carries a query string, \<open>url.format\<close> renders the
  \<open>search\<close> of the parsed URI, which \<open>setErrorResponse\<close> does not clear, and not the \<open>query\<close>
  object that received the error: the redirect goes to the URI as it was, without \<open>error\<close>
  and \<open>error_description\<close>.  The request below lacks the \<open>state\<close>.\<close>

lemma authorize_error_with_query_string:
  "fst (AuthorizeHandler_execute (authorize_host [''https://app/cb?foo=1'']) authorize_options0
          (authorize_request [(''response_type'', ''code''), (''client_id'', ''c1''),
                              (''redirect_uri'', ''https://app/cb?foo=1'')])
          world0)
     = Inl (InvalidRequestError ''Missing parameter: `state`'')
   \<and> response_get (resp (snd (AuthorizeHandler_execute (authorize_host [''https://app/cb?foo=1''])
          authorize_options0
          (authorize_request [(''response_type'', ''code''), (''client_id'', ''c1''),
                              (''redirect_uri'', ''https://app/cb?foo=1'')])
          world0))) ''Location''
     = Some (JStr ''https://app/cb?foo=1'')"
  by (simp add: authorize_defs url_defs handler_defs io_defs err_defs fixture_defs validator_defs)

text \<open>The part of the claim that the code meets: \<open>invalid_client\<close> and \<open>unauthorized_request\<close>
  give status 401 and the error body, and leave the headers alone.\<close>

lemma authorize_error_no_redirect:
  assumes "err_name e = ''invalid_client'' \<or> err_name e = ''unauthorized_request''"
  shows "AuthorizationResponse_setErrorResponse env u e w =
           (Inr (), w\<lparr>resp := (resp w)\<lparr>res_body := error_body e, res_status := JNum 401\<rparr>\<rparr>)"
  using assms unfolding AuthorizationResponse_setErrorResponse_def
  by (auto simp: io_defs)

text \<open>And a \<open>redirect_uri\<close> without query string receives the error.\<close>

lemma authorize_error_plain_redirect_uri:
  "response_get (resp (snd (AuthorizeHandler_execute (authorize_host [''https://app/cb''])
          authorize_options0
          (authorize_request [(''response_type'', ''code''), (''client_id'', ''c1''),
                              (''redirect_uri'', ''https://app/cb'')])
          world0))) ''Location''
     = Some (JStr ''https://app/cb?error=invalid_request&error_description=Missing%20parameter%3A%20%60state%60'')"
  by (simp add: authorize_defs url_defs handler_defs io_defs err_defs fixture_defs validator_defs)

section \<open>The success redirect of the response type \<open>code\<close>\<close>

subsection \<open>What \<open>url.format\<close> writes\<close>

lemma hex_digit_no_hash: "n < 16 \<Longrightarrow> hex_digit n \<noteq> CHR ''#''"
proof -
  assume "n < 16"
  then have "hex_digit n \<in> set ''0123456789ABCDEF''"
    unfolding hex_digit_def by (intro nth_mem) simp
  then show ?thesis by auto
qed

lemma char_code_less: "char_code c < 256"
  unfolding char_code_def by (cases c) simp

lemma escape_piece:
  "CHR ''#'' \<notin> set (if unreserved c then [c]
       else [CHR ''%'', hex_digit (char_code c div 16), hex_digit (char_code c mod 16)])"
proof (cases "unreserved c")
  case True
  have "\<not> unreserved (CHR ''#'')"
    by (simp add: unreserved_def alpha_char_def char_code_def)
  with True have "c \<noteq> CHR ''#''" by auto
  with True show ?thesis by simp
next
  case False
  have "char_code c div 16 < 16" "char_code c mod 16 < 16"
    using char_code_less[of c] by simp_all
  from hex_digit_no_hash[OF this(1)] hex_digit_no_hash[OF this(2)] False
  show ?thesis by auto
qed

lemma escape_no_hash: "CHR ''#'' \<notin> set (escape s)"
proof -
  define f where "f = (\<lambda>c. if unreserved c then [c]
       else [CHR ''%'', hex_digit (char_code c div 16), hex_digit (char_code c mod 16)])"
  have "CHR ''#'' \<notin> set (f c)" for c
    unfolding f_def by (rule escape_piece)
  moreover have "escape s = concat (map f s)"
    by (simp add: escape_def f_def)
  ultimately show ?thesis by auto
qed

lemma set_join: "set (join sep xs) \<subseteq> set sep \<union> \<Union> (set ` set xs)"
  by (induction sep xs rule: join.induct) auto

lemma qs_stringify_no_hash: "CHR ''#'' \<notin> set (qs_stringify obj)"
proof -
  define g where "g = (\<lambda>kv :: string \<times> jsval. case snd kv of
        JArr xs \<Rightarrow> map (\<lambda>x. escape (fst kv) @ ''='' @ escape (stringifyPrimitive x)) xs
      | v \<Rightarrow> [escape (fst kv) @ ''='' @ escape (stringifyPrimitive v)])"
  have piece: "CHR ''#'' \<notin> set (escape k @ ''='' @ escape v)" for k v
    using escape_no_hash by simp
  have "CHR ''#'' \<notin> set p" if "p \<in> set (g kv)" for p kv
  proof (cases "snd kv")
    case (JArr xs)
    with that obtain x where "p = escape (fst kv) @ ''='' @ escape (stringifyPrimitive x)"
      by (auto simp: g_def)
    then show ?thesis using piece by blast
  qed (use that piece in \<open>simp_all add: g_def\<close>)
  then have "CHR ''#'' \<notin> \<Union> (set ` set (concat (map g (own_entries obj))))"
    by auto
  moreover have "qs_stringify obj = join ''&'' (concat (map g (own_entries obj)))"
    by (simp add: qs_stringify_def g_def)
  ultimately show ?thesis
    using set_join[of "''&''" "concat (map g (own_entries obj))"] by auto
qed

lemma keep_without_hash:
  "CHR ''#'' \<notin> set s \<Longrightarrow> concat (map (\<lambda>c. if c = CHR ''#'' then ''%23'' else [c]) s) = s"
  by (induction s) auto

lemma url_format_cleared:
  "url_format (p\<lparr>u_search := None, u_query := q\<rparr>) = u_front p @ query_part q @ hash_part (u_hash p)"
  using qs_stringify_no_hash[of q]
  by (simp add: url_format_def query_part_def hash_part_def Let_def keep_without_hash
        split: option.splits)

subsection \<open>Assignments to the query object\<close>

lemma obj_set_keys:
  "map fst (obj_set k v obj) = (if k \<in> set (map fst obj) then map fst obj else map fst obj @ [k])"
  by (induction obj) auto

lemma obj_set_map_of: "map_of (obj_set k v obj) = (map_of obj)(k \<mapsto> v)"
  by (induction obj) (auto simp: fun_eq_iff)

lemma set_parameters_Nil: "set_parameters [] obj = obj"
  by (simp add: set_parameters_def)

lemma set_parameters_Cons: "set_parameters (p # ps) obj = set_parameters ps (obj_set (fst p) (snd p) obj)"
  by (simp add: set_parameters_def)

lemma filter_drop_absent: "x \<notin> set ys \<Longrightarrow> filter (\<lambda>k. k \<noteq> x \<and> P k) ys = filter P ys"
  by (induction ys) auto

lemma set_parameters_keys:
  "distinct (map fst ps) \<Longrightarrow>
   map fst (set_parameters ps obj)
     = map fst obj @ filter (\<lambda>k. k \<notin> set (map fst obj)) (map fst ps)"
proof (induction ps arbitrary: obj)
  case Nil
  then show ?case by (simp add: set_parameters_Nil)
next
  case (Cons p ps)
  then have d: "distinct (map fst ps)" and n: "fst p \<notin> set (map fst ps)" by simp_all
  show ?case
  proof (cases "fst p \<in> set (map fst obj)")
    case True
    then show ?thesis
      using Cons.IH[OF d, of "obj_set (fst p) (snd p) obj"]
      by (simp add: set_parameters_Cons obj_set_keys)
  next
    case False
    have "filter (\<lambda>k. k \<noteq> fst p \<and> k \<notin> set (map fst obj)) (map fst ps)
            = filter (\<lambda>k. k \<notin> set (map fst obj)) (map fst ps)"
      using n by (rule filter_drop_absent)
    with False show ?thesis
      using Cons.IH[OF d, of "obj_set (fst p) (snd p) obj"]
      by (simp add: set_parameters_Cons obj_set_keys)
  qed
qed

lemma set_parameters_map_of:
  "distinct (map fst ps) \<Longrightarrow> map_of (set_parameters ps obj) = map_of obj ++ map_of ps"
proof (induction ps arbitrary: obj)
  case Nil
  then show ?case by (simp add: set_parameters_Nil)
next
  case (Cons p ps)
  then have d: "distinct (map fst ps)" and n: "fst p \<notin> dom (map_of ps)"
    by (simp_all add: dom_map_of_conv_image_fst)
  have "map_of (set_parameters (p # ps) obj) = map_of (obj_set (fst p) (snd p) obj) ++ map_of ps"
    using Cons.IH[OF d, of "obj_set (fst p) (snd p) obj"]
    by (simp add: set_parameters_Cons)
  also have "\<dots> = (map_of obj)(fst p \<mapsto> snd p) ++ map_of ps"
    by (simp only: obj_set_map_of)
  also have "\<dots> = map_of obj ++ map_of (p # ps)"
    using n by (cases p) (auto simp: fun_eq_iff map_add_def split: option.splits)
  finally show ?case .
qed

lemma code_parameters_distinct: "distinct (map fst (code_parameters c scope state))"
  by (simp add: code_parameters_def)

lemma buildRedirectUri_record:
  "CodeResponse_buildRedirectUri env c scope uri' state =
     (url_parse env uri' True)\<lparr>u_search := None,
        u_query := set_parameters (code_parameters c scope state) (u_query (url_parse env uri' True))\<rparr>"
  by (simp add: CodeResponse_buildRedirectUri_def Let_def set_parameters_def code_parameters_def)

lemma code_redirect_location:
  "url_format (CodeResponse_buildRedirectUri env c scope uri' state)
     = u_front (url_parse env uri' True)
       @ query_part (set_parameters (code_parameters c scope state) (u_query (url_parse env uri' True)))
       @ hash_part (u_hash (url_parse env uri' True))"
  unfolding buildRedirectUri_record url_format_cleared ..

subsection \<open>The endpoint\<close>

lemma authorize_code_run:
  assumes parse: "AuthorizationRequest request (allowEmptyState opts) = Inr a"
    and code: "az_responseType a = ''code''"
    and owner: "authenticateResourceOwner env opts request w = (Inr user, w1)"
    and client: "validateClient env a w1 = (Inr client, w2)"
    and scope: "AuthorizeHandler_validateScope env a user client w2 = (Inr scope, w3)"
    and lifetime: "authorizationCodeLifetime opts \<noteq> 0"
    and save: "createAuthorizationCode env (authorizationCodeLifetime opts) client user scope
                 (az_redirectUri a) w3 = (Inr c, w4)"
  shows "AuthorizeHandler_execute env opts request w =
     (Inr (), w4\<lparr>resp := (response_set ''Location''
                              (JStr (url_format (CodeResponse_buildRedirectUri env c scope
                                                   (az_redirectUri a) (az_state a))))
                              (resp w4))\<lparr>res_status := JNum 302\<rparr>\<rparr>)"
  unfolding AuthorizeHandler_execute_def CodeResponse_execute_def
    AuthorizationResponse_setSuccessResponse_def
  using assms by (simp add: io_defs)

text \<open>
  C3, as amended.  Let an authorize request with the response type \<open>code\<close> succeed: it
  parses, the resource owner is authenticated, the client is valid for the requested
  \<open>redirect_uri\<close>, the scope is valid and the authorization code is saved.  Then the handler
  returns, the status is 302, and the \<open>Location\<close> is the front of the parsed \<open>redirect_uri\<close>,
  the query object of the redirect written as a query string, and the fragment of the
  parsed \<open>redirect_uri\<close>.  The query object of the redirect is the query object that
  \<open>url.parse\<close> found in the \<open>redirect_uri\<close> with \<open>code\<close>, then \<open>scope\<close> if truthy, then \<open>state\<close> if
  truthy assigned to it.  So the parameters that the URI came with are kept; one that is
  named \<open>code\<close>, \<open>scope\<close> or \<open>state\<close> keeps its place in the object and takes the new value;
  those of the three names that the URI did not have are created after all the others, in
  this order.  Of the parsed URI only the \<open>search\<close> string is dropped.
\<close>

theorem code_redirect_keeps_query:
  assumes parse: "AuthorizationRequest request (allowEmptyState opts) = Inr a"
    and code: "az_responseType a = ''code''"
    and owner: "authenticateResourceOwner env opts request w = (Inr user, w1)"
    and client: "validateClient env a w1 = (Inr client, w2)"
    and scope: "AuthorizeHandler_validateScope env a user client w2 = (Inr scope, w3)"
    and lifetime: "authorizationCodeLifetime opts \<noteq> 0"
    and save: "createAuthorizationCode env (authorizationCodeLifetime opts) client user scope
                 (az_redirectUri a) w3 = (Inr c, w4)"
  shows "fst (AuthorizeHandler_execute env opts request w) = Inr ()
       \<and> res_status (resp (snd (AuthorizeHandler_execute env opts request w))) = JNum 302
       \<and> response_get (resp (snd (AuthorizeHandler_execute env opts request w))) ''Location''
           = Some (JStr (u_front (url_parse env (az_redirectUri a) True)
                         @ query_part (redirect_query env a c scope)
                         @ hash_part (u_hash (url_parse env (az_redirectUri a) True))))
       \<and> map fst (redirect_query env a c scope)
           = map fst (u_query (url_parse env (az_redirectUri a) True))
             @ filter (\<lambda>k. k \<notin> set (map fst (u_query (url_parse env (az_redirectUri a) True))))
                 (map fst (code_parameters c scope (az_state a)))
       \<and> map_of (redirect_query env a c scope)
           = map_of (u_query (url_parse env (az_redirectUri a) True))
             ++ map_of (code_parameters c scope (az_state a))"
proof -
  have "fst (AuthorizeHandler_execute env opts request w) = Inr ()"
    and "res_status (resp (snd (AuthorizeHandler_execute env opts request w))) = JNum 302"
    and "response_get (resp (snd (AuthorizeHandler_execute env opts request w))) ''Location''
           = Some (JStr (u_front (url_parse env (az_redirectUri a) True)
                         @ query_part (redirect_query env a c scope)
                         @ hash_part (u_hash (url_parse env (az_redirectUri a) True))))"
    unfolding authorize_code_run[OF assms] code_redirect_location redirect_query_def
    by (simp_all add: response_get_def response_set_def)
  moreover have "map fst (redirect_query env a c scope)
           = map fst (u_query (url_parse env (az_redirectUri a) True))
             @ filter (\<lambda>k. k \<notin> set (map fst (u_query (url_parse env (az_redirectUri a) True))))
                 (map fst (code_parameters c scope (az_state a)))"
    unfolding redirect_query_def
    by (rule set_parameters_keys[OF code_parameters_distinct])
  moreover have "map_of (redirect_query env a c scope)
           = map_of (u_query (url_parse env (az_redirectUri a) True))
             ++ map_of (code_parameters c scope (az_state a))"
    unfolding redirect_query_def
    by (rule set_parameters_map_of[OF code_parameters_distinct])
  ultimately show ?thesis by blast
qed

text \<open>The witness: the registered redirect URI \<open>https://app/cb?state=old&foo=1\<close> and the state
  \<open>xyz\<close>.  The parameter \<open>state\<close> of the URI takes the new value at its place, \<open>foo\<close> is kept,
  and the code follows.\<close>

theorem code_redirect_keeps_query_witness:
  "fst (AuthorizeHandler_execute (authorize_host [''https://app/cb?state=old&foo=1'']) authorize_options0
          (authorize_request [(''response_type'', ''code''), (''client_id'', ''c1''),
                              (''redirect_uri'', ''https://app/cb?state=old&foo=1''),
                              (''state'', ''xyz'')])
          world0) = Inr ()
   \<and> res_status (resp (snd (AuthorizeHandler_execute (authorize_host [''https://app/cb?state=old&foo=1''])
          authorize_options0
          (authorize_request [(''response_type'', ''code''), (''client_id'', ''c1''),
                              (''redirect_uri'', ''https://app/cb?state=old&foo=1''),
                              (''state'', ''xyz'')])
          world0))) = JNum 302
   \<and> response_get (resp (snd (AuthorizeHandler_execute (authorize_host [''https://app/cb?state=old&foo=1''])
          authorize_options0
          (authorize_request [(''response_type'', ''code''), (''client_id'', ''c1''),
                              (''redirect_uri'', ''https://app/cb?state=old&foo=1''),
                              (''state'', ''xyz'')])
          world0))) ''Location''
     = Some (JStr ''https://app/cb?state=xyz&foo=1&code=t0'')"
proof -
  let ?uri = "''https://app/cb?state=old&foo=1''"
  let ?H = "authorize_host [?uri]"
  let ?R = "authorize_request [(''response_type'', ''code''), (''client_id'', ''c1''),
                               (''redirect_uri'', ?uri), (''state'', ''xyz'')]"
  let ?a = "\<lparr>az_responseType = ''code'', az_redirectUri = ?uri, az_clientId = ''c1'',
             az_scope = None, az_state = Some ''xyz''\<rparr>"
  have parse: "AuthorizationRequest ?R (allowEmptyState authorize_options0) = Inr ?a"
    by (simp add: AuthorizationRequest_def fixture_defs validator_defs Let_def)
  have code: "az_responseType ?a = ''code''" by simp
  have owner: "authenticateResourceOwner ?H authorize_options0 ?R world0 = (Inr alice, world0)"
    by (simp add: authenticateResourceOwner_def io_defs fixture_defs)
  obtain w2 where client: "validateClient ?H ?a world0 = (Inr (web_client [?uri]), w2)"
    by (simp add: validateClient_def io_defs fixture_defs)
  have scope: "AuthorizeHandler_validateScope ?H ?a alice (web_client [?uri]) w2 = (Inr JUndefined, w2)"
    by (simp add: AuthorizeHandler_validateScope_def io_defs fixture_defs of_opt_def)
  have lifetime: "authorizationCodeLifetime authorize_options0 \<noteq> 0"
    by (simp add: fixture_defs)
  obtain w4 where save: "createAuthorizationCode ?H (authorizationCodeLifetime authorize_options0)
      (web_client [?uri]) alice JUndefined (az_redirectUri ?a) w2 = (Inr (JStr ''t0''), w4)"
  proof -
    have "store w2 = 0"
      using client by (auto simp: validateClient_def io_defs fixture_defs split: if_splits)
    then have "\<exists>w4. createAuthorizationCode ?H (authorizationCodeLifetime authorize_options0)
      (web_client [?uri]) alice JUndefined (az_redirectUri ?a) w2 = (Inr (JStr ''t0''), w4)"
      by (simp add: createAuthorizationCode_def setAuthorizationCodeExpiresAt_def lifetime_or_def
            io_defs fixture_defs validator_defs)
    then show ?thesis using that by blast
  qed
  have p: "url_parse ?H ?uri True =
      \<lparr>u_front = ''https://app/cb'', u_search = Some ''?state=old&foo=1'',
       u_query = [(''state'', JStr ''old''), (''foo'', JStr ''1'')], u_hash = None\<rparr>"
    by (simp add: url_defs fixture_defs)
  have q: "redirect_query ?H ?a (JStr ''t0'') JUndefined
             = [(''state'', JStr ''xyz''), (''foo'', JStr ''1''), (''code'', JStr ''t0'')]"
    by (simp add: redirect_query_def p set_parameters_def code_parameters_def truthy_opt_def of_opt_def)
  have s: "query_part [(''state'', JStr ''xyz''), (''foo'', JStr ''1''), (''code'', JStr ''t0'')]
             = ''?state=xyz&foo=1&code=t0''"
    by (simp add: query_part_def url_defs validator_defs)
  from code_redirect_keeps_query[OF parse code owner client scope lifetime save]
  show ?thesis
    by (simp add: p q s hash_part_def)
qed

text \<open>C3 as stated fails: the authorize request names the registered redirect URI
  \<open>https://app/cb?foo=1\<close>, and the success redirect carries \<open>foo=1\<close> in front of the code and
  the state.\<close>

theorem code_redirect_counterexample:
  "fst (AuthorizeHandler_execute (authorize_host [''https://app/cb?foo=1'']) authorize_options0
          (authorize_request [(''response_type'', ''code''), (''client_id'', ''c1''),
                              (''redirect_uri'', ''https://app/cb?foo=1''), (''state'', ''xyz'')])
          world0) = Inr ()
   \<and> response_get (resp (snd (AuthorizeHandler_execute (authorize_host [''https://app/cb?foo=1''])
          authorize_options0
          (authorize_request [(''response_type'', ''code''), (''client_id'', ''c1''),
                              (''redirect_uri'', ''https://app/cb?foo=1''), (''state'', ''xyz'')])
          world0))) ''Location''
     = Some (JStr ''https://app/cb?foo=1&code=t0&state=xyz'')
   \<and> map_of (u_query (CodeResponse_buildRedirectUri (authorize_host [''https://app/cb?foo=1''])
                        (JStr ''t0'') JUndefined ''https://app/cb?foo=1'' (Some ''xyz''))) ''foo''
     = Some (JStr ''1'')"
  by (simp add: authorize_defs url_defs handler_defs io_defs err_defs fixture_defs validator_defs)

text \<open>With the parser of the examples this holds of every redirect URI that ends in \<open>?foo=1\<close>:
  the query object of the redirect begins with \<open>foo\<close>.\<close>

lemma before_absent: "d \<notin> set s \<Longrightarrow> before d s = s"
  and from_first_absent: "d \<notin> set s \<Longrightarrow> from_first d s = None"
  by (induction s) (auto simp: before_def from_first_def)

lemma before_at: "d \<notin> set f \<Longrightarrow> before d (f @ d # r) = f"
  and from_first_at: "d \<notin> set f \<Longrightarrow> from_first d (f @ d # r) = Some (d # r)"
  by (induction f) (auto simp: before_def from_first_def)

lemma plain_url_parse_foo:
  assumes "CHR ''?'' \<notin> set f" "CHR ''#'' \<notin> set f"
  shows "plain_url_parse (f @ ''?foo=1'') True =
     \<lparr>u_front = f, u_search = Some ''?foo=1'', u_query = [(''foo'', JStr ''1'')], u_hash = None\<rparr>"
proof -
  have h: "CHR ''#'' \<notin> set (f @ ''?foo=1'')" using assms(2) by simp
  have 5: "qs_parse ''foo=1'' = [(''foo'', JStr ''1'')]"
    by (simp add: url_defs validator_defs)
  have "''?foo=1'' = CHR ''?'' # ''foo=1''" by simp
  then show ?thesis
    unfolding plain_url_parse_def Let_def before_absent[OF h] from_first_absent[OF h]
    using before_at[OF assms(1), of "''foo=1''"] from_first_at[OF assms(1), of "''foo=1''"] 5
    by simp
qed

lemma code_redirect_keeps_foo:
  assumes "url_parse env = plain_url_parse" "az_redirectUri a = f @ ''?foo=1''"
    and "CHR ''?'' \<notin> set f" "CHR ''#'' \<notin> set f"
  shows "redirect_query env a c scope = (''foo'', JStr ''1'') # code_parameters c scope (az_state a)"
  using assms
  by (simp add: redirect_query_def plain_url_parse_foo set_parameters_def code_parameters_def)

end
